theory Spec2Isabelle
  imports Complex_Main "HOL-Library.AList" "HOL-Library.Char_ord" "HOL-Library.List_Lexorder"
begin

section \<open>Dynamic values\<close>

text \<open>
  The engine moves data through Go values of type \<^verbatim>\<open>interface{}\<close> (move payloads, snapshot
  maps, event payloads). The constructors below are the dynamic types the code inspects with
  type assertions and type switches. A Go map is an association list with one entry per key
  (\<^verbatim>\<open>m[k] = v\<close> is \<open>AList.update\<close>, \<^verbatim>\<open>m[k]\<close> is \<open>map_of\<close>); a nil slice or nil map and an
  empty one are the same list, since the engine only reads them through \<^verbatim>\<open>len\<close>, \<^verbatim>\<open>range\<close> and
  lookups. Go's 64-bit \<^verbatim>\<open>int\<close> is \<open>int\<close>, with the wrap-around written out (\<open>wrap64\<close>)
  where the engine increments a counter. \<^verbatim>\<open>float64\<close> (every number decoded by
  encoding/json) is \<open>real\<close>, with the rounding of an integer to the nearest \<^verbatim>\<open>float64\<close>
  and the conversion back to \<^verbatim>\<open>int\<close> written out where the code does them.
\<close>

datatype dyn =
    DNil
  | DBool bool
  | DString string
  | DInt int
  | DFloat real
  | DStrings "string list"
  | DInts "int list"
  | DList "dyn list"
  | DStrMap "(string \<times> string) list"
  | DMap "(string \<times> dyn) list"

type_synonym payload = "(string \<times> dyn) list"

text \<open>\<^verbatim>\<open>m[k]\<close> on a \<^verbatim>\<open>map[string]interface{}\<close>: a missing key reads as the nil interface.\<close>

definition pget :: "payload \<Rightarrow> string \<Rightarrow> dyn" where
  "pget m k = (case map_of m k of None \<Rightarrow> DNil | Some v \<Rightarrow> v)"

text \<open>\<^verbatim>\<open>v, _ := m[k].(string)\<close>: the zero value \<^verbatim>\<open>""\<close> when the assertion fails.\<close>

definition asString :: "dyn \<Rightarrow> string" where
  "asString v = (case v of DString s \<Rightarrow> s | _ \<Rightarrow> [])"

section \<open>Rules configuration (src/internal/games/config.go)\<close>

abbreviation PhaseLobby :: string where "PhaseLobby \<equiv> ''lobby''"
abbreviation PhaseTeamSelection :: string where "PhaseTeamSelection \<equiv> ''team_selection''"
abbreviation PhaseTeamVote :: string where "PhaseTeamVote \<equiv> ''team_vote''"
abbreviation PhaseMissionVote :: string where "PhaseMissionVote \<equiv> ''mission_vote''"
abbreviation PhaseMissionResolution :: string where "PhaseMissionResolution \<equiv> ''mission_resolution''"
abbreviation PhaseFinished :: string where "PhaseFinished \<equiv> ''finished''"

abbreviation ActionStartGame :: string where "ActionStartGame \<equiv> ''start_game''"
abbreviation ActionProposeTeam :: string where "ActionProposeTeam \<equiv> ''propose_team''"
abbreviation ActionVote :: string where "ActionVote \<equiv> ''vote''"

record PhaseDef =
  Name :: string
  AllowedActions :: "string list"

text \<open>
  \<^verbatim>\<open>Phases\<close> and \<^verbatim>\<open>TeamSizes\<close> are slices that \<^verbatim>\<open>NewEngine\<close> compares with nil, so here nil
  (\<open>None\<close>) and an empty slice are kept apart.
\<close>

record RulesConfig =
  Phases :: "PhaseDef list option"
  MinPlayers :: int
  MaxPlayers :: int
  TeamSizes :: "int list option"
  FailThreshold :: int

definition ClassicAvalonPhases :: "PhaseDef list" where
  "ClassicAvalonPhases =
    [\<lparr>Name = PhaseLobby, AllowedActions = [ActionStartGame]\<rparr>,
     \<lparr>Name = PhaseTeamSelection, AllowedActions = [ActionProposeTeam]\<rparr>,
     \<lparr>Name = PhaseTeamVote, AllowedActions = [ActionVote]\<rparr>,
     \<lparr>Name = PhaseMissionVote, AllowedActions = [ActionVote]\<rparr>,
     \<lparr>Name = PhaseMissionResolution, AllowedActions = []\<rparr>,
     \<lparr>Name = PhaseFinished, AllowedActions = []\<rparr>]"

definition DefaultTeamSizesForPlayerCount :: "int \<Rightarrow> int list" where
  "DefaultTeamSizesForPlayerCount n =
    (if n = 5 then [2, 3, 2, 3, 3]
     else if n = 6 then [2, 3, 4, 3, 4]
     else if n = 7 then [2, 3, 3, 4, 4]
     else if n = 8 then [3, 4, 4, 5, 5]
     else if n = 9 then [3, 4, 4, 5, 5]
     else if n = 10 then [3, 4, 4, 5, 5]
     else [2, 3, 2, 3, 3])"

text \<open>The struct literal leaves \<^verbatim>\<open>TeamSizes\<close> unset, that is nil.\<close>

definition ClassicAvalonConfig :: RulesConfig where
  "ClassicAvalonConfig =
    \<lparr>Phases = Some ClassicAvalonPhases, MinPlayers = 5, MaxPlayers = 10,
     TeamSizes = None, FailThreshold = 3\<rparr>"

section \<open>Game state (package games, in src/internal/httpapi/handler/auth.go)\<close>

record GameState =
  GameID :: string
  Phase :: string
  Status :: string
  RoundIndex :: int
  LeaderIndex :: int
  PlayerIDs :: "string list"
  Roles :: "(string \<times> string) list"
  ProposedTeam :: "string list"
  TeamVotes :: "(string \<times> string) list"
  MissionVotes :: "(string \<times> string) list"
  MissionResults :: "string list"
  RejectCount :: int
  Winner :: string
  Version :: int

text \<open>The zero value \<^verbatim>\<open>&GameState{}\<close>.\<close>

definition emptyState :: GameState where
  "emptyState =
    \<lparr>GameID = [], Phase = [], Status = [], RoundIndex = 0, LeaderIndex = 0, PlayerIDs = [],
     Roles = [], ProposedTeam = [], TeamVotes = [], MissionVotes = [], MissionResults = [],
     RejectCount = 0, Winner = [], Version = 0\<rparr>"

text \<open>
  \<^verbatim>\<open>Clone\<close> copies the struct and every slice and map of it. With values instead of references
  the copy is the state itself.
\<close>

definition Clone :: "GameState \<Rightarrow> GameState" where
  "Clone s = s"

definition LeaderPlayerID :: "GameState \<Rightarrow> string" where
  "LeaderPlayerID s =
    (if LeaderIndex s < 0 \<or> LeaderIndex s \<ge> int (length (PlayerIDs s)) then []
     else PlayerIDs s ! nat (LeaderIndex s))"

section \<open>The engine (src/internal/games/engine.go)\<close>

text \<open>
  Every \<^verbatim>\<open>fmt.Errorf\<close> of the engine is one constructor, with the values the message
  formats; \<open>Panic\<close> stands for a Go run-time panic (division by zero, index out of range).
\<close>

datatype err =
    ErrGetState
  | ErrGameNotStarted
  | ErrOnlyStartGameInLobby
  | ErrGameAlreadyFinished
  | ErrUnknownMoveType string
  | ErrNoStateUpdate
  | ErrPersistEvent
  | ErrPersistSnapshot
  | ErrGetPlayers
  | ErrPlayerCount int int int
  | ErrCreateInitialSnapshot
  | ErrUpdateGameStatus
  | ErrPlayerNotInGame
  | ErrApprovedRequired
  | ErrSuccessRequired
  | ErrAlreadyVoted
  | ErrOnlyTeamMembers
  | ErrVoteNotAllowed string
  | ErrActionRequired
  | ErrActionNotAllowed string string
  | ErrGameAlreadyStarted
  | ErrOnlyLeader
  | ErrTeamRequired
  | ErrTeamSize int
  | ErrNonPlayer string
  | ErrNotImplemented string
  | Panic

record BroadcastEvent =
  Event :: string
  Payload :: payload

text \<open>
  \<^verbatim>\<open>NewEngine\<close>: the engine is its configuration; the two stores it keeps are passed to the
  operations that use them.
\<close>

definition NewEngine :: "RulesConfig \<Rightarrow> RulesConfig" where
  "NewEngine config0 =
    (let config1 = (if Phases config0 = None then ClassicAvalonConfig else config0);
         config2 = (if TeamSizes config1 = None
                    then config1\<lparr>TeamSizes := Some [2, 3, 2, 3, 3]\<rparr> else config1);
         config3 = (if FailThreshold config2 \<le> 0
                    then config2\<lparr>FailThreshold := 3\<rparr> else config2)
     in config3)"

text \<open>
  Go's \<^verbatim>\<open>int\<close> has 64 bits: \<^verbatim>\<open>x++\<close> and \<^verbatim>\<open>x + 1\<close> wrap around at \<open>2^63 - 1\<close>.
\<close>

definition wrap64 :: "int \<Rightarrow> int" where
  "wrap64 x = (x + 9223372036854775808) mod 18446744073709551616 - 9223372036854775808"

text \<open>Go's \<^verbatim>\<open>%\<close> on integers truncates towards zero; a zero divisor panics (checked by the caller).\<close>

definition go_rem :: "int \<Rightarrow> int \<Rightarrow> int" where
  "go_rem a b = sgn a * (\<bar>a\<bar> mod \<bar>b\<bar>)"

definition isPlayerInGame :: "GameState \<Rightarrow> string \<Rightarrow> bool" where
  "isPlayerInGame state roomPlayerID = (roomPlayerID \<in> set (PlayerIDs state))"

definition isOnProposedTeam :: "GameState \<Rightarrow> string \<Rightarrow> bool" where
  "isOnProposedTeam state roomPlayerID = (roomPlayerID \<in> set (ProposedTeam state))"

definition getAllowedActions :: "RulesConfig \<Rightarrow> string \<Rightarrow> string list" where
  "getAllowedActions e phase =
    (case find (\<lambda>p. Name p = phase) (case Phases e of None \<Rightarrow> [] | Some ps \<Rightarrow> ps) of
       None \<Rightarrow> []
     | Some p \<Rightarrow> AllowedActions p)"

text \<open>
  The payload of a vote: a bool, or one of the strings \<^verbatim>\<open>"true"\<close> and \<^verbatim>\<open>"false"\<close>
  (the code reads \<^verbatim>\<open>approved\<close> and \<^verbatim>\<open>success\<close> this same way).
\<close>

definition boolFromPayload :: "dyn \<Rightarrow> bool option" where
  "boolFromPayload v =
    (case v of
       DBool b \<Rightarrow> Some b
     | DString s \<Rightarrow> (if s = ''true'' \<or> s = ''false'' then Some (s = ''true'') else None)
     | _ \<Rightarrow> None)"

text \<open>\<^verbatim>\<open>stringSliceFromPayload\<close>: of a \<^verbatim>\<open>[]interface{}\<close> only the strings are kept.\<close>

definition stringsOf :: "dyn list \<Rightarrow> string list" where
  "stringsOf xs = concat (map (\<lambda>x. case x of DString s \<Rightarrow> [s] | _ \<Rightarrow> []) xs)"

definition stringSliceFromPayload :: "dyn \<Rightarrow> string list option" where
  "stringSliceFromPayload v =
    (case v of
       DStrings x \<Rightarrow> Some x
     | DList x \<Rightarrow> (let out = stringsOf x in if length out > 0 then Some out else None)
     | _ \<Rightarrow> None)"

definition countOf :: "string \<Rightarrow> string list \<Rightarrow> nat" where
  "countOf v xs = length (filter (\<lambda>x. x = v) xs)"

text \<open>The \<^verbatim>\<open>case PhaseTeamVote\<close> of \<^verbatim>\<open>applyVote\<close>.\<close>

definition applyVote_TeamVote ::
  "RulesConfig \<Rightarrow> GameState \<Rightarrow> string \<Rightarrow> payload \<Rightarrow> err + (GameState \<times> BroadcastEvent list)" where
  "applyVote_TeamVote e state roomPlayerID pl =
    (case boolFromPayload (pget pl ''approved'') of
       None \<Rightarrow> Inl ErrApprovedRequired
     | Some approved \<Rightarrow>
        (let next0 = Clone state in
         if map_of (TeamVotes next0) roomPlayerID \<noteq> None then Inl ErrAlreadyVoted
         else
          (let v = (if approved then ''approve'' else ''reject'');
               next1 = next0\<lparr>TeamVotes := AList.update roomPlayerID v (TeamVotes next0)\<rparr>
           in
           if length (TeamVotes next1) \<ge> length (PlayerIDs next1) then
             (let approveCount = countOf ''approve'' (map snd (TeamVotes next1)) in
              if approveCount > length (PlayerIDs next1) div 2 then
                (let next2 = next1\<lparr>Phase := PhaseMissionVote, TeamVotes := []\<rparr> in
                 Inr (next2, [\<lparr>Event = ''team_approved'',
                               Payload = [(''phase'', DString (Phase next2))]\<rparr>]))
              else if length (PlayerIDs next1) = 0 then Inl Panic
              else
                (let next2 = next1\<lparr>RejectCount := wrap64 (RejectCount next1 + 1),
                                   Phase := PhaseTeamSelection,
                                   LeaderIndex := go_rem (wrap64 (LeaderIndex next1 + 1))
                                                    (int (length (PlayerIDs next1))),
                                   ProposedTeam := [], TeamVotes := []\<rparr> in
                 Inr (next2, [\<lparr>Event = ''team_rejected'',
                               Payload = [(''phase'', DString (Phase next2)),
                                          (''reject_count'', DInt (RejectCount next2)),
                                          (''leader_id'', DString (LeaderPlayerID next2))]\<rparr>])))
           else Inr (next1, [\<lparr>Event = ''vote_recorded'',
                             Payload = [(''player_id'', DString roomPlayerID)]\<rparr>]))))"

text \<open>The \<^verbatim>\<open>case PhaseMissionVote\<close> of \<^verbatim>\<open>applyVote\<close>.\<close>

definition applyVote_MissionVote ::
  "RulesConfig \<Rightarrow> GameState \<Rightarrow> string \<Rightarrow> payload \<Rightarrow> err + (GameState \<times> BroadcastEvent list)" where
  "applyVote_MissionVote e state roomPlayerID pl =
    (case boolFromPayload (pget pl ''success'') of
       None \<Rightarrow> Inl ErrSuccessRequired
     | Some success \<Rightarrow>
        if \<not> isOnProposedTeam state roomPlayerID then Inl ErrOnlyTeamMembers
        else
         (let next0 = Clone state in
          if map_of (MissionVotes next0) roomPlayerID \<noteq> None then Inl ErrAlreadyVoted
          else
           (let next1 = next0\<lparr>MissionVotes :=
                          AList.update roomPlayerID (if success then ''success'' else ''fail'')
                            (MissionVotes next0)\<rparr>;
                teamSize = length (ProposedTeam state)
            in
            if length (MissionVotes next1) \<ge> teamSize then
              (let failCount = countOf ''fail'' (map snd (MissionVotes next1));
                   result = (if failCount > 0 then ''fail'' else ''success'')
               in
               if length (PlayerIDs next1) = 0 then Inl Panic
               else
                (let next2 = next1\<lparr>MissionResults := MissionResults next1 @ [result],
                                   MissionVotes := [], ProposedTeam := [],
                                   Phase := PhaseTeamSelection,
                                   LeaderIndex := go_rem (wrap64 (LeaderIndex next1 + 1))
                                                    (int (length (PlayerIDs next1))),
                                   RejectCount := 0,
                                   RoundIndex := wrap64 (RoundIndex next1 + 1)\<rparr>;
                     failTotal = int (countOf ''fail'' (MissionResults next2));
                     successTotal = int (length (MissionResults next2)) - failTotal
                 in
                 if failTotal \<ge> FailThreshold e then
                   (let next3 = next2\<lparr>Status := ''finished'', Phase := PhaseFinished,
                                      Winner := ''evil''\<rparr> in
                    Inr (next3, [\<lparr>Event = ''game_ended'',
                                  Payload = [(''winner'', DString (Winner next3)),
                                             (''mission_result'', DString result)]\<rparr>]))
                 else if successTotal \<ge> 3 then
                   (let next3 = next2\<lparr>Status := ''finished'', Phase := PhaseFinished,
                                      Winner := ''good''\<rparr> in
                    Inr (next3, [\<lparr>Event = ''game_ended'',
                                  Payload = [(''winner'', DString (Winner next3)),
                                             (''mission_result'', DString result)]\<rparr>]))
                 else
                   Inr (next2, [\<lparr>Event = ''mission_resolved'',
                                 Payload = [(''result'', DString result),
                                            (''round_index'', DInt (RoundIndex next2)),
                                            (''leader_id'', DString (LeaderPlayerID next2)),
                                            (''phase'', DString (Phase next2))]\<rparr>])))
            else Inr (next1, [\<lparr>Event = ''vote_recorded'',
                              Payload = [(''player_id'', DString roomPlayerID)]\<rparr>]))))"

definition applyVote ::
  "RulesConfig \<Rightarrow> GameState \<Rightarrow> string \<Rightarrow> payload \<Rightarrow> err + (GameState \<times> BroadcastEvent list)" where
  "applyVote e state roomPlayerID pl =
    (if \<not> isPlayerInGame state roomPlayerID then Inl ErrPlayerNotInGame
     else if Phase state = PhaseTeamVote then applyVote_TeamVote e state roomPlayerID pl
     else if Phase state = PhaseMissionVote then applyVote_MissionVote e state roomPlayerID pl
     else Inl (ErrVoteNotAllowed (Phase state)))"

text \<open>\<^verbatim>\<open>teamSizes[i]\<close>: an index out of range panics.\<close>

definition index_or_panic :: "'a list \<Rightarrow> int \<Rightarrow> err + 'a" where
  "index_or_panic xs i = (if 0 \<le> i \<and> i < int (length xs) then Inr (xs ! nat i) else Inl Panic)"

text \<open>The \<^verbatim>\<open>case ActionProposeTeam\<close> of \<^verbatim>\<open>applyAction\<close>.\<close>

definition applyAction_ProposeTeam ::
  "RulesConfig \<Rightarrow> GameState \<Rightarrow> string \<Rightarrow> payload \<Rightarrow> err + (GameState \<times> BroadcastEvent list)" where
  "applyAction_ProposeTeam e state roomPlayerID pl =
    (if LeaderPlayerID state \<noteq> roomPlayerID then Inl ErrOnlyLeader
     else
      (case (case stringSliceFromPayload (pget pl ''team_ids'') of
               Some t \<Rightarrow> Some t
             | None \<Rightarrow> stringSliceFromPayload (pget pl ''team'')) of
         None \<Rightarrow> Inl ErrTeamRequired
       | Some team \<Rightarrow>
          (let teamSizes0 = (case TeamSizes e of None \<Rightarrow> [] | Some ts \<Rightarrow> ts);
               teamSizes = (if length teamSizes0 = 0
                            then DefaultTeamSizesForPlayerCount (int (length (PlayerIDs state)))
                            else teamSizes0);
               roundIdx = (if RoundIndex state \<le> 0 \<or> RoundIndex state > int (length teamSizes)
                           then 1 else RoundIndex state)
           in
           case index_or_panic teamSizes (roundIdx - 1) of
             Inl p \<Rightarrow> Inl p
           | Inr requiredSize \<Rightarrow>
              if int (length team) \<noteq> requiredSize then Inl (ErrTeamSize requiredSize)
              else
               (case find (\<lambda>pid. \<not> isPlayerInGame state pid) team of
                  Some pid \<Rightarrow> Inl (ErrNonPlayer pid)
                | None \<Rightarrow>
                   (let next = (Clone state)\<lparr>ProposedTeam := team, Phase := PhaseTeamVote,
                                             TeamVotes := []\<rparr> in
                    Inr (next, [\<lparr>Event = ''team_proposed'',
                                  Payload = [(''team'', DStrings team),
                                             (''phase'', DString (Phase next))]\<rparr>]))))))"

definition applyAction ::
  "RulesConfig \<Rightarrow> GameState \<Rightarrow> string \<Rightarrow> payload \<Rightarrow> err + (GameState \<times> BroadcastEvent list)" where
  "applyAction e state roomPlayerID pl =
    (let action0 = asString (pget pl ''action'');
         action = (if action0 = [] then asString (pget pl ''type'') else action0)
     in
     if action = [] then Inl ErrActionRequired
     else if action \<notin> set (getAllowedActions e (Phase state))
       then Inl (ErrActionNotAllowed action (Phase state))
     else if action = ActionStartGame then Inl ErrGameAlreadyStarted
     else if action = ActionProposeTeam then applyAction_ProposeTeam e state roomPlayerID pl
     else Inl (ErrNotImplemented action))"

section \<open>Snapshot maps (package games, in src/internal/httpapi/handler/auth.go)\<close>

definition ToMap :: "GameState \<Rightarrow> payload" where
  "ToMap s =
    (let m0 = [(''game_id'', DString (GameID s)),
               (''phase'', DString (Phase s)),
               (''status'', DString (Status s)),
               (''round_index'', DInt (RoundIndex s)),
               (''leader_index'', DInt (LeaderIndex s)),
               (''player_ids'', DStrings (PlayerIDs s)),
               (''reject_count'', DInt (RejectCount s)),
               (''version'', DInt (Version s))];
         m1 = (if length (Roles s) > 0 then AList.update ''roles'' (DStrMap (Roles s)) m0 else m0);
         m2 = (if length (ProposedTeam s) > 0
               then AList.update ''proposed_team'' (DStrings (ProposedTeam s)) m1 else m1);
         m3 = (if length (TeamVotes s) > 0
               then AList.update ''team_votes'' (DStrMap (TeamVotes s)) m2 else m2);
         m4 = (if length (MissionVotes s) > 0
               then AList.update ''mission_votes'' (DStrMap (MissionVotes s)) m3 else m3);
         m5 = (if length (MissionResults s) > 0
               then AList.update ''mission_results'' (DStrings (MissionResults s)) m4 else m4);
         m6 = (if Winner s \<noteq> [] then AList.update ''winner'' (DString (Winner s)) m5 else m5)
     in m6)"

text \<open>
  \<^verbatim>\<open>int(v)\<close> of a \<^verbatim>\<open>float64\<close> drops the fraction. For a value outside the range of
  \<^verbatim>\<open>int\<close> the language leaves the result to the implementation; the value taken here is the
  one of amd64, the least 64-bit integer.
\<close>

definition int_of_float64 :: "real \<Rightarrow> int" where
  "int_of_float64 v =
    (let t = (if v \<ge> 0 then \<lfloor>v\<rfloor> else \<lceil>v\<rceil>) in
     if - 9223372036854775808 \<le> t \<and> t < 9223372036854775808 then t
     else - 9223372036854775808)"

definition floatToInt :: "dyn \<Rightarrow> int option" where
  "floatToInt a =
    (case a of
       DFloat v \<Rightarrow> Some (int_of_float64 v)
     | DInt v \<Rightarrow> Some v
     | _ \<Rightarrow> None)"

definition stringSlice :: "dyn \<Rightarrow> string list option" where
  "stringSlice a =
    (case a of
       DStrings v \<Rightarrow> Some v
     | DList v \<Rightarrow> Some (stringsOf v)
     | _ \<Rightarrow> None)"

text \<open>\<^verbatim>\<open>stringMap\<close> asserts \<^verbatim>\<open>map[string]interface{}\<close> and nothing else.\<close>

definition stringMap :: "dyn \<Rightarrow> (string \<times> string) list option" where
  "stringMap a =
    (case a of
       DMap m \<Rightarrow> Some (concat (map (\<lambda>kv. case snd kv of DString s \<Rightarrow> [(fst kv, s)] | _ \<Rightarrow> []) m))
     | _ \<Rightarrow> None)"

definition asStringOpt :: "dyn \<Rightarrow> string option" where
  "asStringOpt v = (case v of DString s \<Rightarrow> Some s | _ \<Rightarrow> None)"

text \<open>One \<^verbatim>\<open>if v, ok := ...; ok { s.F = v }\<close> of \<^verbatim>\<open>StateFromMap\<close>.\<close>

definition setIf :: "'a option \<Rightarrow> ('a \<Rightarrow> GameState \<Rightarrow> GameState) \<Rightarrow> GameState \<Rightarrow> GameState" where
  "setIf r upd s = (case r of None \<Rightarrow> s | Some v \<Rightarrow> upd v s)"

definition StateFromMap :: "payload \<Rightarrow> GameState" where
  "StateFromMap m =
    (setIf (floatToInt (pget m ''version'')) (\<lambda>v s. s\<lparr>Version := v\<rparr>)
    (setIf (asStringOpt (pget m ''winner'')) (\<lambda>v s. s\<lparr>Winner := v\<rparr>)
    (setIf (floatToInt (pget m ''reject_count'')) (\<lambda>v s. s\<lparr>RejectCount := v\<rparr>)
    (setIf (stringSlice (pget m ''mission_results'')) (\<lambda>v s. s\<lparr>MissionResults := v\<rparr>)
    (setIf (stringMap (pget m ''mission_votes'')) (\<lambda>v s. s\<lparr>MissionVotes := v\<rparr>)
    (setIf (stringMap (pget m ''team_votes'')) (\<lambda>v s. s\<lparr>TeamVotes := v\<rparr>)
    (setIf (stringSlice (pget m ''proposed_team'')) (\<lambda>v s. s\<lparr>ProposedTeam := v\<rparr>)
    (setIf (stringMap (pget m ''roles'')) (\<lambda>v s. s\<lparr>Roles := v\<rparr>)
    (setIf (stringSlice (pget m ''player_ids'')) (\<lambda>v s. s\<lparr>PlayerIDs := v\<rparr>)
    (setIf (floatToInt (pget m ''leader_index'')) (\<lambda>v s. s\<lparr>LeaderIndex := v\<rparr>)
    (setIf (floatToInt (pget m ''round_index'')) (\<lambda>v s. s\<lparr>RoundIndex := v\<rparr>)
    (setIf (asStringOpt (pget m ''status'')) (\<lambda>v s. s\<lparr>Status := v\<rparr>)
    (setIf (asStringOpt (pget m ''phase'')) (\<lambda>v s. s\<lparr>Phase := v\<rparr>)
    (setIf (asStringOpt (pget m ''game_id'')) (\<lambda>v s. s\<lparr>GameID := v\<rparr>)
      emptyState))))))))))))))"

text \<open>
  What \<^verbatim>\<open>json.Marshal\<close> followed by \<^verbatim>\<open>json.Unmarshal\<close> into an \<^verbatim>\<open>interface{}\<close> makes of a
  value: every number a \<^verbatim>\<open>float64\<close>, every slice a \<^verbatim>\<open>[]interface{}\<close>, every map a
  \<^verbatim>\<open>map[string]interface{}\<close>. This is the form in which the store hands a snapshot back.
  (A nil slice, which the model does not tell from an empty one, is written as \<^verbatim>\<open>null\<close> and
  not as an empty array; \<^verbatim>\<open>StateFromMap\<close> and \<^verbatim>\<open>stringSliceFromPayload\<close> make the same of
  both.)

  Strings. The encoder copies the bytes of a string that are valid UTF-8 and writes the
  replacement character U+FFFD (the bytes EF BF BD) for every byte at which
  \<^verbatim>\<open>utf8.DecodeRuneInString\<close> finds no valid encoding; the escapes it writes are undone by the
  decoder. \<open>rune_size\<close> is the length of the encoding at the head of a string, 0 if there is
  none; \<open>json_bytes k\<close> copies \<open>k\<close> bytes of an encoding already checked and goes on.
\<close>

definition byte_in :: "char \<Rightarrow> nat \<Rightarrow> nat \<Rightarrow> bool" where
  "byte_in c lo hi \<longleftrightarrow> lo \<le> (of_char c :: nat) \<and> (of_char c :: nat) \<le> hi"

definition rune_size :: "string \<Rightarrow> nat" where
  "rune_size s =
    (case s of
       [] \<Rightarrow> 0
     | c0 # r \<Rightarrow>
        (if byte_in c0 0x00 0x7F then 1
         else if byte_in c0 0xC2 0xDF then
           (case r of
              c1 # _ \<Rightarrow> if byte_in c1 0x80 0xBF then 2 else 0
            | _ \<Rightarrow> 0)
         else if byte_in c0 0xE0 0xEF then
           (case r of
              c1 # c2 # _ \<Rightarrow>
                if byte_in c1 (if c0 = CHR 0xE0 then 0xA0 else 0x80)
                              (if c0 = CHR 0xED then 0x9F else 0xBF) \<and>
                   byte_in c2 0x80 0xBF then 3 else 0
            | _ \<Rightarrow> 0)
         else if byte_in c0 0xF0 0xF4 then
           (case r of
              c1 # c2 # c3 # _ \<Rightarrow>
                if byte_in c1 (if c0 = CHR 0xF0 then 0x90 else 0x80)
                              (if c0 = CHR 0xF4 then 0x8F else 0xBF) \<and>
                   byte_in c2 0x80 0xBF \<and> byte_in c3 0x80 0xBF then 4 else 0
            | _ \<Rightarrow> 0)
         else 0))"

fun json_bytes :: "nat \<Rightarrow> string \<Rightarrow> string" where
  "json_bytes k [] = []"
| "json_bytes (Suc k) (c # cs) = c # json_bytes k cs"
| "json_bytes 0 (c # cs) =
     (let n = rune_size (c # cs) in
      if n = 0 then [CHR 0xEF, CHR 0xBF, CHR 0xBD] @ json_bytes 0 cs
      else c # json_bytes (n - 1) cs)"

definition json_string :: "string \<Rightarrow> string" where
  "json_string s = json_bytes 0 s"

text \<open>
  Numbers. An \<^verbatim>\<open>int\<close> is written in decimal and read back as the nearest \<^verbatim>\<open>float64\<close>
  (53 significant bits, ties to even): exact up to \<open>2^53\<close> in absolute value, rounded above.
  A \<^verbatim>\<open>float64\<close> is written so that it reads back as itself.
\<close>

fun bit_length :: "nat \<Rightarrow> nat" where
  "bit_length n = (if n = 0 then 0 else Suc (bit_length (n div 2)))"

declare bit_length.simps [simp del]

definition float64_of_int :: "int \<Rightarrow> real" where
  "float64_of_int i =
    (let a = nat \<bar>i\<bar> in
     if a \<le> 9007199254740992 then of_int i
     else
      (let e = bit_length a - 53;
           q = a div 2 ^ e;
           r = a mod 2 ^ e;
           half = 2 ^ (e - 1);
           q' = (if r > half \<or> (r = half \<and> odd q) then q + 1 else q)
       in of_int (sgn i * int (q' * 2 ^ e))))"

text \<open>
  Objects. The keys of a map are encoded as strings are, in the order of the keys (bytewise);
  of two keys that have become the same string the decoder keeps the value read last. As long
  as the encoded keys are distinct, the entries are kept in the order in which the
  association list has them (a map has none).
\<close>

definition json_object :: "(string \<times> 'a) list \<Rightarrow> (string \<times> 'a) list" where
  "json_object m =
    (let m' = map (\<lambda>kv. (json_string (fst kv), snd kv)) m in
     if distinct (map fst m') then m'
     else fold (\<lambda>kv acc. AList.update (json_string (fst kv)) (snd kv) acc) (sort_key fst m) [])"

fun json_value :: "dyn \<Rightarrow> dyn" where
  "json_value DNil = DNil"
| "json_value (DBool b) = DBool b"
| "json_value (DString s) = DString (json_string s)"
| "json_value (DInt i) = DFloat (float64_of_int i)"
| "json_value (DFloat r) = DFloat r"
| "json_value (DStrings xs) = DList (map (\<lambda>x. DString (json_string x)) xs)"
| "json_value (DInts xs) = DList (map (\<lambda>i. DFloat (float64_of_int i)) xs)"
| "json_value (DList xs) = DList (map json_value xs)"
| "json_value (DStrMap m) =
     DMap (json_object (map (\<lambda>kv. (fst kv, DString (json_string (snd kv)))) m))"
| "json_value (DMap m) = DMap (json_object (map (\<lambda>kv. (fst kv, json_value (snd kv))) m))"

definition json_map :: "payload \<Rightarrow> payload" where
  "json_map m = json_object (map (\<lambda>kv. (fst kv, json_value (snd kv))) m)"

section \<open>The store (package store, in src/internal/store/test_helper.go; src/sql/queries)\<close>

text \<open>
  The tables the engine touches, each a list of rows in insertion order. What the database
  itself decides is an input of the model: \<open>valid_uuid\<close> is \<^verbatim>\<open>uuid.Parse\<close> succeeding,
  \<open>db_fails\<close> says which statement of the call fails (a lost connection, a cancelled
  context, a value the column refuses), \<open>now\<close> is \<^verbatim>\<open>time.Now()\<close> and \<open>rng_perm\<close> the permutation \<^verbatim>\<open>rng.Perm(n)\<close> returns.
\<close>

record SnapshotRow =
  snap_game_id :: string
  snap_version :: int
  snap_state_json :: payload

record EventRow =
  ev_game_id :: string
  ev_room_player_id :: "string option"
  ev_type :: string
  ev_payload_json :: payload

record GameRow =
  g_id :: string
  g_room_id :: string
  g_status :: string
  g_ended_at :: "int option"

record DB =
  game_state_snapshots :: "SnapshotRow list"
  game_events :: "EventRow list"
  games :: "GameRow list"
  game_players :: "(string \<times> string) list"

datatype stmt =
    SelectLatestSnapshot
  | SelectGamePlayers
  | InsertGameEvent
  | SelectLatestSnapshotForInsert
  | InsertSnapshot
  | UpdateStatus
  | SelectGamesByRoom

record Env =
  valid_uuid :: "string \<Rightarrow> bool"
  db_fails :: "stmt \<Rightarrow> bool"
  now :: int
  rng_perm :: "nat list"

datatype store_err = InvalidID | QueryFailed | UniqueViolation

text \<open>The version column is a 32-bit integer; \<^verbatim>\<open>snapshot.Version + 1\<close> wraps in Go.\<close>

definition wrap32 :: "int \<Rightarrow> int" where
  "wrap32 x = (x + 2147483648) mod 4294967296 - 2147483648"

text \<open>
  \<^verbatim>\<open>GetLatestGameStateSnapshotByGameId\<close>:
  \<^verbatim>\<open>WHERE game_id = $1 ORDER BY version DESC LIMIT 1\<close>; \<open>None\<close> is \<^verbatim>\<open>pgx.ErrNoRows\<close>.
\<close>

definition GetLatestGameStateSnapshotByGameId :: "DB \<Rightarrow> string \<Rightarrow> SnapshotRow option" where
  "GetLatestGameStateSnapshotByGameId db gameID =
    (case filter (\<lambda>r. snap_game_id r = gameID) (game_state_snapshots db) of
       [] \<Rightarrow> None
     | r # rs \<Rightarrow> Some (fold (\<lambda>x best. if snap_version x > snap_version best then x else best) rs r))"

text \<open>
  \<^verbatim>\<open>CreateGameStateSnapshot\<close>: the insert, refused by the unique index on
  \<^verbatim>\<open>(game_id, version)\<close>.
\<close>

definition CreateGameStateSnapshot :: "DB \<Rightarrow> SnapshotRow \<Rightarrow> store_err + DB" where
  "CreateGameStateSnapshot db row =
    (if \<exists>r \<in> set (game_state_snapshots db).
          snap_game_id r = snap_game_id row \<and> snap_version r = snap_version row
     then Inl UniqueViolation
     else Inr (db\<lparr>game_state_snapshots := game_state_snapshots db @ [row]\<rparr>))"

abbreviation LobbyStateJSON :: payload where
  "LobbyStateJSON \<equiv> [(''phase'', DString ''lobby'')]"

text \<open>
  The last statement of the transactions of \<^verbatim>\<open>CreateRoom\<close> and \<^verbatim>\<open>CreateGame\<close>: the first
  snapshot of the game just created, written with version 1.
\<close>

definition createInitialSnapshot :: "DB \<Rightarrow> string \<Rightarrow> store_err + DB" where
  "createInitialSnapshot db gameID =
    CreateGameStateSnapshot db
      \<lparr>snap_game_id = gameID, snap_version = 1, snap_state_json = LobbyStateJSON\<rparr>"

definition CreateOrUpdateSnapshot ::
  "Env \<Rightarrow> DB \<Rightarrow> string \<Rightarrow> payload \<Rightarrow> store_err + (int \<times> DB)" where
  "CreateOrUpdateSnapshot env db gameID stateJSON =
    (if \<not> valid_uuid env gameID then Inl InvalidID
     else
      (let data = json_map stateJSON in
       if db_fails env SelectLatestSnapshotForInsert then Inl QueryFailed
       else
        (let nextVersion =
               (case GetLatestGameStateSnapshotByGameId db gameID of
                  None \<Rightarrow> 1
                | Some snapshot \<Rightarrow> wrap32 (snap_version snapshot + 1))
         in
         if db_fails env InsertSnapshot then Inl QueryFailed
         else
          (case CreateGameStateSnapshot db
                  \<lparr>snap_game_id = gameID, snap_version = nextVersion, snap_state_json = data\<rparr> of
             Inl er \<Rightarrow> Inl er
           | Inr db' \<Rightarrow> Inr (nextVersion, db')))))"

text \<open>\<^verbatim>\<open>GetLatestSnapshot\<close>: \<open>Inr None\<close> is the nil map returned when the game has no snapshot.\<close>

definition GetLatestSnapshot :: "Env \<Rightarrow> DB \<Rightarrow> string \<Rightarrow> store_err + payload option" where
  "GetLatestSnapshot env db gameID =
    (if \<not> valid_uuid env gameID then Inl InvalidID
     else if db_fails env SelectLatestSnapshot then Inl QueryFailed
     else
      (case GetLatestGameStateSnapshotByGameId db gameID of
         None \<Rightarrow> Inr None
       | Some snapshot \<Rightarrow> Inr (Some (snap_state_json snapshot))))"

definition UpdateGameStatus ::
  "Env \<Rightarrow> DB \<Rightarrow> string \<Rightarrow> string \<Rightarrow> int option \<Rightarrow> store_err + DB" where
  "UpdateGameStatus env db gameID status endedAt =
    (if \<not> valid_uuid env gameID then Inl InvalidID
     else if db_fails env UpdateStatus then Inl QueryFailed
     else Inr (db\<lparr>games :=
                 map (\<lambda>g. if g_id g = gameID then g\<lparr>g_status := status, g_ended_at := endedAt\<rparr>
                          else g) (games db)\<rparr>))"

text \<open>
  \<^verbatim>\<open>GetGamePlayerIDsInOrder\<close>: the room players of the game, \<^verbatim>\<open>ORDER BY rp.created_at ASC\<close>;
  \<open>game_players\<close> holds the pairs (game id, room player id) in that order.
\<close>

definition GetGamePlayerIDsInOrder :: "Env \<Rightarrow> DB \<Rightarrow> string \<Rightarrow> store_err + string list" where
  "GetGamePlayerIDsInOrder env db gameID =
    (if \<not> valid_uuid env gameID then Inl InvalidID
     else if db_fails env SelectGamePlayers then Inl QueryFailed
     else Inr (map snd (filter (\<lambda>gp. fst gp = gameID) (game_players db))))"

record CreateGameEventRequest =
  req_GameID :: string
  req_RoomPlayerID :: "string option"
  req_Type :: string
  req_Payload :: payload

text \<open>\<^verbatim>\<open>CreateGameEvent\<close>: an empty room player id is stored as NULL.\<close>

definition CreateGameEvent :: "Env \<Rightarrow> DB \<Rightarrow> CreateGameEventRequest \<Rightarrow> store_err + DB" where
  "CreateGameEvent env db req =
    (if \<not> valid_uuid env (req_GameID req) then Inl InvalidID
     else
      (case (case req_RoomPlayerID req of
               None \<Rightarrow> Inr None
             | Some rp \<Rightarrow> (if rp = [] then Inr None
                           else if valid_uuid env rp then Inr (Some rp) else Inl InvalidID)) of
         Inl er \<Rightarrow> Inl er
       | Inr roomPlayerUUID \<Rightarrow>
          (let payloadJSON = json_map (req_Payload req) in
           if db_fails env InsertGameEvent then Inl QueryFailed
           else Inr (db\<lparr>game_events := game_events db @
                          [\<lparr>ev_game_id = req_GameID req, ev_room_player_id = roomPlayerUUID,
                            ev_type = req_Type req, ev_payload_json = payloadJSON\<rparr>]\<rparr>))))"

section \<open>ApplyMove (src/internal/games/engine.go)\<close>

text \<open>\<^verbatim>\<open>GetState\<close>: \<open>Inr None\<close> is the nil state of a game without snapshot.\<close>

definition GetState :: "Env \<Rightarrow> DB \<Rightarrow> string \<Rightarrow> store_err + GameState option" where
  "GetState env db gameID =
    (case GetLatestSnapshot env db gameID of
       Inl er \<Rightarrow> Inl er
     | Inr None \<Rightarrow> Inr None
     | Inr (Some m) \<Rightarrow> Inr (Some (StateFromMap m)))"

text \<open>
  A Go map is a reference: the payload a caller passes to \<^verbatim>\<open>ApplyMove\<close> is the address of a
  map object, or nil. The heap lists the map objects by address; reading through nil (or an
  address never allocated) finds no key, as reading a nil map does.
\<close>

type_synonym heap = "payload list"

definition deref :: "heap \<Rightarrow> nat option \<Rightarrow> payload" where
  "deref h r = (case r of None \<Rightarrow> [] | Some a \<Rightarrow> (if a < length h then h ! a else []))"

text \<open>The two loops of \<^verbatim>\<open>bootstrapAndStart\<close> that fill \<^verbatim>\<open>roles\<close>.\<close>

fun assignEvil :: "string list \<Rightarrow> nat list \<Rightarrow> nat list \<Rightarrow> (string \<times> string) list
    \<Rightarrow> err + (string \<times> string) list" where
  "assignEvil playerIDs order [] roles = Inr roles"
| "assignEvil playerIDs order (i # is) roles =
    (case index_or_panic order (int i) of
       Inl p \<Rightarrow> Inl p
     | Inr j \<Rightarrow>
        (case index_or_panic playerIDs (int j) of
           Inl p \<Rightarrow> Inl p
         | Inr pid \<Rightarrow> assignEvil playerIDs order is (AList.update pid ''evil'' roles)))"

definition assignGood :: "string list \<Rightarrow> (string \<times> string) list \<Rightarrow> (string \<times> string) list" where
  "assignGood playerIDs roles =
    fold (\<lambda>pid r. if (case map_of r pid of None \<Rightarrow> [] | Some v \<Rightarrow> v) = []
                   then AList.update pid ''good'' r else r) playerIDs roles"

definition bootstrapAndStart ::
  "RulesConfig \<Rightarrow> Env \<Rightarrow> DB \<Rightarrow> string \<Rightarrow> string
    \<Rightarrow> (err + (GameState \<times> BroadcastEvent list)) \<times> DB" where
  "bootstrapAndStart e env db gameID roomPlayerID =
    (case GetGamePlayerIDsInOrder env db gameID of
       Inl _ \<Rightarrow> (Inl ErrGetPlayers, db)
     | Inr playerIDs \<Rightarrow>
        (let n = int (length playerIDs) in
         if n < MinPlayers e \<or> n > MaxPlayers e
         then (Inl (ErrPlayerCount n (MinPlayers e) (MaxPlayers e)), db)
         else
          (let evilCount = (if n \<ge> 7 then 3 else 2 :: nat) in
           case assignEvil playerIDs (rng_perm env) [0..<evilCount] [] of
             Inl p \<Rightarrow> (Inl p, db)
           | Inr roles0 \<Rightarrow>
              (let roles = assignGood playerIDs roles0;
                   teamSizes0 = (case TeamSizes e of None \<Rightarrow> [] | Some ts \<Rightarrow> ts);
                   teamSizes = (if length teamSizes0 = 0
                                then DefaultTeamSizesForPlayerCount n else teamSizes0);
                   state = emptyState\<lparr>GameID := gameID, Phase := PhaseTeamSelection,
                                      Status := ''in_progress'', RoundIndex := 1,
                                      LeaderIndex := 0, PlayerIDs := playerIDs, Roles := roles,
                                      MissionResults := []\<rparr>;
                   stateMap = AList.update ''team_sizes'' (DInts teamSizes) (ToMap state)
               in
               case CreateOrUpdateSnapshot env db gameID stateMap of
                 Inl _ \<Rightarrow> (Inl ErrCreateInitialSnapshot, db)
               | Inr (version, db1) \<Rightarrow>
                  (let state' = state\<lparr>Version := version\<rparr> in
                   case UpdateGameStatus env db1 gameID ''in_progress'' None of
                     Inl _ \<Rightarrow> (Inl ErrUpdateGameStatus, db1)
                   | Inr db2 \<Rightarrow>
                      (Inr (state', [\<lparr>Event = ''game_started'',
                                      Payload = [(''phase'', DString (Phase state')),
                                                 (''round_index'', DInt (RoundIndex state')),
                                                 (''leader_id'', DString (LeaderPlayerID state'))]\<rparr>]),
                       db2))))))"

text \<open>
  \<^verbatim>\<open>ApplyMove\<close> returns its result; the database and the heap it leaves behind are returned
  with it. \<^verbatim>\<open>eventPayload := payload\<close> copies the address, so the write of \<^verbatim>\<open>"move_type"\<close>
  goes to the caller's map object; only for a nil payload is a new object allocated.
  The branch \<^verbatim>\<open>next == nil\<close> ("no state update") cannot be taken, since \<^verbatim>\<open>applyVote\<close> and
  \<^verbatim>\<open>applyAction\<close> return a state whenever they return no error; it has no counterpart here.
  The error of \<^verbatim>\<open>UpdateGameStatus\<close> after the last move is dropped, as in the code.
\<close>

definition ApplyMove ::
  "RulesConfig \<Rightarrow> Env \<Rightarrow> DB \<Rightarrow> heap \<Rightarrow> string \<Rightarrow> string \<Rightarrow> string \<Rightarrow> nat option
    \<Rightarrow> (err + (GameState \<times> BroadcastEvent list)) \<times> DB \<times> heap" where
  "ApplyMove e env db h gameID roomPlayerID moveType payloadRef =
    (case GetState env db gameID of
       Inl _ \<Rightarrow> (Inl ErrGetState, db, h)
     | Inr st \<Rightarrow>
        (let onlyStartGame =
               (if moveType \<noteq> ''action'' then (Inl ErrGameNotStarted, db, h)
                else if asString (pget (deref h payloadRef) ''action'') \<noteq> ActionStartGame
                  then (Inl ErrOnlyStartGameInLobby, db, h)
                else (case bootstrapAndStart e env db gameID roomPlayerID of
                        (res, db') \<Rightarrow> (res, db', h)))
         in
         case st of
           None \<Rightarrow> onlyStartGame
         | Some state \<Rightarrow>
            if Phase state = PhaseLobby \<and> length (PlayerIDs state) = 0 then onlyStartGame
            else if Status state = ''finished'' then (Inl ErrGameAlreadyFinished, db, h)
            else
             (case (if moveType = ''vote''
                      then applyVote e state roomPlayerID (deref h payloadRef)
                    else if moveType = ''action''
                      then applyAction e state roomPlayerID (deref h payloadRef)
                    else Inl (ErrUnknownMoveType moveType)) of
                Inl er \<Rightarrow> (Inl er, db, h)
              | Inr (next, events) \<Rightarrow>
                 (let (eventPayload, h1) =
                        (case payloadRef of
                           None \<Rightarrow> (length h, h @ [[]])
                         | Some a \<Rightarrow> (a, h));
                      h2 = h1[eventPayload :=
                               AList.update ''move_type'' (DString moveType)
                                 (deref h1 (Some eventPayload))]
                  in
                  case CreateGameEvent env db
                         \<lparr>req_GameID = gameID, req_RoomPlayerID = Some roomPlayerID,
                          req_Type = moveType,
                          req_Payload = deref h2 (Some eventPayload)\<rparr> of
                    Inl _ \<Rightarrow> (Inl ErrPersistEvent, db, h2)
                  | Inr db1 \<Rightarrow>
                     (let stateMap = ToMap next in
                      case CreateOrUpdateSnapshot env db1 gameID stateMap of
                        Inl _ \<Rightarrow> (Inl ErrPersistSnapshot, db1, h2)
                      | Inr (version, db2) \<Rightarrow>
                         (let next' = next\<lparr>Version := version\<rparr>;
                              db3 = (if Status next' = ''finished''
                                     then (case UpdateGameStatus env db2 gameID ''finished''
                                                  (Some (now env)) of
                                             Inl _ \<Rightarrow> db2
                                           | Inr d \<Rightarrow> d)
                                     else db2)
                          in (Inr (next', events), db3, h2)))))))"

section \<open>Example states\<close>

text \<open>Concrete games on which the theorems below are run.\<close>

definition ex_players :: "string list" where
  "ex_players = [''p1'', ''p2'', ''p3'', ''p4'', ''p5'']"

text \<open>Five players, four of them have voted on the team: two for, two against.\<close>

definition ex_team_vote_state :: GameState where
  "ex_team_vote_state =
    emptyState\<lparr>GameID := ''g1'', Phase := PhaseTeamVote, Status := ''in_progress'',
               RoundIndex := 1, LeaderIndex := 0, PlayerIDs := ex_players,
               ProposedTeam := [''p1'', ''p2''],
               TeamVotes := [(''p1'', ''reject''), (''p2'', ''reject''),
                             (''p4'', ''approve''), (''p5'', ''approve'')]\<rparr>"

text \<open>Round 3 after two successful missions; one of the two team members has voted fail.\<close>

definition ex_mission_vote_state :: GameState where
  "ex_mission_vote_state =
    emptyState\<lparr>GameID := ''g1'', Phase := PhaseMissionVote, Status := ''in_progress'',
               RoundIndex := 3, LeaderIndex := 2, PlayerIDs := ex_players,
               ProposedTeam := [''p3'', ''p4''],
               MissionVotes := [(''p3'', ''fail'')],
               MissionResults := [''success'', ''success'']\<rparr>"

text \<open>Six players in round 3, the third player leads.\<close>

definition ex_six_players_round3 :: GameState where
  "ex_six_players_round3 =
    emptyState\<lparr>GameID := ''g1'', Phase := PhaseTeamSelection, Status := ''in_progress'',
               RoundIndex := 3, LeaderIndex := 2,
               PlayerIDs := [''p1'', ''p2'', ''p3'', ''p4'', ''p5'', ''p6''],
               MissionResults := [''success'', ''fail'']\<rparr>"

definition propose_payload :: "string list \<Rightarrow> payload" where
  "propose_payload team =
    [(''action'', DString ActionProposeTeam), (''team_ids'', DList (map DString team))]"

text \<open>
  An environment in which every id parses and no statement fails, one in which only the
  insert of the snapshot fails, and a database holding one game \<open>g1\<close> of the five players
  whose snapshots are the lobby state (version 1) and the given state (version 2).
\<close>

definition ex_env :: Env where
  "ex_env = \<lparr>valid_uuid = (\<lambda>_. True), db_fails = (\<lambda>_. False), now = 1700000000,
             rng_perm = [0, 1, 2, 3, 4]\<rparr>"

definition ex_env_snapshot_fails :: Env where
  "ex_env_snapshot_fails = ex_env\<lparr>db_fails := (\<lambda>s. s = InsertSnapshot)\<rparr>"

definition ex_db :: "GameState \<Rightarrow> DB" where
  "ex_db s =
    \<lparr>game_state_snapshots =
       [\<lparr>snap_game_id = ''g1'', snap_version = 1, snap_state_json = LobbyStateJSON\<rparr>,
        \<lparr>snap_game_id = ''g1'', snap_version = 2, snap_state_json = json_map (ToMap s)\<rparr>],
     game_events = [],
     games = [\<lparr>g_id = ''g1'', g_room_id = ''r1'', g_status = ''in_progress'',
               g_ended_at = None\<rparr>],
     game_players = map (Pair ''g1'') ex_players\<rparr>"

text \<open>A game the good side has won.\<close>

definition ex_finished_state :: GameState where
  "ex_finished_state =
    emptyState\<lparr>GameID := ''g1'', Phase := PhaseFinished, Status := ''finished'',
               RoundIndex := 4, LeaderIndex := 3, PlayerIDs := ex_players,
               MissionResults := [''success'', ''success'', ''success''], Winner := ''good''\<rparr>"

text \<open>
  The caller's heap for the last team vote of \<open>ex_team_vote_state\<close>: one map object, the
  payload of the vote of \<open>p3\<close>; and the state and events \<^verbatim>\<open>applyVote\<close> returns for it.
\<close>

definition ex_vote_heap :: heap where
  "ex_vote_heap = [[(''approved'', DBool False)]]"

definition ex_rejected_state :: GameState where
  "ex_rejected_state =
     ex_team_vote_state\<lparr>RejectCount := 1, LeaderIndex := 1, Phase := PhaseTeamSelection,
                         ProposedTeam := [], TeamVotes := []\<rparr>"

definition ex_rejected_events :: "BroadcastEvent list" where
  "ex_rejected_events =
     [\<lparr>Event = ''team_rejected'',
       Payload = [(''phase'', DString PhaseTeamSelection), (''reject_count'', DInt 1),
                  (''leader_id'', DString ''p2'')]\<rparr>]"

text \<open>
  The start of the example game: the game \<open>g1\<close> of \<open>ex_empty_db\<close> below has no snapshot yet,
  the caller's heap holds the payload of \<^verbatim>\<open>start_game\<close>, and in the environment only the update
  of the game status fails. With the permutation of \<open>ex_env\<close> the first two players are evil.
\<close>

definition ex_start_heap :: heap where
  "ex_start_heap = [[(''action'', DString ActionStartGame)]]"

definition ex_env_status_fails :: Env where
  "ex_env_status_fails = ex_env\<lparr>db_fails := (\<lambda>s. s = UpdateStatus)\<rparr>"

definition ex_start_state :: GameState where
  "ex_start_state =
    emptyState\<lparr>GameID := ''g1'', Phase := PhaseTeamSelection, Status := ''in_progress'',
               RoundIndex := 1, LeaderIndex := 0, PlayerIDs := ex_players,
               Roles := [(''p1'', ''evil''), (''p2'', ''evil''), (''p3'', ''good''),
                         (''p4'', ''good''), (''p5'', ''good'')]\<rparr>"

definition ex_start_map :: payload where
  "ex_start_map = AList.update ''team_sizes'' (DInts [2, 3, 2, 3, 3]) (ToMap ex_start_state)"

section \<open>Notions used in the statements\<close>

text \<open>
  A move that passes validation: \<^verbatim>\<open>ApplyMove\<close> dispatches a vote to \<^verbatim>\<open>applyVote\<close> and an
  action to \<^verbatim>\<open>applyAction\<close>, and the function returns a next state and events.
\<close>

definition accepted ::
  "RulesConfig \<Rightarrow> GameState \<Rightarrow> string \<Rightarrow> string \<Rightarrow> payload \<Rightarrow> GameState
    \<Rightarrow> BroadcastEvent list \<Rightarrow> bool" where
  "accepted e state actor moveType pl next evs \<longleftrightarrow>
     (moveType = ''vote'' \<and> applyVote e state actor pl = Inr (next, evs)) \<or>
     (moveType = ''action'' \<and> applyAction e state actor pl = Inr (next, evs))"

text \<open>
  The start of a game as \<^verbatim>\<open>bootstrapAndStart\<close> validates it, before anything is written: the
  players of the game are read, their number is within the configured range, and the roles
  are dealt. \<open>initialState\<close> is the state and the snapshot map built from them. An accepted
  \<^verbatim>\<open>start_game\<close> is an action with that name for which this validation passes.
\<close>

definition initialState :: "RulesConfig \<Rightarrow> Env \<Rightarrow> DB \<Rightarrow> string \<Rightarrow> err + (GameState \<times> payload)" where
  "initialState e env db gameID =
    (case GetGamePlayerIDsInOrder env db gameID of
       Inl _ \<Rightarrow> Inl ErrGetPlayers
     | Inr playerIDs \<Rightarrow>
        (let n = int (length playerIDs) in
         if n < MinPlayers e \<or> n > MaxPlayers e
         then Inl (ErrPlayerCount n (MinPlayers e) (MaxPlayers e))
         else
          (let evilCount = (if n \<ge> 7 then 3 else 2 :: nat) in
           case assignEvil playerIDs (rng_perm env) [0..<evilCount] [] of
             Inl p \<Rightarrow> Inl p
           | Inr roles0 \<Rightarrow>
              (let roles = assignGood playerIDs roles0;
                   teamSizes0 = (case TeamSizes e of None \<Rightarrow> [] | Some ts \<Rightarrow> ts);
                   teamSizes = (if length teamSizes0 = 0
                                then DefaultTeamSizesForPlayerCount n else teamSizes0);
                   state = emptyState\<lparr>GameID := gameID, Phase := PhaseTeamSelection,
                                      Status := ''in_progress'', RoundIndex := 1,
                                      LeaderIndex := 0, PlayerIDs := playerIDs, Roles := roles,
                                      MissionResults := []\<rparr>
               in Inr (state, AList.update ''team_sizes'' (DInts teamSizes) (ToMap state))))))"

definition accepted_start ::
  "RulesConfig \<Rightarrow> Env \<Rightarrow> DB \<Rightarrow> heap \<Rightarrow> string \<Rightarrow> string \<Rightarrow> nat option \<Rightarrow> GameState
    \<Rightarrow> payload \<Rightarrow> bool" where
  "accepted_start e env db h gameID moveType payloadRef state stateMap \<longleftrightarrow>
     moveType = ''action'' \<and>
     asString (pget (deref h payloadRef) ''action'') = ActionStartGame \<and>
     initialState e env db gameID = Inr (state, stateMap)"

text \<open>
  What the JSON encoding of the store makes of a state, field by field, and the states it
  leaves as they are: those whose strings are valid UTF-8, whose maps have one entry per key
  and whose numbers are at most \<open>2^53\<close> in absolute value.
\<close>

definition json_strmap :: "(string \<times> string) list \<Rightarrow> (string \<times> string) list" where
  "json_strmap m = json_object (map (\<lambda>kv. (fst kv, json_string (snd kv))) m)"

definition json_int :: "int \<Rightarrow> int" where
  "json_int i = int_of_float64 (float64_of_int i)"

definition json_state :: "GameState \<Rightarrow> GameState" where
  "json_state s =
    s\<lparr>GameID := json_string (GameID s), Phase := json_string (Phase s),
      Status := json_string (Status s), RoundIndex := json_int (RoundIndex s),
      LeaderIndex := json_int (LeaderIndex s), PlayerIDs := map json_string (PlayerIDs s),
      Roles := json_strmap (Roles s), ProposedTeam := map json_string (ProposedTeam s),
      TeamVotes := json_strmap (TeamVotes s), MissionVotes := json_strmap (MissionVotes s),
      MissionResults := map json_string (MissionResults s),
      RejectCount := json_int (RejectCount s), Winner := json_string (Winner s),
      Version := json_int (Version s)\<rparr>"

definition utf8 :: "string \<Rightarrow> bool" where
  "utf8 x \<longleftrightarrow> json_string x = x"

definition utf8_map :: "(string \<times> string) list \<Rightarrow> bool" where
  "utf8_map m \<longleftrightarrow> distinct (map fst m) \<and> list_all (\<lambda>kv. utf8 (fst kv) \<and> utf8 (snd kv)) m"

definition float_exact :: "int \<Rightarrow> bool" where
  "float_exact i \<longleftrightarrow> \<bar>i\<bar> \<le> 9007199254740992"

definition json_exact :: "GameState \<Rightarrow> bool" where
  "json_exact s \<longleftrightarrow>
     utf8 (GameID s) \<and> utf8 (Phase s) \<and> utf8 (Status s) \<and> utf8 (Winner s) \<and>
     list_all utf8 (PlayerIDs s) \<and> list_all utf8 (ProposedTeam s) \<and>
     list_all utf8 (MissionResults s) \<and>
     utf8_map (Roles s) \<and> utf8_map (TeamVotes s) \<and> utf8_map (MissionVotes s) \<and>
     float_exact (RoundIndex s) \<and> float_exact (LeaderIndex s) \<and>
     float_exact (RejectCount s) \<and> float_exact (Version s)"

section \<open>Snapshot versions of a game\<close>

text \<open>The versions of the snapshots of a game, in the order in which they were written.\<close>


definition versions_of :: "DB \<Rightarrow> string \<Rightarrow> int list" where
  "versions_of db gameID =
     map snap_version (filter (\<lambda>r. snap_game_id r = gameID) (game_state_snapshots db))"

text \<open>Snapshot writes executed one after the other; the first failure stops the run.\<close>


fun write_snapshots :: "Env \<Rightarrow> DB \<Rightarrow> string \<Rightarrow> payload list \<Rightarrow> store_err + DB" where
  "write_snapshots env db gameID [] = Inr db"
| "write_snapshots env db gameID (m # ms) =
     (case CreateOrUpdateSnapshot env db gameID m of
        Inl er \<Rightarrow> Inl er
      | Inr (v, db') \<Rightarrow> write_snapshots env db' gameID ms)"

text \<open>
  A database without snapshots, and one in which game \<open>g1\<close> has the \<open>k\<close> snapshots of
  versions 1 to \<open>k\<close>.
\<close>


definition ex_empty_db :: DB where
  "ex_empty_db =
    \<lparr>game_state_snapshots = [], game_events = [],
     games = [\<lparr>g_id = ''g1'', g_room_id = ''r1'', g_status = ''waiting'', g_ended_at = None\<rparr>],
     game_players = map (Pair ''g1'') ex_players\<rparr>"

definition consecutive_db :: "nat \<Rightarrow> DB" where
  "consecutive_db k =
    \<lparr>game_state_snapshots =
       map (\<lambda>v. \<lparr>snap_game_id = ''g1'', snap_version = int v, snap_state_json = LobbyStateJSON\<rparr>)
         [1..<Suc k],
     game_events = [],
     games = [\<lparr>g_id = ''g1'', g_room_id = ''r1'', g_status = ''in_progress'',
               g_ended_at = None\<rparr>],
     game_players = map (Pair ''g1'') ex_players\<rparr>"

section \<open>The room socket's sync_state (src/internal/websocket/handler.go, messages.go)\<close>

text \<open>
  A client's \<^verbatim>\<open>send\<close> channel is the list of messages queued in it, with the capacity 256 it
  is made with, and a flag for a channel the hub has closed (a send on it panics). The hub's
  \<^verbatim>\<open>broadcast\<close> channel is the list of messages queued for fan-out. Of the handler, what
  \<^verbatim>\<open>handleSyncState\<close> tests: whether the game store and the engine are set.
\<close>


record ServerEnvelope =
  se_Type :: string
  se_Event :: string
  se_Payload :: payload

datatype OutgoingMessage = OutGameEvent EventRow | OutEnvelope ServerEnvelope

record Client =
  c_RoomID :: string
  c_GameID :: string
  c_RoomPlayerID :: string
  c_DisplayName :: string
  c_RateLimitKey :: string
  send :: "OutgoingMessage list"
  send_closed :: bool

record BroadcastMessage =
  bm_RoomID :: string
  bm_Event :: "EventRow option"
  bm_Envelope :: "ServerEnvelope option"

record EventHandler =
  has_gameStore :: bool
  engine :: "RulesConfig option"

abbreviation ServerTypeState :: string where "ServerTypeState \<equiv> ''state''"

abbreviation ServerTypeError :: string where "ServerTypeError \<equiv> ''error''"

abbreviation ServerEventState :: string where "ServerEventState \<equiv> ''state''"

text \<open>\<^verbatim>\<open>select { case client.send <- msg: default: log }\<close>: a full queue drops the message.\<close>


definition sendEnvelopeToClient :: "Client \<Rightarrow> ServerEnvelope \<Rightarrow> err + Client" where
  "sendEnvelopeToClient client envelope =
    (if send_closed client then Inl Panic
     else if length (send client) < 256
       then Inr (client\<lparr>send := send client @ [OutEnvelope envelope]\<rparr>)
     else Inr client)"

definition sendErrorToClient :: "Client \<Rightarrow> string \<Rightarrow> err + Client" where
  "sendErrorToClient client message =
    sendEnvelopeToClient client
      \<lparr>se_Type = ServerTypeError, se_Event = [], se_Payload = [(''message'', DString message)]\<rparr>"

text \<open>
  \<^verbatim>\<open>GetLatestGameForRoom\<close>: \<^verbatim>\<open>GetGamesByRoomId\<close> orders by \<^verbatim>\<open>created_at DESC\<close>, so its
  first row is the game inserted last; \<open>Inr None\<close> is the nil game of a room without games.
\<close>


definition GetLatestGameForRoom :: "Env \<Rightarrow> DB \<Rightarrow> string \<Rightarrow> store_err + GameRow option" where
  "GetLatestGameForRoom env db roomID =
    (if \<not> valid_uuid env roomID then Inl InvalidID
     else if db_fails env SelectGamesByRoom then Inl QueryFailed
     else
      (case rev (filter (\<lambda>g. g_room_id g = roomID) (games db)) of
         [] \<Rightarrow> Inr None
       | g # _ \<Rightarrow> Inr (Some g)))"

definition handleSyncState ::
  "EventHandler \<Rightarrow> Env \<Rightarrow> DB \<Rightarrow> BroadcastMessage list \<Rightarrow> Client
    \<Rightarrow> err + (Client \<times> BroadcastMessage list)" where
  "handleSyncState h env db broadcast client =
    map_sum id (\<lambda>c. (c, broadcast))
     (if \<not> has_gameStore h \<or> engine h = None
        then sendErrorToClient client ''sync_state not available''
      else
       (case GetLatestGameForRoom env db (c_RoomID client) of
          Inl _ \<Rightarrow> sendErrorToClient client ''no game found for room''
        | Inr None \<Rightarrow> sendErrorToClient client ''no game found for room''
        | Inr (Some game) \<Rightarrow>
           (case GetState env db (g_id game) of
              Inl _ \<Rightarrow> sendErrorToClient client ''failed to load state''
            | Inr st \<Rightarrow>
               (let payload0 = [(''game_id'', DString (g_id game))];
                    payload1 =
                      (case st of
                         Some state \<Rightarrow>
                           AList.update ''version'' (DInt (Version state))
                            (AList.update ''phase'' (DString (Phase state))
                              (AList.update ''state'' (DMap (ToMap state)) payload0))
                       | None \<Rightarrow>
                           AList.update ''state'' (DMap [(''phase'', DString ''lobby'')]) payload0)
                in sendEnvelopeToClient client
                     \<lparr>se_Type = ServerTypeState, se_Event = ServerEventState,
                      se_Payload = payload1\<rparr>))))"

text \<open>A connected session of the fifth player, a configured handler, a room without game.\<close>


definition ex_client :: Client where
  "ex_client = \<lparr>c_RoomID = ''r1'', c_GameID = [], c_RoomPlayerID = ''p5'',
                c_DisplayName = ''Eve'', c_RateLimitKey = ''10.0.0.5'', send = [],
                send_closed = False\<rparr>"

definition ex_handler :: EventHandler where
  "ex_handler = \<lparr>has_gameStore = True, engine = Some (NewEngine ClassicAvalonConfig)\<rparr>"

definition ex_db_no_game :: DB where
  "ex_db_no_game = \<lparr>game_state_snapshots = [], game_events = [], games = [], game_players = []\<rparr>"

section \<open>Room session tokens (package auth, src/unnamed/part_008)\<close>

text \<open>
  Go strings and byte slices are lists of bytes (\<open>char\<close>). Time is Unix time in nanoseconds,
  given to the functions as \<open>now_ns\<close>; a duration is a number of nanoseconds. The packages of
  the standard library the code calls are not part of the repository. The encoders and the
  hash are parameters of the model: \<open>sha256\<close> (crypto/sha256), \<open>b64enc\<close> and \<open>b64dec\<close>
  (base64.RawURLEncoding, \<open>None\<close> for a decoding error), \<open>json_marshal\<close> and
  \<open>json_unmarshal\<close> (encoding/json on \<^verbatim>\<open>Claims\<close>). \<^verbatim>\<open>hmac.New(sha256.New, secret)\<close> is the
  HMAC construction of RFC 2104 with the block size 64 of SHA-256: a key longer than a block
  is hashed, the key is filled with zero bytes to a block, and the tag is
  \<open>H (opad @ H (ipad @ msg))\<close>. \<^verbatim>\<open>hmac.Equal\<close> is equality of the two byte strings.
\<close>


record Claims =
  cl_RoomID :: string
  cl_RoomPlayerID :: string
  cl_Exp :: int

record Lib =
  sha256 :: "string \<Rightarrow> string"
  b64enc :: "string \<Rightarrow> string"
  b64dec :: "string \<Rightarrow> string option"
  json_marshal :: "Claims \<Rightarrow> string"
  json_unmarshal :: "string \<Rightarrow> Claims option"

datatype token_err =
    ErrSecretRequired
  | ErrTokenFormat
  | ErrSignatureEncoding
  | ErrSignature
  | ErrPayloadEncoding
  | ErrPayload
  | ErrExpired
  | ErrMissingClaims

fun xor_char :: "char \<Rightarrow> char \<Rightarrow> char" where
  "xor_char (Char a0 a1 a2 a3 a4 a5 a6 a7) (Char b0 b1 b2 b3 b4 b5 b6 b7) =
     Char (a0 \<noteq> b0) (a1 \<noteq> b1) (a2 \<noteq> b2) (a3 \<noteq> b3) (a4 \<noteq> b4) (a5 \<noteq> b5) (a6 \<noteq> b6) (a7 \<noteq> b7)"

definition hmac_key_block :: "Lib \<Rightarrow> string \<Rightarrow> string" where
  "hmac_key_block lib key =
    (let key' = (if length key > 64 then sha256 lib key else key)
     in key' @ replicate (64 - length key') (CHR 0x00))"

definition hmac_sha256 :: "Lib \<Rightarrow> string \<Rightarrow> string \<Rightarrow> string" where
  "hmac_sha256 lib key msg =
    (let block = hmac_key_block lib key;
         ipad = map (xor_char (CHR 0x36)) block;
         opad = map (xor_char (CHR 0x5C)) block
     in sha256 lib (opad @ sha256 lib (ipad @ msg)))"

text \<open>
  The string to which HMAC applies the outer hash, and a collision of the hash on two
  strings.
\<close>

definition hmac_outer_input :: "Lib \<Rightarrow> string \<Rightarrow> string \<Rightarrow> string" where
  "hmac_outer_input lib key msg =
    (let block = hmac_key_block lib key
     in map (xor_char (CHR 0x5C)) block @ sha256 lib (map (xor_char (CHR 0x36)) block @ msg))"

definition collision :: "Lib \<Rightarrow> string \<Rightarrow> string \<Rightarrow> bool" where
  "collision lib x y \<longleftrightarrow> x \<noteq> y \<and> sha256 lib x = sha256 lib y"

text \<open>\<^verbatim>\<open>strings.SplitN(token, ".", 2)\<close>: cut at the first dot, if there is one.\<close>


definition splitN2 :: "string \<Rightarrow> string list" where
  "splitN2 s =
    (if CHR ''.'' \<in> set s
     then [takeWhile (\<lambda>c. c \<noteq> CHR ''.'') s, tl (dropWhile (\<lambda>c. c \<noteq> CHR ''.'') s)]
     else [s])"

definition GenerateToken ::
  "Lib \<Rightarrow> int \<Rightarrow> string \<Rightarrow> string \<Rightarrow> string \<Rightarrow> int \<Rightarrow> token_err + (string \<times> int)" where
  "GenerateToken lib now_ns roomID roomPlayerID secret expiry =
    (if length secret = 0 then Inl ErrSecretRequired
     else
      (let expiresAt = now_ns + expiry;
           claims = \<lparr>cl_RoomID = roomID, cl_RoomPlayerID = roomPlayerID,
                     cl_Exp = expiresAt div 1000000000\<rparr>;
           payload = json_marshal lib claims;
           b64Payload = b64enc lib payload;
           sig = hmac_sha256 lib secret b64Payload;
           b64Sig = b64enc lib sig
       in Inr (b64Payload @ ''.'' @ b64Sig, expiresAt)))"

definition VerifyToken :: "Lib \<Rightarrow> int \<Rightarrow> string \<Rightarrow> string \<Rightarrow> token_err + Claims" where
  "VerifyToken lib now_ns token secret =
    (if length secret = 0 then Inl ErrSecretRequired
     else
      (case splitN2 token of
         [b64Payload, b64Sig] \<Rightarrow>
          (let expectedSig = hmac_sha256 lib secret b64Payload in
           case b64dec lib b64Sig of
             None \<Rightarrow> Inl ErrSignatureEncoding
           | Some sig \<Rightarrow>
              if sig \<noteq> expectedSig then Inl ErrSignature
              else
               (case b64dec lib b64Payload of
                  None \<Rightarrow> Inl ErrPayloadEncoding
                | Some payload \<Rightarrow>
                   (case json_unmarshal lib payload of
                      None \<Rightarrow> Inl ErrPayload
                    | Some claims \<Rightarrow>
                       if now_ns div 1000000000 > cl_Exp claims then Inl ErrExpired
                       else if cl_RoomID claims = [] \<or> cl_RoomPlayerID claims = []
                         then Inl ErrMissingClaims
                       else Inr claims)))
       | _ \<Rightarrow> Inl ErrTokenFormat))"

text \<open>The payload part of a token: what precedes its first dot.\<close>


definition token_payload :: "string \<Rightarrow> string" where
  "token_payload tok = takeWhile (\<lambda>c. c \<noteq> CHR ''.'') tok"

text \<open>
  What the model takes for granted of the standard library: decoding a base64 encoding gives
  the bytes back, the encoding has no dot (the URL alphabet has none), and the claims of the
  example below survive JSON.
\<close>


definition base64_laws :: "Lib \<Rightarrow> bool" where
  "base64_laws lib \<longleftrightarrow>
     (\<forall>x. b64dec lib (b64enc lib x) = Some x) \<and> (\<forall>x. CHR ''.'' \<notin> set (b64enc lib x))"

text \<open>A SHA-256 digest has 32 bytes.\<close>

definition sha256_laws :: "Lib \<Rightarrow> bool" where
  "sha256_laws lib \<longleftrightarrow> (\<forall>x. length (sha256 lib x) = 32)"

definition ex_claims :: Claims where
  "ex_claims = \<lparr>cl_RoomID = ''r1'', cl_RoomPlayerID = ''p1'', cl_Exp = 1700003600\<rparr>"

definition codec_laws :: "Lib \<Rightarrow> bool" where
  "codec_laws lib \<longleftrightarrow>
     (\<forall>x. b64dec lib (b64enc lib x) = Some x) \<and>
     (\<forall>x. CHR ''.'' \<notin> set (b64enc lib x)) \<and>
     json_unmarshal lib (json_marshal lib ex_claims) = Some ex_claims"

text \<open>
  The claim C9 for a given library: a token signed with a non-empty secret is rejected under
  every other secret.
\<close>


definition secret_binding :: "Lib \<Rightarrow> bool" where
  "secret_binding lib \<longleftrightarrow>
     (\<forall>now_ns roomID roomPlayerID s1 ttl tok expiresAt s2 now_ns'.
        s1 \<noteq> [] \<and> s2 \<noteq> s1 \<and>
        GenerateToken lib now_ns roomID roomPlayerID s1 ttl = Inr (tok, expiresAt)
        \<longrightarrow> isl (VerifyToken lib now_ns' tok s2))"

text \<open>
  A stand-in library on which the statements about tokens are run: the hash keeps the first
  32 bytes (filled with zero bytes), the encoding escapes dots, the claims are written as two
  fields.
\<close>

definition toy_hash :: "string \<Rightarrow> string" where
  "toy_hash x = take 32 (x @ replicate 32 (CHR 0x00))"


definition toy_enc :: "string \<Rightarrow> string" where
  "toy_enc x = concat (map (\<lambda>c. if c = CHR ''.'' then ''_d'' else if c = CHR ''_'' then ''__'' else [c]) x)"

fun toy_dec :: "string \<Rightarrow> string option" where
  "toy_dec [] = Some []"
| "toy_dec (c # cs) =
     (if c = CHR ''_'' then
        (case cs of
           [] \<Rightarrow> None
         | d # ds \<Rightarrow>
            (if d = CHR ''d'' then map_option ((#) (CHR ''.'')) (toy_dec ds)
             else if d = CHR ''_'' then map_option ((#) (CHR ''_'')) (toy_dec ds)
             else None))
      else if c = CHR ''.'' then None
      else map_option ((#) c) (toy_dec cs))"

definition toy_lib :: Lib where
  "toy_lib = \<lparr>sha256 = toy_hash, b64enc = toy_enc, b64dec = toy_dec,
              json_marshal = (\<lambda>c. cl_RoomID c @ '','' @ cl_RoomPlayerID c),
              json_unmarshal = (\<lambda>_. Some ex_claims)\<rparr>"

text \<open>
  What holds of every state the engine writes: the proposed team are players of the game, the
  mission results are successes and fails, and a finished game is in phase finished. And the
  counters of a state that are not negative and can be incremented without leaving the 64-bit
  range.
\<close>

definition engine_state :: "GameState \<Rightarrow> bool" where
  "engine_state s \<longleftrightarrow>
     set (ProposedTeam s) \<subseteq> set (PlayerIDs s) \<and>
     set (MissionResults s) \<subseteq> {''success'', ''fail''} \<and>
     (Status s = ''finished'' \<longrightarrow> Phase s = PhaseFinished)"

definition counters_in_range :: "GameState \<Rightarrow> bool" where
  "counters_in_range s \<longleftrightarrow>
     0 \<le> LeaderIndex s \<and> LeaderIndex s < 9223372036854775807 \<and>
     0 \<le> RejectCount s \<and> RejectCount s < 9223372036854775807 \<and>
     0 \<le> RoundIndex s \<and> RoundIndex s < 9223372036854775807"

text \<open>
  The states a game goes through, as \<^verbatim>\<open>GetState\<close> reads them: the state stored by an accepted
  \<^verbatim>\<open>start_game\<close>, and the state stored by an accepted vote or action on such a state that is
  neither finished nor the lobby without players (the moves \<^verbatim>\<open>ApplyMove\<close> lets through to
  \<^verbatim>\<open>applyVote\<close> and \<^verbatim>\<open>applyAction\<close>). The number counts the moves since the start.
\<close>

inductive played :: "RulesConfig \<Rightarrow> nat \<Rightarrow> GameState \<Rightarrow> bool" for e where
  started:
    "initialState e env db gameID = Inr (state, stateMap) \<Longrightarrow>
     played e 0 (StateFromMap (json_map stateMap))"
| moved:
    "played e k s \<Longrightarrow> \<not> (Phase s = PhaseLobby \<and> PlayerIDs s = []) \<Longrightarrow>
     Status s \<noteq> ''finished'' \<Longrightarrow> accepted e s actor moveType pl next evs \<Longrightarrow>
     played e (Suc k) (StateFromMap (json_map (ToMap next)))"

section \<open>Properties of the vote transitions\<close>

lemma wrap64_succ:
  "- 9223372036854775808 \<le> x \<Longrightarrow> x < 9223372036854775807 \<Longrightarrow> wrap64 (x + 1) = x + 1"
  by (simp add: wrap64_def)

lemma go_rem_mod: "0 \<le> a \<Longrightarrow> 0 < b \<Longrightarrow> go_rem a b = a mod b"
  by (cases "a = 0") (simp_all add: go_rem_def)

lemma countOf_pos_iff: "0 < countOf v xs \<longleftrightarrow> v \<in> set xs"
  by (induction xs) (auto simp: countOf_def)

lemma countOf_two:
  "set xs \<subseteq> {a, b} \<Longrightarrow> a \<noteq> b \<Longrightarrow> countOf a xs + countOf b xs = length xs"
  by (induction xs) (auto simp: countOf_def)

lemma countOf_success:
  assumes "set xs \<subseteq> {''success'', ''fail''}"
  shows "int (length xs) - int (countOf ''fail'' xs) = int (countOf ''success'' xs)"
  using countOf_two [OF assms] by simp

lemma countOf_filter_snd:
  "countOf v (map snd al) = length (filter (\<lambda>kv. snd kv = v) al)"
  by (induction al) (simp_all add: countOf_def)

lemma snd_in_map_iff: "(v \<in> set (map snd al)) \<longleftrightarrow> (\<exists>k. (k, v) \<in> set al)"
  by force

lemma length_update:
  "length (AList.update k v al) = (if k \<in> fst ` set al then length al else Suc (length al))"
  by (induction al) auto

lemma rotate_leader:
  assumes "0 \<le> i" and "i < 9223372036854775807" and "0 < n"
  shows "go_rem (wrap64 (i + 1)) (int n) = (i + 1) mod int n"
    and "\<not> (i + 1) mod int n < 0"
    and "\<not> int n \<le> (i + 1) mod int n"
  using assms by (simp_all add: go_rem_mod not_less not_le wrap64_succ)

text \<open>The two forms of a vote the code accepts: a bool, or the string of a bool.\<close>

lemma boolFromPayload_vote:
  assumes "map_of pl k = Some (DBool b) \<or>
           map_of pl k = Some (DString (if b then ''true'' else ''false''))"
  shows "boolFromPayload (pget pl k) = Some b"
  using assms by (auto simp: boolFromPayload_def pget_def)

text \<open>
  C2. A vote in phase team_vote by a player of the game who has not voted yet, whose payload
  carries \<open>approved\<close> as a bool or as the string of a bool: the vote is recorded under the
  voter's id, so there is one vote more. While fewer votes than players are in, the state only
  gains the vote and the one event is \<open>vote_recorded\<close> naming the voter. Once all have voted,
  strictly more approvals than half the players (integer division) move the game to
  mission_vote with the team votes cleared and a \<open>team_approved\<close> event; otherwise the reject
  count grows by exactly one, the leader index becomes (leader index + 1) mod the number of
  players, the phase is team_selection again, the proposed team and the team votes are
  cleared, and \<open>team_rejected\<close> carries the new reject count and the new leader's id. The
  leader index of the state read is not negative, and it and the reject count are below
  \<open>2^63 - 1\<close>, the greatest value of Go's \<^verbatim>\<open>int\<close>, where \<^verbatim>\<open>+ 1\<close> wraps around: so it is
  in every state a game goes through (\<open>played_counters_in_range\<close> below).
\<close>

theorem team_vote_transition:
  assumes ph: "Phase s = PhaseTeamVote"
    and ing: "actor \<in> set (PlayerIDs s)"
    and fresh: "map_of (TeamVotes s) actor = None"
    and pay: "map_of pl ''approved'' = Some (DBool b) \<or>
              map_of pl ''approved'' = Some (DString (if b then ''true'' else ''false''))"
    and li: "0 \<le> LeaderIndex s" "LeaderIndex s < 9223372036854775807"
    and rc: "- 9223372036854775808 \<le> RejectCount s" "RejectCount s < 9223372036854775807"
  shows "let votes = AList.update actor (if b then ''approve'' else ''reject'') (TeamVotes s);
             n = length (PlayerIDs s);
             approvals = length (filter (\<lambda>kv. snd kv = ''approve'') votes);
             leader = (LeaderIndex s + 1) mod int n
         in map_of votes actor = Some (if b then ''approve'' else ''reject'') \<and>
            length votes = length (TeamVotes s) + 1 \<and>
            applyVote e s actor pl =
             (if length votes < n then
                Inr (s\<lparr>TeamVotes := votes\<rparr>,
                     [\<lparr>Event = ''vote_recorded'', Payload = [(''player_id'', DString actor)]\<rparr>])
              else if approvals > n div 2 then
                Inr (s\<lparr>Phase := PhaseMissionVote, TeamVotes := []\<rparr>,
                     [\<lparr>Event = ''team_approved'',
                       Payload = [(''phase'', DString PhaseMissionVote)]\<rparr>])
              else
                Inr (s\<lparr>RejectCount := RejectCount s + 1, LeaderIndex := leader,
                       Phase := PhaseTeamSelection, ProposedTeam := [], TeamVotes := []\<rparr>,
                     [\<lparr>Event = ''team_rejected'',
                       Payload = [(''phase'', DString PhaseTeamSelection),
                                  (''reject_count'', DInt (RejectCount s + 1)),
                                  (''leader_id'', DString (PlayerIDs s ! nat leader))]\<rparr>]))"
proof -
  have npos: "0 < length (PlayerIDs s)"
    using ing by (cases "PlayerIDs s") auto
  note rot = rotate_leader [OF li npos]
  have w: "wrap64 (RejectCount s + 1) = RejectCount s + 1"
    using rc by (simp add: wrap64_succ)
  have len: "length (AList.update actor v (TeamVotes s)) = length (TeamVotes s) + 1" for v
    using fresh by (simp add: length_update map_of_eq_None_iff)
  show ?thesis
    using ph ing fresh npos
    by (simp add: applyVote_def applyVote_TeamVote_def Let_def Clone_def isPlayerInGame_def
        rot w len LeaderPlayerID_def update_conv' boolFromPayload_vote [OF pay]
        countOf_filter_snd)
qed

theorem team_vote_transition_witness:
  "Phase ex_team_vote_state = PhaseTeamVote \<and>
   ''p3'' \<in> set (PlayerIDs ex_team_vote_state) \<and>
   map_of (TeamVotes ex_team_vote_state) ''p3'' = None \<and>
   0 \<le> LeaderIndex ex_team_vote_state \<and>
   LeaderIndex ex_team_vote_state < 9223372036854775807 \<and>
   - 9223372036854775808 \<le> RejectCount ex_team_vote_state \<and>
   RejectCount ex_team_vote_state < 9223372036854775807 \<and>
   applyVote (NewEngine ClassicAvalonConfig) ex_team_vote_state ''p3''
       [(''approved'', DBool False)] =
     Inr (ex_team_vote_state\<lparr>RejectCount := 1, LeaderIndex := 1, Phase := PhaseTeamSelection,
                              ProposedTeam := [], TeamVotes := []\<rparr>,
          [\<lparr>Event = ''team_rejected'',
            Payload = [(''phase'', DString PhaseTeamSelection), (''reject_count'', DInt 1),
                       (''leader_id'', DString ''p2'')]\<rparr>]) \<and>
   applyVote (NewEngine ClassicAvalonConfig) ex_team_vote_state ''p3''
       [(''approved'', DString ''true'')] =
     Inr (ex_team_vote_state\<lparr>Phase := PhaseMissionVote, TeamVotes := []\<rparr>,
          [\<lparr>Event = ''team_approved'', Payload = [(''phase'', DString PhaseMissionVote)]\<rparr>]) \<and>
   applyVote (NewEngine ClassicAvalonConfig)
       (ex_team_vote_state\<lparr>TeamVotes := [(''p1'', ''reject'')]\<rparr>) ''p3''
       [(''approved'', DBool True)] =
     Inr (ex_team_vote_state\<lparr>TeamVotes := [(''p1'', ''reject''), (''p3'', ''approve'')]\<rparr>,
          [\<lparr>Event = ''vote_recorded'', Payload = [(''player_id'', DString ''p3'')]\<rparr>])"
  using team_vote_transition [of ex_team_vote_state "''p3''" "[(''approved'', DBool False)]" False
      "NewEngine ClassicAvalonConfig"]
    team_vote_transition [of ex_team_vote_state "''p3''" "[(''approved'', DString ''true'')]" True
      "NewEngine ClassicAvalonConfig"]
    team_vote_transition [of "ex_team_vote_state\<lparr>TeamVotes := [(''p1'', ''reject'')]\<rparr>" "''p3''"
      "[(''approved'', DBool True)]" True "NewEngine ClassicAvalonConfig"]
  by (simp add: ex_team_vote_state_def ex_players_def emptyState_def Let_def)

text \<open>
  C1. A vote in phase mission_vote by a member of the proposed team who has not voted yet,
  whose payload carries \<open>success\<close> as a bool or as the string of a bool: the vote is recorded,
  so there is one vote more. While fewer votes than team members are in, the state only gains
  the vote and the one event is \<open>vote_recorded\<close>. Once the team has voted, the round's result
  is fail exactly if some recorded vote is fail; it is appended to the mission results, and the
  proposed team and the mission votes are cleared. Then: with at least \<open>FailThreshold\<close> fails
  among the results (3 for the default engine) the game is finished with winner evil and a
  \<open>game_ended\<close> event; else with at least 3 successes it is finished with winner good and a
  \<open>game_ended\<close> event; else play goes on in team_selection with the round index one higher,
  the leader index advanced by one modulo the number of players, the reject count 0 and a
  \<open>mission_resolved\<close> event. The state read is one the engine writes: the proposed team are
  players of the game, the mission results are successes and fails, the leader index is not
  negative, and it and the round index are below \<open>2^63 - 1\<close>, where \<^verbatim>\<open>+ 1\<close> wraps around
  (\<open>played_counters_in_range\<close> below).
\<close>

theorem mission_vote_transition:
  assumes ph: "Phase s = PhaseMissionVote"
    and team: "actor \<in> set (ProposedTeam s)"
    and sub: "set (ProposedTeam s) \<subseteq> set (PlayerIDs s)"
    and fresh: "map_of (MissionVotes s) actor = None"
    and pay: "map_of pl ''success'' = Some (DBool b) \<or>
              map_of pl ''success'' = Some (DString (if b then ''true'' else ''false''))"
    and li: "0 \<le> LeaderIndex s" "LeaderIndex s < 9223372036854775807"
    and ri: "- 9223372036854775808 \<le> RoundIndex s" "RoundIndex s < 9223372036854775807"
    and res: "set (MissionResults s) \<subseteq> {''success'', ''fail''}"
  shows "let votes = AList.update actor (if b then ''success'' else ''fail'') (MissionVotes s);
             n = length (PlayerIDs s);
             result = (if \<exists>k. (k, ''fail'') \<in> set votes then ''fail'' else ''success'');
             results = MissionResults s @ [result];
             fails = length (filter (\<lambda>r. r = ''fail'') results);
             successes = length (filter (\<lambda>r. r = ''success'') results);
             resolved = s\<lparr>MissionResults := results, MissionVotes := [], ProposedTeam := [],
                          Phase := PhaseTeamSelection,
                          LeaderIndex := (LeaderIndex s + 1) mod int n,
                          RejectCount := 0, RoundIndex := RoundIndex s + 1\<rparr>
         in map_of votes actor = Some (if b then ''success'' else ''fail'') \<and>
            length votes = length (MissionVotes s) + 1 \<and>
            FailThreshold (NewEngine ClassicAvalonConfig) = 3 \<and>
            applyVote e s actor pl =
             (if length votes < length (ProposedTeam s) then
                Inr (s\<lparr>MissionVotes := votes\<rparr>,
                     [\<lparr>Event = ''vote_recorded'', Payload = [(''player_id'', DString actor)]\<rparr>])
              else if int fails \<ge> FailThreshold e then
                Inr (resolved\<lparr>Status := ''finished'', Phase := PhaseFinished,
                              Winner := ''evil''\<rparr>,
                     [\<lparr>Event = ''game_ended'',
                       Payload = [(''winner'', DString ''evil''),
                                  (''mission_result'', DString result)]\<rparr>])
              else if successes \<ge> 3 then
                Inr (resolved\<lparr>Status := ''finished'', Phase := PhaseFinished,
                              Winner := ''good''\<rparr>,
                     [\<lparr>Event = ''game_ended'',
                       Payload = [(''winner'', DString ''good''),
                                  (''mission_result'', DString result)]\<rparr>])
              else
                Inr (resolved,
                     [\<lparr>Event = ''mission_resolved'',
                       Payload = [(''result'', DString result),
                                  (''round_index'', DInt (RoundIndex s + 1)),
                                  (''leader_id'',
                                   DString (PlayerIDs s ! nat ((LeaderIndex s + 1) mod int n))),
                                  (''phase'', DString PhaseTeamSelection)]\<rparr>]))"
proof -
  define votes where
    "votes = AList.update actor (if b then ''success'' else ''fail'') (MissionVotes s)"
  define result where
    "result = (if \<exists>k. (k, ''fail'') \<in> set votes then ''fail'' else ''success'')"
  define results where "results = MissionResults s @ [result]"
  define leader where "leader = (LeaderIndex s + 1) mod int (length (PlayerIDs s))"
  have ing: "actor \<in> set (PlayerIDs s)"
    using team sub by auto
  have npos: "0 < length (PlayerIDs s)"
    using ing by (cases "PlayerIDs s") auto
  note rot = rotate_leader [OF li npos, folded leader_def]
  have w: "wrap64 (RoundIndex s + 1) = RoundIndex s + 1"
    using ri by (simp add: wrap64_succ)
  have len: "length votes = length (MissionVotes s) + 1"
    using fresh by (simp add: votes_def length_update map_of_eq_None_iff)
  have result_eq:
    "(if 0 < countOf ''fail'' (map snd votes) then ''fail'' else ''success'') = result"
    unfolding result_def countOf_pos_iff snd_in_map_iff by simp
  have "result \<in> {''success'', ''fail''}"
    by (simp add: result_def)
  with res have "set results \<subseteq> {''success'', ''fail''}"
    by (auto simp: results_def)
  then have succ:
    "int (length results) - int (countOf ''fail'' results) = int (countOf ''success'' results)"
    by (rule countOf_success)
  have thr: "FailThreshold (NewEngine ClassicAvalonConfig) = 3"
    by (simp add: NewEngine_def ClassicAvalonConfig_def Let_def)
  have recorded: "map_of votes actor = Some (if b then ''success'' else ''fail'')"
    by (simp add: votes_def update_conv')
  have main: "applyVote e s actor pl =
     (if length votes < length (ProposedTeam s) then
        Inr (s\<lparr>MissionVotes := votes\<rparr>,
             [\<lparr>Event = ''vote_recorded'', Payload = [(''player_id'', DString actor)]\<rparr>])
      else if int (countOf ''fail'' results) \<ge> FailThreshold e then
        Inr (s\<lparr>MissionResults := results, MissionVotes := [], ProposedTeam := [],
               Phase := PhaseTeamSelection, LeaderIndex := leader,
               RejectCount := 0, RoundIndex := RoundIndex s + 1,
               Status := ''finished'', Phase := PhaseFinished, Winner := ''evil''\<rparr>,
             [\<lparr>Event = ''game_ended'',
               Payload = [(''winner'', DString ''evil''),
                          (''mission_result'', DString result)]\<rparr>])
      else if int (length results) - int (countOf ''fail'' results) \<ge> 3 then
        Inr (s\<lparr>MissionResults := results, MissionVotes := [], ProposedTeam := [],
               Phase := PhaseTeamSelection, LeaderIndex := leader,
               RejectCount := 0, RoundIndex := RoundIndex s + 1,
               Status := ''finished'', Phase := PhaseFinished, Winner := ''good''\<rparr>,
             [\<lparr>Event = ''game_ended'',
               Payload = [(''winner'', DString ''good''),
                          (''mission_result'', DString result)]\<rparr>])
      else
        Inr (s\<lparr>MissionResults := results, MissionVotes := [], ProposedTeam := [],
               Phase := PhaseTeamSelection, LeaderIndex := leader,
               RejectCount := 0, RoundIndex := RoundIndex s + 1\<rparr>,
             [\<lparr>Event = ''mission_resolved'',
               Payload = [(''result'', DString result),
                          (''round_index'', DInt (RoundIndex s + 1)),
                          (''leader_id'', DString (PlayerIDs s ! nat leader)),
                          (''phase'', DString PhaseTeamSelection)]\<rparr>]))"
    using ph ing team fresh npos
    unfolding applyVote_def applyVote_MissionVote_def
    by (simp add: Let_def Clone_def isPlayerInGame_def isOnProposedTeam_def w
        boolFromPayload_vote [OF pay]
        rot LeaderPlayerID_def result_eq votes_def [symmetric] results_def [symmetric])
  have c: "countOf v xs = length (filter (\<lambda>r. r = v) xs)" for v xs
    by (simp add: countOf_def)
  show ?thesis
    unfolding Let_def votes_def [symmetric] result_def [symmetric] results_def [symmetric]
      leader_def [symmetric]
    using recorded thr main succ len by (simp add: c)
qed

theorem mission_vote_transition_witness:
  "Phase ex_mission_vote_state = PhaseMissionVote \<and>
   ''p4'' \<in> set (ProposedTeam ex_mission_vote_state) \<and>
   set (ProposedTeam ex_mission_vote_state) \<subseteq> set (PlayerIDs ex_mission_vote_state) \<and>
   map_of (MissionVotes ex_mission_vote_state) ''p4'' = None \<and>
   0 \<le> LeaderIndex ex_mission_vote_state \<and>
   LeaderIndex ex_mission_vote_state < 9223372036854775807 \<and>
   - 9223372036854775808 \<le> RoundIndex ex_mission_vote_state \<and>
   RoundIndex ex_mission_vote_state < 9223372036854775807 \<and>
   set (MissionResults ex_mission_vote_state) \<subseteq> {''success'', ''fail''} \<and>
   applyVote (NewEngine ClassicAvalonConfig) ex_mission_vote_state ''p4''
       [(''success'', DBool True)] =
     Inr (ex_mission_vote_state\<lparr>MissionResults := [''success'', ''success'', ''fail''],
                                 MissionVotes := [], ProposedTeam := [],
                                 Phase := PhaseTeamSelection, LeaderIndex := 3,
                                 RejectCount := 0, RoundIndex := 4\<rparr>,
          [\<lparr>Event = ''mission_resolved'',
            Payload = [(''result'', DString ''fail''), (''round_index'', DInt 4),
                       (''leader_id'', DString ''p4''),
                       (''phase'', DString PhaseTeamSelection)]\<rparr>]) \<and>
   applyVote (NewEngine ClassicAvalonConfig)
       (ex_mission_vote_state\<lparr>MissionVotes := [(''p3'', ''success'')]\<rparr>) ''p4''
       [(''success'', DString ''true'')] =
     Inr (ex_mission_vote_state\<lparr>MissionResults := [''success'', ''success'', ''success''],
                                 MissionVotes := [], ProposedTeam := [],
                                 Phase := PhaseFinished, LeaderIndex := 3,
                                 RejectCount := 0, RoundIndex := 4,
                                 Status := ''finished'', Winner := ''good''\<rparr>,
          [\<lparr>Event = ''game_ended'',
            Payload = [(''winner'', DString ''good''),
                       (''mission_result'', DString ''success'')]\<rparr>]) \<and>
   applyVote (NewEngine ClassicAvalonConfig)
       (ex_mission_vote_state\<lparr>MissionResults := [''fail'', ''success'', ''fail'']\<rparr>) ''p4''
       [(''success'', DBool False)] =
     Inr (ex_mission_vote_state\<lparr>MissionResults := [''fail'', ''success'', ''fail'', ''fail''],
                                 MissionVotes := [], ProposedTeam := [],
                                 Phase := PhaseFinished, LeaderIndex := 3,
                                 RejectCount := 0, RoundIndex := 4,
                                 Status := ''finished'', Winner := ''evil''\<rparr>,
          [\<lparr>Event = ''game_ended'',
            Payload = [(''winner'', DString ''evil''),
                       (''mission_result'', DString ''fail'')]\<rparr>]) \<and>
   applyVote (NewEngine ClassicAvalonConfig)
       (ex_mission_vote_state\<lparr>MissionVotes := []\<rparr>) ''p4'' [(''success'', DBool True)] =
     Inr (ex_mission_vote_state\<lparr>MissionVotes := [(''p4'', ''success'')]\<rparr>,
          [\<lparr>Event = ''vote_recorded'', Payload = [(''player_id'', DString ''p4'')]\<rparr>])"
  using mission_vote_transition [of ex_mission_vote_state "''p4''" "[(''success'', DBool True)]"
      True "NewEngine ClassicAvalonConfig"]
    mission_vote_transition [of "ex_mission_vote_state\<lparr>MissionVotes := [(''p3'', ''success'')]\<rparr>"
      "''p4''" "[(''success'', DString ''true'')]" True "NewEngine ClassicAvalonConfig"]
    mission_vote_transition
      [of "ex_mission_vote_state\<lparr>MissionResults := [''fail'', ''success'', ''fail'']\<rparr>"
      "''p4''" "[(''success'', DBool False)]" False "NewEngine ClassicAvalonConfig"]
    mission_vote_transition [of "ex_mission_vote_state\<lparr>MissionVotes := []\<rparr>"
      "''p4''" "[(''success'', DBool True)]" True "NewEngine ClassicAvalonConfig"]
  by (simp add: ex_mission_vote_state_def ex_players_def emptyState_def Let_def NewEngine_def
      ClassicAvalonConfig_def ex_disj_distrib)

section \<open>Properties of team proposals\<close>

text \<open>
  C4. The engine built from the default configuration, a game of six players in round 3: the
  per-player-count table asks for a team of 4, but the leader's proposal of four players is
  refused with "team must have exactly 2 members for this round", and a proposal of two
  players is accepted. \<^verbatim>\<open>NewEngine\<close> has replaced the nil \<^verbatim>\<open>TeamSizes\<close> of the default
  configuration by the five-player row, so the table is never consulted.
\<close>

theorem propose_team_ignores_player_count:
  "DefaultTeamSizesForPlayerCount 6 ! 2 = 4 \<and>
   TeamSizes (NewEngine ClassicAvalonConfig) = Some [2, 3, 2, 3, 3] \<and>
   applyAction (NewEngine ClassicAvalonConfig) ex_six_players_round3 ''p3''
       (propose_payload [''p1'', ''p2'', ''p3'', ''p4'']) = Inl (ErrTeamSize 2) \<and>
   applyAction (NewEngine ClassicAvalonConfig) ex_six_players_round3 ''p3''
       (propose_payload [''p3'', ''p4'']) =
     Inr (ex_six_players_round3\<lparr>ProposedTeam := [''p3'', ''p4''], Phase := PhaseTeamVote,
                                 TeamVotes := []\<rparr>,
          [\<lparr>Event = ''team_proposed'',
            Payload = [(''team'', DStrings [''p3'', ''p4'']),
                       (''phase'', DString PhaseTeamVote)]\<rparr>])"
  by (simp add: DefaultTeamSizesForPlayerCount_def NewEngine_def ClassicAvalonConfig_def
      ClassicAvalonPhases_def applyAction_def applyAction_ProposeTeam_def getAllowedActions_def
      ex_six_players_round3_def emptyState_def propose_payload_def pget_def asString_def
      LeaderPlayerID_def stringSliceFromPayload_def stringsOf_def index_or_panic_def
      isPlayerInGame_def Clone_def Let_def)

section \<open>Properties of snapshot maps\<close>

lemma pget_update: "pget (AList.update k v m) k' = (if k' = k then v else pget m k')"
  by (simp add: pget_def update_conv')

lemma pget_update_if:
  "pget (if c then AList.update k v m else m) k' =
     (if k' = k then (if c then v else pget m k') else pget m k')"
  by (simp add: pget_update)

text \<open>A string of ASCII characters is encoded as it is.\<close>

lemma ascii_byte: "\<not> digit7 c \<Longrightarrow> byte_in c 0 127"
  by (cases c) (simp add: byte_in_def)

lemma json_bytes_ascii: "list_all (\<lambda>c. \<not> digit7 c) s \<Longrightarrow> json_bytes 0 s = s"
  by (induction s) (simp_all add: rune_size_def ascii_byte)

lemma json_string_ascii: "list_all (\<lambda>c. \<not> digit7 c) s \<Longrightarrow> json_string s = s"
  by (simp add: json_string_def json_bytes_ascii)

lemma utf8_ascii: "list_all (\<lambda>c. \<not> digit7 c) s \<Longrightarrow> utf8 s"
  by (simp add: utf8_def json_string_ascii)

lemma json_string_Nil: "json_string [] = []"
  by (simp add: json_string_def)

lemma json_object_id:
  assumes "\<forall>k \<in> fst ` set m. json_string k = k" "distinct (map fst m)"
  shows "json_object m = m"
proof -
  have "map (\<lambda>kv. (json_string (fst kv), snd kv)) m = m"
    using assms(1) by (induction m) auto
  then show ?thesis
    using assms(2) by (simp add: json_object_def)
qed

lemma json_map_keys:
  assumes "\<forall>k \<in> fst ` set m. json_string k = k" "distinct (map fst m)"
  shows "json_map m = map (\<lambda>kv. (fst kv, json_value (snd kv))) m"
  unfolding json_map_def
  by (rule json_object_id) (use assms in \<open>auto simp: comp_def image_iff\<close>)

lemma pget_map_values:
  "pget (map (\<lambda>kv. (fst kv, json_value (snd kv))) m) k = json_value (pget m k)"
  by (induction m) (auto simp: pget_def)

text \<open>The encoding of an object goes through a change of its values.\<close>

lemma update_map_values:
  "AList.update k (f v) (map (\<lambda>kv. (fst kv, f (snd kv))) acc) =
   map (\<lambda>kv. (fst kv, f (snd kv))) (AList.update k v acc)"
  by (induction acc) auto

lemma fold_update_map_values:
  "fold (\<lambda>kv acc. AList.update (g (fst kv)) (snd kv) acc) (map (\<lambda>kv. (fst kv, f (snd kv))) xs)
        (map (\<lambda>kv. (fst kv, f (snd kv))) acc) =
   map (\<lambda>kv. (fst kv, f (snd kv)))
     (fold (\<lambda>kv acc. AList.update (g (fst kv)) (snd kv) acc) xs acc)"
  by (induction xs arbitrary: acc) (simp_all add: update_map_values)

lemma insort_key_map_values:
  "insort_key fst (fst x, f (snd x)) (map (\<lambda>kv. (fst kv, f (snd kv))) xs) =
   map (\<lambda>kv. (fst kv, f (snd kv))) (insort_key fst x xs)"
  by (induction xs) auto

lemma sort_key_map_values:
  "sort_key fst (map (\<lambda>kv. (fst kv, f (snd kv))) xs) =
   map (\<lambda>kv. (fst kv, f (snd kv))) (sort_key fst xs)"
  by (induction xs) (simp_all add: insort_key_map_values)

lemma json_object_map_values:
  "json_object (map (\<lambda>kv. (fst kv, f (snd kv))) m) = map (\<lambda>kv. (fst kv, f (snd kv))) (json_object m)"
proof -
  have k: "map fst (map (\<lambda>kv. (json_string (fst kv), snd kv)) (map (\<lambda>kv. (fst kv, f (snd kv))) m)) =
           map fst (map (\<lambda>kv. (json_string (fst kv), snd kv)) m)"
    by (simp add: comp_def)
  have f: "fold (\<lambda>kv acc. AList.update (json_string (fst kv)) (snd kv) acc)
             (map (\<lambda>kv. (fst kv, f (snd kv))) (sort_key fst m)) [] =
           map (\<lambda>kv. (fst kv, f (snd kv)))
             (fold (\<lambda>kv acc. AList.update (json_string (fst kv)) (snd kv) acc) (sort_key fst m) [])"
    using fold_update_map_values [of json_string f "sort_key fst m" "[]"] by simp
  show ?thesis
    unfolding json_object_def Let_def k sort_key_map_values f
    by (simp add: comp_def)
qed

lemma stringMap_json: "stringMap (json_value (DStrMap m)) = Some (json_strmap m)"
proof -
  have e: "map (\<lambda>kv. (fst kv, DString (json_string (snd kv)))) m =
        map (\<lambda>kv. (fst kv, DString (snd kv))) (map (\<lambda>kv. (fst kv, json_string (snd kv))) m)"
    by (simp add: comp_def)
  have "json_value (DStrMap m) =
          DMap (json_object (map (\<lambda>kv. (fst kv, DString (json_string (snd kv)))) m))"
    by simp
  also have "\<dots> = DMap (map (\<lambda>kv. (fst kv, DString (snd kv))) (json_strmap m))"
    unfolding e json_strmap_def by (simp only: json_object_map_values)
  finally have v: "json_value (DStrMap m) =
                     DMap (map (\<lambda>kv. (fst kv, DString (snd kv))) (json_strmap m))" .
  have "concat (map (\<lambda>kv. case snd kv of DString s \<Rightarrow> [(fst kv, s)] | _ \<Rightarrow> [])
                   (map (\<lambda>kv. (fst kv, DString (snd kv))) x)) = x" for x :: "(string \<times> string) list"
    by (induction x) auto
  then show ?thesis
    unfolding v by (simp add: stringMap_def)
qed

lemma stringsOf_strings: "stringsOf (map (\<lambda>x. DString (f x)) xs) = map f xs"
  by (induction xs) (simp_all add: stringsOf_def)

lemma stringSlice_json: "stringSlice (json_value (DStrings xs)) = Some (map json_string xs)"
  by (simp add: stringSlice_def stringsOf_strings)

lemma floatToInt_json: "floatToInt (json_value (DInt i)) = Some (json_int i)"
  by (simp add: floatToInt_def json_int_def)

lemma json_strmap_Nil: "json_strmap [] = []"
  by (simp add: json_strmap_def json_object_def)

lemma json_opt:
  "stringMap (json_value (if m = [] then DNil else DStrMap m)) =
     (if m = [] then None else Some (json_strmap m))"
  "stringSlice (json_value (if xs = [] then DNil else DStrings xs)) =
     (if xs = [] then None else Some (map json_string xs))"
  "asStringOpt (json_value (if w = [] then DNil else DString w)) =
     (if w = [] then None else Some (json_string w))"
  "asStringOpt (json_value (DString w)) = Some (json_string w)"
  using stringMap_json [of m] stringSlice_json [of xs]
  by (simp_all add: stringMap_def stringSlice_def asStringOpt_def)

lemma pget_ToMap:
  "pget (ToMap s) ''game_id'' = DString (GameID s)"
  "pget (ToMap s) ''phase'' = DString (Phase s)"
  "pget (ToMap s) ''status'' = DString (Status s)"
  "pget (ToMap s) ''round_index'' = DInt (RoundIndex s)"
  "pget (ToMap s) ''leader_index'' = DInt (LeaderIndex s)"
  "pget (ToMap s) ''player_ids'' = DStrings (PlayerIDs s)"
  "pget (ToMap s) ''reject_count'' = DInt (RejectCount s)"
  "pget (ToMap s) ''version'' = DInt (Version s)"
  "pget (ToMap s) ''roles'' = (if Roles s = [] then DNil else DStrMap (Roles s))"
  "pget (ToMap s) ''proposed_team'' = (if ProposedTeam s = [] then DNil else DStrings (ProposedTeam s))"
  "pget (ToMap s) ''team_votes'' = (if TeamVotes s = [] then DNil else DStrMap (TeamVotes s))"
  "pget (ToMap s) ''mission_votes'' = (if MissionVotes s = [] then DNil else DStrMap (MissionVotes s))"
  "pget (ToMap s) ''mission_results'' = (if MissionResults s = [] then DNil else DStrings (MissionResults s))"
  "pget (ToMap s) ''winner'' = (if Winner s = [] then DNil else DString (Winner s))"
  unfolding ToMap_def Let_def pget_update_if
  by (simp_all add: pget_def)

text \<open>The keys of a snapshot map are the fourteen field names, each at most once.\<close>

lemma ToMap_keys:
  "distinct (map fst (ToMap s))"
  "fst ` set (ToMap s) \<subseteq> {''game_id'', ''phase'', ''status'', ''round_index'', ''leader_index'',
      ''player_ids'', ''reject_count'', ''version'', ''roles'', ''proposed_team'', ''team_votes'',
      ''mission_votes'', ''mission_results'', ''winner''}"
  unfolding ToMap_def Let_def
  by (auto simp: distinct_update dom_update split: if_splits)

lemma ToMap_keys_utf8: "\<forall>k \<in> fst ` set (ToMap s). json_string k = k"
proof
  fix k assume "k \<in> fst ` set (ToMap s)"
  with ToMap_keys(2) [of s] have "k \<in> {''game_id'', ''phase'', ''status'', ''round_index'', ''leader_index'',
      ''player_ids'', ''reject_count'', ''version'', ''roles'', ''proposed_team'', ''team_votes'',
      ''mission_votes'', ''mission_results'', ''winner''}"
    by blast
  then show "json_string k = k"
    by (auto simp: json_string_ascii)
qed

lemma pget_json_ToMap: "pget (json_map (ToMap s)) k = json_value (pget (ToMap s) k)"
  by (simp add: json_map_keys [OF ToMap_keys_utf8 ToMap_keys(1)] pget_map_values)

text \<open>
  Through the store a snapshot comes back as the state it was written from, up to what the
  JSON encoding does to strings, maps and numbers: the store marshals the map to JSON and
  decodes it again, and \<^verbatim>\<open>StateFromMap\<close> reads the decoded form.
\<close>

lemma StateFromMap_json_state: "StateFromMap (json_map (ToMap s)) = json_state s"
proof -
  have "StateFromMap (json_map (ToMap s)) =
     emptyState\<lparr>GameID := json_string (GameID s), Phase := json_string (Phase s),
       Status := json_string (Status s), RoundIndex := json_int (RoundIndex s),
       LeaderIndex := json_int (LeaderIndex s), PlayerIDs := map json_string (PlayerIDs s),
       Roles := json_strmap (Roles s), ProposedTeam := map json_string (ProposedTeam s),
       TeamVotes := json_strmap (TeamVotes s), MissionVotes := json_strmap (MissionVotes s),
       MissionResults := map json_string (MissionResults s),
       RejectCount := json_int (RejectCount s), Winner := json_string (Winner s),
       Version := json_int (Version s)\<rparr>"
    unfolding StateFromMap_def pget_json_ToMap pget_ToMap json_opt floatToInt_json stringSlice_json
    by (simp add: setIf_def emptyState_def json_strmap_Nil json_string_Nil)
  also have "\<dots> = json_state s"
    by (simp add: emptyState_def json_state_def)
  finally show ?thesis .
qed

lemma json_int_exact: "float_exact i \<Longrightarrow> json_int i = i"
  by (auto simp: json_int_def float_exact_def float64_of_int_def int_of_float64_def Let_def)

lemma map_json_string_utf8: "list_all utf8 xs \<Longrightarrow> map json_string xs = xs"
  by (induction xs) (simp_all add: utf8_def)

lemma json_strmap_utf8:
  assumes "utf8_map m"
  shows "json_strmap m = m"
proof -
  have v: "map (\<lambda>kv. (fst kv, json_string (snd kv))) m = m"
    using assms by (induction m) (auto simp: utf8_map_def utf8_def)
  have "\<forall>k \<in> fst ` set m. json_string k = k"
    using assms by (auto simp: utf8_map_def utf8_def list_all_iff)
  moreover have "distinct (map fst m)"
    using assms by (simp add: utf8_map_def)
  ultimately show ?thesis
    unfolding json_strmap_def v by (rule json_object_id)
qed

lemma json_state_exact: "json_exact s \<Longrightarrow> json_state s = s"
  by (simp add: json_exact_def json_state_def json_int_exact map_json_string_utf8
      json_strmap_utf8 utf8_def)

lemma StateFromMap_json_ToMap: "json_exact s \<Longrightarrow> StateFromMap (json_map (ToMap s)) = s"
  by (simp add: StateFromMap_json_state json_state_exact)

text \<open>The states of the examples are of this kind.\<close>

lemma ex_states_json_exact:
  "json_exact ex_team_vote_state"
  "json_exact ex_mission_vote_state"
  "json_exact ex_finished_state"
  "json_exact ex_rejected_state"
  by (simp_all add: json_exact_def ex_team_vote_state_def ex_mission_vote_state_def
      ex_finished_state_def ex_rejected_state_def ex_players_def emptyState_def utf8_map_def
      float_exact_def utf8_ascii)

text \<open>The payload of the example vote, as the event row holds it.\<close>

lemma ex_vote_payload_json:
  "json_map [(''approved'', DBool False), (''move_type'', DString ''vote'')] =
     [(''approved'', DBool False), (''move_type'', DString ''vote'')]"
  by (simp add: json_map_def json_object_def json_string_ascii)

section \<open>Properties of ApplyMove\<close>

lemma GetState_latest:
  assumes "valid_uuid env gameID" "\<not> db_fails env SelectLatestSnapshot"
  shows "GetState env db gameID =
     Inr (map_option (\<lambda>r. StateFromMap (snap_state_json r)) (GetLatestGameStateSnapshotByGameId db gameID))"
  using assms by (simp add: GetState_def GetLatestSnapshot_def split: option.splits)

lemma CreateOrUpdateSnapshot_frame:
  assumes "CreateOrUpdateSnapshot env db gameID m = Inr (v, db')"
  shows "db' = db\<lparr>game_state_snapshots := game_state_snapshots db @
                 [\<lparr>snap_game_id = gameID, snap_version = v, snap_state_json = json_map m\<rparr>]\<rparr>"
  using assms
  by (auto simp: CreateOrUpdateSnapshot_def CreateGameStateSnapshot_def Let_def
      split: if_splits sum.splits)

lemma UpdateGameStatus_frame:
  assumes "UpdateGameStatus env db gameID status t = Inr db'"
  shows "game_events db' = game_events db \<and> game_state_snapshots db' = game_state_snapshots db"
  using assms by (auto simp: UpdateGameStatus_def split: if_splits)

lemma ApplyMove_accepted:
  assumes st: "GetState env db gameID = Inr (Some state)"
    and nb: "\<not> (Phase state = PhaseLobby \<and> PlayerIDs state = [])"
    and nf: "Status state \<noteq> ''finished''"
    and a: "a < length h"
    and ok: "accepted e state actor moveType (h ! a) next evs"
  shows "ApplyMove e env db h gameID actor moveType (Some a) =
    (let h' = h[a := AList.update ''move_type'' (DString moveType) (h ! a)] in
     case CreateGameEvent env db
            \<lparr>req_GameID = gameID, req_RoomPlayerID = Some actor, req_Type = moveType,
             req_Payload = h' ! a\<rparr> of
       Inl _ \<Rightarrow> (Inl ErrPersistEvent, db, h')
     | Inr db1 \<Rightarrow>
        (case CreateOrUpdateSnapshot env db1 gameID (ToMap next) of
           Inl _ \<Rightarrow> (Inl ErrPersistSnapshot, db1, h')
         | Inr (version, db2) \<Rightarrow>
            (Inr (next\<lparr>Version := version\<rparr>, evs),
             (if Status next = ''finished''
              then (case UpdateGameStatus env db2 gameID ''finished'' (Some (now env)) of
                      Inl _ \<Rightarrow> db2 | Inr d \<Rightarrow> d)
              else db2), h')))"
proof -
  have d2: "deref (h[a := p]) (Some a) = p" for p
    using a by (simp add: deref_def)
  have d1: "deref h (Some a) = h ! a"
    using a by (simp add: deref_def)
  have nb': "(Phase state = PhaseLobby \<and> length (PlayerIDs state) = 0) = False"
    using nb by simp
  from ok consider
      (vote) "moveType = ''vote''" "applyVote e state actor (h ! a) = Inr (next, evs)"
    | (action) "moveType = ''action''" "applyAction e state actor (h ! a) = Inr (next, evs)"
    unfolding accepted_def by blast
  then show ?thesis
  proof cases
    case vote
    then show ?thesis
      unfolding ApplyMove_def st using nb nf a
      by (cases "Phase state = PhaseLobby") (simp_all add: d1 d2 Let_def cong: sum.case_cong)
  next
    case action
    then show ?thesis
      unfolding ApplyMove_def st using nb nf a
      by (cases "Phase state = PhaseLobby") (simp_all add: d1 d2 Let_def cong: sum.case_cong)
  qed
qed

lemma latest_ex_db:
  "GetLatestGameStateSnapshotByGameId (ex_db s) ''g1'' =
     Some \<lparr>snap_game_id = ''g1'', snap_version = 2, snap_state_json = json_map (ToMap s)\<rparr>"
  by (simp add: GetLatestGameStateSnapshotByGameId_def ex_db_def)

lemma GetState_ex_db_env:
  "json_exact s \<Longrightarrow> valid_uuid env ''g1'' \<Longrightarrow> \<not> db_fails env SelectLatestSnapshot \<Longrightarrow>
   GetState env (ex_db s) ''g1'' = Inr (Some s)"
  by (simp add: GetState_latest latest_ex_db StateFromMap_json_ToMap)

lemma ex_team_vote_rejected:
  "applyVote e ex_team_vote_state ''p3'' [(''approved'', DBool False)] =
     Inr (ex_team_vote_state\<lparr>RejectCount := 1, LeaderIndex := 1, Phase := PhaseTeamSelection,
                              ProposedTeam := [], TeamVotes := []\<rparr>,
          [\<lparr>Event = ''team_rejected'',
            Payload = [(''phase'', DString PhaseTeamSelection), (''reject_count'', DInt 1),
                       (''leader_id'', DString ''p2'')]\<rparr>])"
  by (simp add: applyVote_def applyVote_TeamVote_def isPlayerInGame_def Clone_def Let_def
      ex_team_vote_state_def ex_players_def emptyState_def boolFromPayload_def pget_def
      countOf_def go_rem_def wrap64_def LeaderPlayerID_def)

lemma ex_vote_accepted:
  "accepted e ex_team_vote_state ''p3'' ''vote'' (ex_vote_heap ! 0) ex_rejected_state ex_rejected_events"
  by (simp add: accepted_def ex_vote_heap_def ex_team_vote_rejected ex_rejected_state_def
      ex_rejected_events_def)

lemma ex_team_vote_state_running:
  "\<not> (Phase ex_team_vote_state = PhaseLobby \<and> PlayerIDs ex_team_vote_state = [])"
  "Status ex_team_vote_state \<noteq> ''finished''"
  by (simp_all add: ex_team_vote_state_def emptyState_def)

lemma ex_env_simps:
  "valid_uuid ex_env x" "\<not> db_fails ex_env q"
  "valid_uuid ex_env_snapshot_fails x"
  "db_fails ex_env_snapshot_fails q \<longleftrightarrow> q = InsertSnapshot"
  by (simp_all add: ex_env_def ex_env_snapshot_fails_def)

lemma ex_db_simps:
  "game_events (ex_db s) = []"
  "GetLatestGameStateSnapshotByGameId ((ex_db s)\<lparr>game_events := evs\<rparr>) ''g1'' =
     GetLatestGameStateSnapshotByGameId (ex_db s) ''g1''"
  by (simp_all add: ex_db_def GetLatestGameStateSnapshotByGameId_def)

text \<open>
  C6. When the latest snapshot of a game has status finished (and is not the lobby state of
  a game without players, which no finished game has: the engine sets phase finished together
  with the status), \<^verbatim>\<open>ApplyMove\<close> returns an error for every actor, move kind and payload,
  and leaves the database (snapshots and events) and the caller's payload as they were.
\<close>

theorem finished_game_rejects_every_move:
  assumes latest: "GetLatestGameStateSnapshotByGameId db gameID = Some snapshot"
    and fin: "Status (StateFromMap (snap_state_json snapshot)) = ''finished''"
    and started: "Phase (StateFromMap (snap_state_json snapshot)) \<noteq> PhaseLobby \<or>
                  PlayerIDs (StateFromMap (snap_state_json snapshot)) \<noteq> []"
  shows "ApplyMove e env db h gameID actor moveType payloadRef =
           (Inl (if valid_uuid env gameID \<and> \<not> db_fails env SelectLatestSnapshot
                 then ErrGameAlreadyFinished else ErrGetState), db, h)"
  using assms
  by (auto simp: ApplyMove_def GetState_def GetLatestSnapshot_def)

theorem finished_game_rejects_every_move_witness:
  "GetLatestGameStateSnapshotByGameId (ex_db ex_finished_state) ''g1'' =
     Some \<lparr>snap_game_id = ''g1'', snap_version = 2,
           snap_state_json = json_map (ToMap ex_finished_state)\<rparr> \<and>
   Status (StateFromMap (json_map (ToMap ex_finished_state))) = ''finished'' \<and>
   Phase (StateFromMap (json_map (ToMap ex_finished_state))) = PhaseFinished \<and>
   ApplyMove (NewEngine ClassicAvalonConfig) ex_env (ex_db ex_finished_state)
       [propose_payload [''p1'', ''p2'']] ''g1'' ''p4'' ''action'' (Some 0) =
     (Inl ErrGameAlreadyFinished, ex_db ex_finished_state, [propose_payload [''p1'', ''p2'']])"
  using finished_game_rejects_every_move [of "ex_db ex_finished_state" "''g1''"
      "\<lparr>snap_game_id = ''g1'', snap_version = 2,
           snap_state_json = json_map (ToMap ex_finished_state)\<rparr>"
      "NewEngine ClassicAvalonConfig" ex_env "[propose_payload [''p1'', ''p2'']]" "''p4''" "''action''" "Some 0"]
  by (simp add: latest_ex_db StateFromMap_json_ToMap ex_states_json_exact)
     (simp add: ex_finished_state_def emptyState_def ex_env_def)

text \<open>
  C10. A move with a non-nil payload that passes validation (a vote, or an action on a started
  game): \<^verbatim>\<open>ApplyMove\<close> writes \<open>move_type\<close>, the move kind, into the map object the caller
  passed, whatever happens afterwards, and the event row it inserts carries that map, the
  caller's payload with the added key. If the insert of the event fails the database is
  unchanged, but the caller's map is written all the same.
\<close>

theorem move_type_written_into_callers_payload:
  assumes st: "GetState env db gameID = Inr (Some state)"
    and nb: "\<not> (Phase state = PhaseLobby \<and> PlayerIDs state = [])"
    and nf: "Status state \<noteq> ''finished''"
    and a: "a < length h"
    and ok: "accepted e state actor moveType (h ! a) next evs"
  shows "case ApplyMove e env db h gameID actor moveType (Some a) of
           (res, db', h') \<Rightarrow>
             h' = h[a := AList.update ''move_type'' (DString moveType) (h ! a)] \<and>
             pget (h' ! a) ''move_type'' = DString moveType \<and>
             (if (actor = [] \<or> valid_uuid env actor) \<and> \<not> db_fails env InsertGameEvent
              then game_events db' = game_events db @
                     [\<lparr>ev_game_id = gameID,
                       ev_room_player_id = (if actor = [] then None else Some actor),
                       ev_type = moveType, ev_payload_json = json_map (h' ! a)\<rparr>]
              else res = Inl ErrPersistEvent \<and> db' = db)"
proof -
  have vg: "valid_uuid env gameID"
    using st by (auto simp: GetState_def GetLatestSnapshot_def split: if_splits)
  show ?thesis
    unfolding ApplyMove_accepted [OF st nb nf a ok] Let_def
    using a vg
    by (auto simp: CreateGameEvent_def pget_update Let_def
        dest!: CreateOrUpdateSnapshot_frame UpdateGameStatus_frame
        split: sum.splits if_splits prod.splits)
qed

theorem move_type_written_into_callers_payload_witness:
  "GetState ex_env (ex_db ex_team_vote_state) ''g1'' = Inr (Some ex_team_vote_state) \<and>
   snd (snd (ApplyMove (NewEngine ClassicAvalonConfig) ex_env (ex_db ex_team_vote_state)
               ex_vote_heap ''g1'' ''p3'' ''vote'' (Some 0))) =
     [[(''approved'', DBool False), (''move_type'', DString ''vote'')]] \<and>
   game_events (fst (snd (ApplyMove (NewEngine ClassicAvalonConfig) ex_env
               (ex_db ex_team_vote_state) ex_vote_heap ''g1'' ''p3'' ''vote'' (Some 0)))) =
     [\<lparr>ev_game_id = ''g1'', ev_room_player_id = Some ''p3'', ev_type = ''vote'',
       ev_payload_json = [(''approved'', DBool False), (''move_type'', DString ''vote'')]\<rparr>]"
proof -
  have st: "GetState ex_env (ex_db ex_team_vote_state) ''g1'' = Inr (Some ex_team_vote_state)"
    by (simp add: GetState_ex_db_env ex_env_simps ex_states_json_exact)
  have a: "0 < length ex_vote_heap"
    by (simp add: ex_vote_heap_def)
  show ?thesis
    using move_type_written_into_callers_payload
      [OF st ex_team_vote_state_running a ex_vote_accepted, of "NewEngine ClassicAvalonConfig"]
    by (simp add: st ex_vote_heap_def ex_env_simps ex_db_simps ex_vote_payload_json
        split: prod.splits)
qed

text \<open>A nil or empty payload holds neither a vote nor the name of an action.\<close>

lemma accepted_payload: "\<not> accepted e s actor moveType [] next evs"
  by (auto simp: accepted_def applyVote_def applyVote_TeamVote_def applyVote_MissionVote_def
      applyAction_def pget_def boolFromPayload_def asString_def Let_def)

text \<open>
  \<^verbatim>\<open>bootstrapAndStart\<close> first validates, then writes: the snapshot of the initial state, and
  after it the status of the game. No event is inserted.
\<close>

lemma bootstrapAndStart_initialState:
  "bootstrapAndStart e env db gameID actor =
    (case initialState e env db gameID of
       Inl er \<Rightarrow> (Inl er, db)
     | Inr (state, stateMap) \<Rightarrow>
        (case CreateOrUpdateSnapshot env db gameID stateMap of
           Inl _ \<Rightarrow> (Inl ErrCreateInitialSnapshot, db)
         | Inr (version, db1) \<Rightarrow>
            (case UpdateGameStatus env db1 gameID ''in_progress'' None of
               Inl _ \<Rightarrow> (Inl ErrUpdateGameStatus, db1)
             | Inr db2 \<Rightarrow>
                (Inr (state\<lparr>Version := version\<rparr>,
                      [\<lparr>Event = ''game_started'',
                        Payload = [(''phase'', DString (Phase state)),
                                   (''round_index'', DInt (RoundIndex state)),
                                   (''leader_id'', DString (LeaderPlayerID state))]\<rparr>]),
                 db2))))"
  by (simp add: bootstrapAndStart_def initialState_def Let_def LeaderPlayerID_def
      split: sum.splits)

lemma ApplyMove_start:
  assumes st: "GetState env db gameID = Inr st"
    and b: "case st of None \<Rightarrow> True
            | Some state0 \<Rightarrow> Phase state0 = PhaseLobby \<and> PlayerIDs state0 = []"
    and acc: "accepted_start e env db h gameID moveType payloadRef start startMap"
  shows "ApplyMove e env db h gameID actor moveType payloadRef =
    (case CreateOrUpdateSnapshot env db gameID startMap of
       Inl _ \<Rightarrow> (Inl ErrCreateInitialSnapshot, db, h)
     | Inr (version, db1) \<Rightarrow>
        (case UpdateGameStatus env db1 gameID ''in_progress'' None of
           Inl _ \<Rightarrow> (Inl ErrUpdateGameStatus, db1, h)
         | Inr db2 \<Rightarrow>
            (Inr (start\<lparr>Version := version\<rparr>,
                  [\<lparr>Event = ''game_started'',
                    Payload = [(''phase'', DString (Phase start)),
                               (''round_index'', DInt (RoundIndex start)),
                               (''leader_id'', DString (LeaderPlayerID start))]\<rparr>]),
             db2, h)))"
proof -
  from acc have mt: "moveType = ''action''"
    and act: "asString (pget (deref h payloadRef) ''action'') = ActionStartGame"
    and ini: "initialState e env db gameID = Inr (start, startMap)"
    by (simp_all add: accepted_start_def)
  have "ApplyMove e env db h gameID actor moveType payloadRef =
          (case bootstrapAndStart e env db gameID actor of (res, db') \<Rightarrow> (res, db', h))"
    using b mt act unfolding ApplyMove_def st
    by (cases st) (simp_all add: Let_def)
  then show ?thesis
    unfolding bootstrapAndStart_initialState ini
    by (simp split: sum.splits prod.splits)
qed

text \<open>
  C3 as the code has it. For an accepted vote or action on a started game (it has a payload,
  \<open>accepted_payload\<close>) the event and the snapshot are written by two store calls, one after the other and outside any transaction:
  when the insert of the event fails, nothing is written; when the write of the snapshot fails
  after the event was inserted, \<^verbatim>\<open>ApplyMove\<close> returns "persist snapshot", no snapshot is written
  and the event row of the move stays in the store; when both succeed, the event row and the
  snapshot row of the next version are both there. For an accepted start_game, the one move
  accepted while the game has no snapshot or its state is the lobby without players, no event
  is inserted at all: the snapshot of the initial state is written and then the status of the
  game is updated, again by two store calls; when the write of the snapshot fails nothing is
  written, and when the update of the status fails \<^verbatim>\<open>ApplyMove\<close> returns "update game status"
  and the snapshot row stays in the store.
\<close>

theorem event_and_snapshot_are_separate_writes:
  assumes st: "GetState env db gameID = Inr st"
  shows "case ApplyMove e env db h gameID actor moveType payloadRef of
           (res, db', h') \<Rightarrow>
             (st = Some state \<and> \<not> (Phase state = PhaseLobby \<and> PlayerIDs state = []) \<and>
              Status state \<noteq> ''finished'' \<and> payloadRef = Some a \<and> a < length h \<and>
              accepted e state actor moveType (h ! a) next evs \<longrightarrow>
                (let row = \<lparr>ev_game_id = gameID,
                            ev_room_player_id = (if actor = [] then None else Some actor),
                            ev_type = moveType,
                            ev_payload_json =
                              json_map (AList.update ''move_type'' (DString moveType) (h ! a))\<rparr>;
                     db1 = db\<lparr>game_events := game_events db @ [row]\<rparr>
                 in if \<not> ((actor = [] \<or> valid_uuid env actor) \<and> \<not> db_fails env InsertGameEvent)
                    then res = Inl ErrPersistEvent \<and> db' = db
                    else
                     (case CreateOrUpdateSnapshot env db1 gameID (ToMap next) of
                        Inl _ \<Rightarrow> res = Inl ErrPersistSnapshot \<and> db' = db1
                      | Inr (v, db2) \<Rightarrow>
                          res = Inr (next\<lparr>Version := v\<rparr>, evs) \<and>
                          game_events db' = game_events db @ [row] \<and>
                          game_state_snapshots db' = game_state_snapshots db @
                            [\<lparr>snap_game_id = gameID, snap_version = v,
                              snap_state_json = json_map (ToMap next)\<rparr>]))) \<and>
             ((case st of None \<Rightarrow> True
               | Some state0 \<Rightarrow> Phase state0 = PhaseLobby \<and> PlayerIDs state0 = []) \<and>
              accepted_start e env db h gameID moveType payloadRef start startMap \<longrightarrow>
                h' = h \<and> game_events db' = game_events db \<and>
                (case CreateOrUpdateSnapshot env db gameID startMap of
                   Inl _ \<Rightarrow> res = Inl ErrCreateInitialSnapshot \<and> db' = db
                 | Inr (v, db1) \<Rightarrow>
                     game_state_snapshots db' = game_state_snapshots db @
                       [\<lparr>snap_game_id = gameID, snap_version = v,
                         snap_state_json = json_map startMap\<rparr>] \<and>
                     (case UpdateGameStatus env db1 gameID ''in_progress'' None of
                        Inl _ \<Rightarrow> res = Inl ErrUpdateGameStatus \<and> db' = db1
                      | Inr db2 \<Rightarrow>
                          res = Inr (start\<lparr>Version := v\<rparr>,
                                     [\<lparr>Event = ''game_started'',
                                       Payload = [(''phase'', DString (Phase start)),
                                                  (''round_index'', DInt (RoundIndex start)),
                                                  (''leader_id'',
                                                   DString (LeaderPlayerID start))]\<rparr>]) \<and>
                          db' = db2)))"
proof -
  have vg: "valid_uuid env gameID"
    using st by (auto simp: GetState_def GetLatestSnapshot_def split: if_splits)
  obtain res db' h' where r: "ApplyMove e env db h gameID actor moveType payloadRef = (res, db', h')"
    by (cases "ApplyMove e env db h gameID actor moveType payloadRef") auto
  have move: "let row = \<lparr>ev_game_id = gameID,
                            ev_room_player_id = (if actor = [] then None else Some actor),
                            ev_type = moveType,
                            ev_payload_json =
                              json_map (AList.update ''move_type'' (DString moveType) (h ! a))\<rparr>;
                     db1 = db\<lparr>game_events := game_events db @ [row]\<rparr>
                 in if \<not> ((actor = [] \<or> valid_uuid env actor) \<and> \<not> db_fails env InsertGameEvent)
                    then res = Inl ErrPersistEvent \<and> db' = db
                    else
                     (case CreateOrUpdateSnapshot env db1 gameID (ToMap next) of
                        Inl _ \<Rightarrow> res = Inl ErrPersistSnapshot \<and> db' = db1
                      | Inr (v, db2) \<Rightarrow>
                          res = Inr (next\<lparr>Version := v\<rparr>, evs) \<and>
                          game_events db' = game_events db @ [row] \<and>
                          game_state_snapshots db' = game_state_snapshots db @
                            [\<lparr>snap_game_id = gameID, snap_version = v,
                              snap_state_json = json_map (ToMap next)\<rparr>])"
    if s: "st = Some state" and nb: "\<not> (Phase state = PhaseLobby \<and> PlayerIDs state = [])"
      and nf: "Status state \<noteq> ''finished''" and p: "payloadRef = Some a" and a: "a < length h"
      and ok: "accepted e state actor moveType (h ! a) next evs"
  proof -
    have st': "GetState env db gameID = Inr (Some state)"
      using st s by simp
    show ?thesis
      using r [unfolded p ApplyMove_accepted [OF st' nb nf a ok] Let_def] a vg
      by (auto simp: CreateGameEvent_def Let_def
          dest!: CreateOrUpdateSnapshot_frame UpdateGameStatus_frame
          split: sum.splits if_splits prod.splits)
  qed
  have start: "h' = h \<and> game_events db' = game_events db \<and>
                (case CreateOrUpdateSnapshot env db gameID startMap of
                   Inl _ \<Rightarrow> res = Inl ErrCreateInitialSnapshot \<and> db' = db
                 | Inr (v, db1) \<Rightarrow>
                     game_state_snapshots db' = game_state_snapshots db @
                       [\<lparr>snap_game_id = gameID, snap_version = v,
                         snap_state_json = json_map startMap\<rparr>] \<and>
                     (case UpdateGameStatus env db1 gameID ''in_progress'' None of
                        Inl _ \<Rightarrow> res = Inl ErrUpdateGameStatus \<and> db' = db1
                      | Inr db2 \<Rightarrow>
                          res = Inr (start\<lparr>Version := v\<rparr>,
                                     [\<lparr>Event = ''game_started'',
                                       Payload = [(''phase'', DString (Phase start)),
                                                  (''round_index'', DInt (RoundIndex start)),
                                                  (''leader_id'',
                                                   DString (LeaderPlayerID start))]\<rparr>]) \<and>
                          db' = db2))"
    if b: "case st of None \<Rightarrow> True
           | Some state0 \<Rightarrow> Phase state0 = PhaseLobby \<and> PlayerIDs state0 = []"
      and acc: "accepted_start e env db h gameID moveType payloadRef start startMap"
  proof (cases "CreateOrUpdateSnapshot env db gameID startMap")
    case (Inl er)
    with r [unfolded ApplyMove_start [OF st b acc]] show ?thesis
      by simp
  next
    case (Inr p)
    obtain v db1 where p: "p = (v, db1)"
      by (cases p) auto
    have w: "CreateOrUpdateSnapshot env db gameID startMap = Inr (v, db1)"
      using Inr p by simp
    note f = CreateOrUpdateSnapshot_frame [OF w]
    show ?thesis
    proof (cases "UpdateGameStatus env db1 gameID ''in_progress'' None")
      case (Inl er)
      with r [unfolded ApplyMove_start [OF st b acc] w] f show ?thesis
        by (auto simp: w)
    next
      case (Inr db2)
      with r [unfolded ApplyMove_start [OF st b acc] w] f UpdateGameStatus_frame [OF Inr]
      show ?thesis
        by (auto simp: w)
    qed
  qed
  show ?thesis
    unfolding r using move start by simp
qed

lemma ex_partial_write:
  "ApplyMove (NewEngine ClassicAvalonConfig) ex_env_snapshot_fails (ex_db ex_team_vote_state)
       ex_vote_heap ''g1'' ''p3'' ''vote'' (Some 0) =
     (Inl ErrPersistSnapshot,
      (ex_db ex_team_vote_state)\<lparr>game_events :=
         [\<lparr>ev_game_id = ''g1'', ev_room_player_id = Some ''p3'', ev_type = ''vote'',
           ev_payload_json = [(''approved'', DBool False), (''move_type'', DString ''vote'')]\<rparr>]\<rparr>,
      [[(''approved'', DBool False), (''move_type'', DString ''vote'')]])"
proof -
  have st: "GetState ex_env_snapshot_fails (ex_db ex_team_vote_state) ''g1'' =
              Inr (Some ex_team_vote_state)"
    by (simp add: GetState_ex_db_env ex_env_simps ex_states_json_exact)
  have a: "0 < length ex_vote_heap"
    by (simp add: ex_vote_heap_def)
  show ?thesis
    unfolding ApplyMove_accepted [OF st ex_team_vote_state_running a ex_vote_accepted]
    by (simp add: ex_vote_heap_def ex_env_simps ex_db_simps CreateGameEvent_def
        CreateOrUpdateSnapshot_def ex_vote_payload_json)
qed

text \<open>
  The claim C3 fails: the last team vote of the example game, in an environment where the
  insert of the snapshot fails. The move returns an error, the snapshots are unchanged, and
  the event of the failed move is in the store.
\<close>

theorem snapshot_failure_leaves_event_counterexample:
  "fst (ApplyMove (NewEngine ClassicAvalonConfig) ex_env_snapshot_fails
          (ex_db ex_team_vote_state) ex_vote_heap ''g1'' ''p3'' ''vote'' (Some 0)) =
     Inl ErrPersistSnapshot \<and>
   game_events (ex_db ex_team_vote_state) = [] \<and>
   game_events (fst (snd (ApplyMove (NewEngine ClassicAvalonConfig) ex_env_snapshot_fails
          (ex_db ex_team_vote_state) ex_vote_heap ''g1'' ''p3'' ''vote'' (Some 0)))) =
     [\<lparr>ev_game_id = ''g1'', ev_room_player_id = Some ''p3'', ev_type = ''vote'',
       ev_payload_json = [(''approved'', DBool False), (''move_type'', DString ''vote'')]\<rparr>] \<and>
   game_state_snapshots (fst (snd (ApplyMove (NewEngine ClassicAvalonConfig)
          ex_env_snapshot_fails (ex_db ex_team_vote_state) ex_vote_heap ''g1'' ''p3'' ''vote''
          (Some 0)))) =
     game_state_snapshots (ex_db ex_team_vote_state)"
  unfolding ex_partial_write by (simp add: ex_db_def)

lemma ex_start_accepted:
  "accepted_start (NewEngine ClassicAvalonConfig) ex_env_status_fails ex_empty_db ex_start_heap
     ''g1'' ''action'' (Some 0) ex_start_state ex_start_map"
  by (simp add: accepted_start_def ex_start_heap_def deref_def pget_def asString_def
      initialState_def GetGamePlayerIDsInOrder_def ex_env_status_fails_def ex_env_def
      ex_empty_db_def ex_players_def NewEngine_def ClassicAvalonConfig_def Let_def
      index_or_panic_def assignGood_def ex_start_state_def ex_start_map_def emptyState_def
      upt_rec)

lemma ex_start_GetState: "GetState ex_env_status_fails ex_empty_db ''g1'' = Inr None"
  by (simp add: GetState_def GetLatestSnapshot_def GetLatestGameStateSnapshotByGameId_def
      ex_env_status_fails_def ex_env_def ex_empty_db_def)

lemma ex_start_snapshot:
  "CreateOrUpdateSnapshot ex_env_status_fails ex_empty_db ''g1'' m =
     Inr (1, ex_empty_db\<lparr>game_state_snapshots :=
               [\<lparr>snap_game_id = ''g1'', snap_version = 1, snap_state_json = json_map m\<rparr>]\<rparr>)"
  by (simp add: CreateOrUpdateSnapshot_def CreateGameStateSnapshot_def
      GetLatestGameStateSnapshotByGameId_def ex_env_status_fails_def ex_env_def ex_empty_db_def)

lemma ex_start_status:
  "UpdateGameStatus ex_env_status_fails db ''g1'' status t = Inl QueryFailed"
  by (simp add: UpdateGameStatus_def ex_env_status_fails_def ex_env_def)

theorem event_and_snapshot_are_separate_writes_witness:
  "GetState ex_env_snapshot_fails (ex_db ex_team_vote_state) ''g1'' =
     Inr (Some ex_team_vote_state) \<and>
   accepted (NewEngine ClassicAvalonConfig) ex_team_vote_state ''p3'' ''vote'' (ex_vote_heap ! 0)
     ex_rejected_state ex_rejected_events \<and>
   ApplyMove (NewEngine ClassicAvalonConfig) ex_env_snapshot_fails (ex_db ex_team_vote_state)
       ex_vote_heap ''g1'' ''p3'' ''vote'' (Some 0) =
     (Inl ErrPersistSnapshot,
      (ex_db ex_team_vote_state)\<lparr>game_events :=
         [\<lparr>ev_game_id = ''g1'', ev_room_player_id = Some ''p3'', ev_type = ''vote'',
           ev_payload_json = [(''approved'', DBool False), (''move_type'', DString ''vote'')]\<rparr>]\<rparr>,
      [[(''approved'', DBool False), (''move_type'', DString ''vote'')]]) \<and>
   GetState ex_env_status_fails ex_empty_db ''g1'' = Inr None \<and>
   accepted_start (NewEngine ClassicAvalonConfig) ex_env_status_fails ex_empty_db ex_start_heap
     ''g1'' ''action'' (Some 0) ex_start_state ex_start_map \<and>
   ApplyMove (NewEngine ClassicAvalonConfig) ex_env_status_fails ex_empty_db ex_start_heap
       ''g1'' ''p1'' ''action'' (Some 0) =
     (Inl ErrUpdateGameStatus,
      ex_empty_db\<lparr>game_state_snapshots :=
        [\<lparr>snap_game_id = ''g1'', snap_version = 1, snap_state_json = json_map ex_start_map\<rparr>]\<rparr>,
      ex_start_heap) \<and>
   game_events ex_empty_db = []"
proof -
  have st: "GetState ex_env_snapshot_fails (ex_db ex_team_vote_state) ''g1'' =
              Inr (Some ex_team_vote_state)"
    by (simp add: GetState_ex_db_env ex_env_simps ex_states_json_exact)
  have a: "0 < length ex_vote_heap"
    by (simp add: ex_vote_heap_def)
  have move: "case ApplyMove (NewEngine ClassicAvalonConfig) ex_env_snapshot_fails
       (ex_db ex_team_vote_state) ex_vote_heap ''g1'' ''p3'' ''vote'' (Some 0) of
     (res, db', h') \<Rightarrow> res = Inl ErrPersistSnapshot \<and>
        db' = (ex_db ex_team_vote_state)\<lparr>game_events :=
         [\<lparr>ev_game_id = ''g1'', ev_room_player_id = Some ''p3'', ev_type = ''vote'',
           ev_payload_json = [(''approved'', DBool False), (''move_type'', DString ''vote'')]\<rparr>]\<rparr>"
    using event_and_snapshot_are_separate_writes
      [OF st, where e = "NewEngine ClassicAvalonConfig" and h = ex_vote_heap and actor = "''p3''"
        and moveType = "''vote''" and payloadRef = "Some 0" and state = ex_team_vote_state
        and a = 0 and ?next = ex_rejected_state and evs = ex_rejected_events]
      ex_team_vote_state_running a ex_vote_accepted
    by (simp add: ex_vote_heap_def ex_env_simps ex_db_simps ex_vote_payload_json
        CreateOrUpdateSnapshot_def Let_def split: prod.splits)
  have start: "case ApplyMove (NewEngine ClassicAvalonConfig) ex_env_status_fails ex_empty_db
       ex_start_heap ''g1'' ''p1'' ''action'' (Some 0) of
     (res, db', h') \<Rightarrow> res = Inl ErrUpdateGameStatus \<and> h' = ex_start_heap \<and>
        db' = ex_empty_db\<lparr>game_state_snapshots :=
          [\<lparr>snap_game_id = ''g1'', snap_version = 1, snap_state_json = json_map ex_start_map\<rparr>]\<rparr>"
    using event_and_snapshot_are_separate_writes
      [OF ex_start_GetState, where e = "NewEngine ClassicAvalonConfig" and h = ex_start_heap
        and actor = "''p1''" and moveType = "''action''" and payloadRef = "Some 0"
        and start = ex_start_state and startMap = ex_start_map]
      ex_start_accepted
    by (simp add: ex_start_snapshot ex_start_status split: prod.splits)
  have "game_events ex_empty_db = []"
    by (simp add: ex_empty_db_def)
  then show ?thesis
    using move start st ex_vote_accepted ex_partial_write ex_start_GetState ex_start_accepted
    by (auto split: prod.splits)
qed

section \<open>Properties of snapshot versions\<close>


lemma fold_latest_version:
  "snap_version (fold (\<lambda>x best. if snap_version x > snap_version best then x else best) rs r)
     = Max (set (map snap_version (r # rs)))"
proof (induction rs arbitrary: r)
  case Nil
  show ?case by simp
next
  case (Cons x xs)
  have "Max (insert (snap_version (if snap_version r < snap_version x then x else r))
              (snap_version ` set xs))
        = Max (insert (snap_version r) (insert (snap_version x) (snap_version ` set xs)))"
  proof (cases "set xs = {}")
    case True
    then show ?thesis by (simp add: max_def)
  next
    case False
    then show ?thesis
      by (auto simp: max_def)
  qed
  then show ?case
    using Cons.IH [of "if snap_version r < snap_version x then x else r"]
    by simp
qed

lemma Max_upto: "0 < k \<Longrightarrow> Max (set (map int [1..<Suc k])) = int k"
  by (intro Max_eqI) auto

lemma latest_of_consecutive:
  assumes "versions_of db gameID = map int [1..<Suc k]" and "0 < k"
  shows "\<exists>r. GetLatestGameStateSnapshotByGameId db gameID = Some r \<and> snap_version r = int k"
proof -
  let ?rows = "filter (\<lambda>r. snap_game_id r = gameID) (game_state_snapshots db)"
  have v: "map snap_version ?rows = map int [1..<Suc k]"
    using assms(1) by (simp add: versions_of_def)
  then have "?rows \<noteq> []"
    using assms(2) by (auto simp del: upt_Suc)
  then obtain r rs where rows: "?rows = r # rs"
    by (cases ?rows) auto
  have "snap_version (fold (\<lambda>x best. if snap_version x > snap_version best then x else best) rs r)
          = Max (set (map snap_version ?rows))"
    unfolding rows by (rule fold_latest_version)
  also have "\<dots> = int k"
    unfolding v using assms(2) by (rule Max_upto)
  finally show ?thesis
    by (simp add: GetLatestGameStateSnapshotByGameId_def rows)
qed

lemma latest_of_none:
  assumes "versions_of db gameID = []"
  shows "GetLatestGameStateSnapshotByGameId db gameID = None"
  using assms by (simp add: versions_of_def GetLatestGameStateSnapshotByGameId_def)

lemma insert_unique:
  "CreateGameStateSnapshot db row =
     (if snap_version row \<in> set (versions_of db (snap_game_id row)) then Inl UniqueViolation
      else Inr (db\<lparr>game_state_snapshots := game_state_snapshots db @ [row]\<rparr>))"
proof -
  have "(\<exists>r \<in> set (game_state_snapshots db).
            snap_game_id r = snap_game_id row \<and> snap_version r = snap_version row)
        \<longleftrightarrow> snap_version row \<in> set (versions_of db (snap_game_id row))"
    unfolding versions_of_def by (auto simp: image_iff)
  then show ?thesis
    by (simp add: CreateGameStateSnapshot_def)
qed

lemma versions_of_append:
  "versions_of (db\<lparr>game_state_snapshots := game_state_snapshots db @
       [\<lparr>snap_game_id = g, snap_version = v, snap_state_json = m\<rparr>]\<rparr>) g' =
     (if g' = g then versions_of db g' @ [v] else versions_of db g')"
  by (simp add: versions_of_def)

lemma write_after_consecutive:
  assumes vs: "versions_of db gameID = map int [1..<Suc k]"
    and env: "valid_uuid env gameID" "\<not> db_fails env SelectLatestSnapshotForInsert"
             "\<not> db_fails env InsertSnapshot"
  shows "CreateOrUpdateSnapshot env db gameID m =
     (let v = (if k = 0 then 1 else wrap32 (int k + 1)) in
      if v \<in> set (versions_of db gameID) then Inl UniqueViolation
      else Inr (v, db\<lparr>game_state_snapshots := game_state_snapshots db @
                    [\<lparr>snap_game_id = gameID, snap_version = v, snap_state_json = json_map m\<rparr>]\<rparr>))"
proof (cases "k = 0")
  case True
  then have "versions_of db gameID = []" using vs by simp
  then show ?thesis
    using env True
    by (simp add: CreateOrUpdateSnapshot_def latest_of_none insert_unique Let_def)
next
  case False
  then obtain r where "GetLatestGameStateSnapshotByGameId db gameID = Some r" "snap_version r = int k"
    using latest_of_consecutive [OF vs] by auto
  then show ?thesis
    using env False
    by (simp add: CreateOrUpdateSnapshot_def insert_unique Let_def)
qed

lemma wrap32_small: "- 2147483648 \<le> x \<Longrightarrow> x < 2147483648 \<Longrightarrow> wrap32 x = x"
  by (simp add: wrap32_def)

lemma snapshot_write_next_version:
  assumes vs: "versions_of db gameID = map int [1..<Suc k]"
    and env: "valid_uuid env gameID" "\<not> db_fails env SelectLatestSnapshotForInsert"
             "\<not> db_fails env InsertSnapshot"
    and bound: "k < 2147483647"
  shows "\<exists>db'. CreateOrUpdateSnapshot env db gameID m = Inr (int k + 1, db') \<and>
           versions_of db' gameID = map int [1..<Suc (Suc k)]"
proof -
  have v: "(if k = 0 then 1 else wrap32 (int k + 1)) = int k + 1"
    using bound by (simp add: wrap32_small)
  have "int k + 1 \<notin> set (versions_of db gameID)"
    unfolding vs by auto
  then show ?thesis
    unfolding write_after_consecutive [OF vs env] Let_def v
    by (simp add: versions_of_append vs)
qed

lemma write_snapshots_consecutive:
  assumes env: "valid_uuid env gameID" "\<not> db_fails env SelectLatestSnapshotForInsert"
             "\<not> db_fails env InsertSnapshot"
  shows "versions_of db gameID = map int [1..<Suc k] \<Longrightarrow> k + length ms \<le> 2147483647 \<Longrightarrow>
         \<exists>db'. write_snapshots env db gameID ms = Inr db' \<and>
               versions_of db' gameID = map int [1..<Suc (k + length ms)]"
proof (induction ms arbitrary: db k)
  case Nil
  then show ?case by simp
next
  case (Cons m ms)
  from Cons.prems have "k < 2147483647" by simp
  from snapshot_write_next_version [OF Cons.prems(1) env this, of m]
  obtain db1 where w: "CreateOrUpdateSnapshot env db gameID m = Inr (int k + 1, db1)"
    and v1: "versions_of db1 gameID = map int [1..<Suc (Suc k)]"
    by blast
  from Cons.prems have "Suc k + length ms \<le> 2147483647" by simp
  from Cons.IH [OF v1 this] obtain db' where
    "write_snapshots env db1 gameID ms = Inr db'"
    "versions_of db' gameID = map int [1..<Suc (Suc k + length ms)]"
    by blast
  then show ?case
    using w by simp
qed

lemma consecutive_pairs:
  assumes "vs = map int [1..<Suc k]" and "Suc i < length vs"
  shows "vs ! Suc i = vs ! i + 1 \<and> 1 \<le> vs ! i"
  using assms by (simp add: nth_append del: upt_Suc)

text \<open>
  C5 as the code has it. A game starts without snapshots; its first snapshot is written with
  version 1, and every later write, executed one after the other, takes the greatest existing
  version plus 1. As long as the game has at most \<open>2^31 - 1\<close> snapshots, all writes succeed
  and the versions are exactly 1, 2, 3, ... without gaps: any two consecutive snapshots differ
  by one and the first is at least 1. (The version is a 32-bit integer.)
\<close>


theorem snapshot_versions_consecutive:
  assumes fresh: "versions_of db gameID = []"
    and env: "valid_uuid env gameID" "\<not> db_fails env SelectLatestSnapshotForInsert"
             "\<not> db_fails env InsertSnapshot"
    and bound: "length ms < 2147483647"
  shows "\<exists>db1 db2.
           createInitialSnapshot db gameID = Inr db1 \<and> versions_of db1 gameID = [1] \<and>
           write_snapshots env db1 gameID ms = Inr db2 \<and>
           versions_of db2 gameID = map int [1..<length ms + 2] \<and>
           (\<forall>i. Suc i < length (versions_of db2 gameID) \<longrightarrow>
                versions_of db2 gameID ! Suc i = versions_of db2 gameID ! i + 1 \<and>
                1 \<le> versions_of db2 gameID ! i)"
proof -
  define db1 where "db1 = db\<lparr>game_state_snapshots := game_state_snapshots db @
      [\<lparr>snap_game_id = gameID, snap_version = 1, snap_state_json = LobbyStateJSON\<rparr>]\<rparr>"
  have init: "createInitialSnapshot db gameID = Inr db1"
    by (simp add: createInitialSnapshot_def insert_unique fresh db1_def)
  have v1: "versions_of db1 gameID = map int [1..<Suc 1]"
    by (simp add: db1_def versions_of_append fresh)
  from bound have "1 + length ms \<le> 2147483647" by simp
  from write_snapshots_consecutive [OF env v1 this] obtain db2 where
    w: "write_snapshots env db1 gameID ms = Inr db2"
    and v2: "versions_of db2 gameID = map int [1..<Suc (1 + length ms)]"
    by blast
  have "\<forall>i. Suc i < length (versions_of db2 gameID) \<longrightarrow>
          versions_of db2 gameID ! Suc i = versions_of db2 gameID ! i + 1 \<and>
          1 \<le> versions_of db2 gameID ! i"
    using consecutive_pairs [OF v2] by blast
  then show ?thesis
    using init v1 w v2 by auto
qed

theorem snapshot_versions_consecutive_witness:
  "versions_of ex_empty_db ''g1'' = [] \<and>
   (\<exists>db1 db2.
      createInitialSnapshot ex_empty_db ''g1'' = Inr db1 \<and>
      write_snapshots ex_env db1 ''g1'' [ToMap ex_team_vote_state, ToMap ex_rejected_state] = Inr db2 \<and>
      versions_of db2 ''g1'' = [1, 2, 3])"
proof -
  have fresh: "versions_of ex_empty_db ''g1'' = []"
    by (simp add: versions_of_def ex_empty_db_def)
  have "length [ToMap ex_team_vote_state, ToMap ex_rejected_state] < 2147483647"
    by simp
  from snapshot_versions_consecutive [OF fresh ex_env_simps(1) ex_env_simps(2) ex_env_simps(2) this]
  obtain db1 db2 where
    "createInitialSnapshot ex_empty_db ''g1'' = Inr db1"
    "write_snapshots ex_env db1 ''g1'' [ToMap ex_team_vote_state, ToMap ex_rejected_state] = Inr db2"
    "versions_of db2 ''g1'' = map int [1..<length [ToMap ex_team_vote_state, ToMap ex_rejected_state] + 2]"
    by blast
  moreover have "map int [1..<length [ToMap ex_team_vote_state, ToMap ex_rejected_state] + 2] = [1, 2, 3]"
    by (simp add: upt_rec)
  ultimately show ?thesis
    using fresh by auto
qed

lemma versions_consecutive_db: "versions_of (consecutive_db k) ''g1'' = map int [1..<Suc k]"
  unfolding versions_of_def consecutive_db_def
  by (simp add: comp_def del: upt_Suc)

lemma write_at_int32_max:
  assumes k: "k = 2147483647"
  shows "CreateOrUpdateSnapshot ex_env (consecutive_db k) ''g1'' m =
           Inr (- 2147483648,
                (consecutive_db k)\<lparr>game_state_snapshots :=
                   game_state_snapshots (consecutive_db k) @
                     [\<lparr>snap_game_id = ''g1'', snap_version = - 2147483648,
                       snap_state_json = json_map m\<rparr>]\<rparr>)"
proof -
  have v: "(if k = 0 then 1 else wrap32 (int k + 1)) = - 2147483648"
    using k by (simp add: wrap32_def)
  have "- 2147483648 \<notin> set (versions_of (consecutive_db k) ''g1'')"
    unfolding versions_consecutive_db by auto
  then show ?thesis
    unfolding write_after_consecutive
      [OF versions_consecutive_db ex_env_simps(1) ex_env_simps(2) ex_env_simps(2)] Let_def v
    by simp
qed

text \<open>
  The claim C5 fails: a game with the snapshots of versions 1 to \<open>2^31 - 1\<close>. The next
  write computes \<^verbatim>\<open>snapshot.Version + 1\<close> in 32 bits, inserts the version \<open>- 2^31\<close> and
  returns it: not the greatest version plus 1, and the versions are no longer consecutive.
\<close>


theorem snapshot_version_wraps_counterexample:
  "versions_of (consecutive_db 2147483647) ''g1'' = map int [1..<Suc 2147483647] \<and>
   CreateOrUpdateSnapshot ex_env (consecutive_db 2147483647) ''g1'' LobbyStateJSON =
     Inr (- 2147483648,
          (consecutive_db 2147483647)\<lparr>game_state_snapshots :=
             game_state_snapshots (consecutive_db 2147483647) @
               [\<lparr>snap_game_id = ''g1'', snap_version = - 2147483648,
                 snap_state_json = json_map LobbyStateJSON\<rparr>]\<rparr>)"
  by (rule conjI, rule versions_consecutive_db, rule write_at_int32_max, rule refl)

section \<open>Properties of sync_state\<close>

text \<open>
  C7 as the code has it. A sync_state message of a session whose queue is open and not full,
  on a handler with store and engine, in a room whose games can be read: exactly one envelope
  is queued for that session and nothing is put on the hub's broadcast queue. When the room's
  latest game has a snapshot, the envelope is \<open>{type: state, event: state}\<close> and its payload
  carries the game id, the state map of the latest snapshot, its phase and the version field
  of that state. When the room has no game, the envelope is the error "no game found for
  room"; the state \<open>{phase: lobby}\<close> is sent when the latest game has no snapshot.
\<close>


theorem sync_state_reply:
  assumes conf: "has_gameStore h" "engine h = Some e"
    and room: "valid_uuid env (c_RoomID client)" "\<not> db_fails env SelectGamesByRoom"
    and queue: "\<not> send_closed client" "length (send client) < 256"
  shows "handleSyncState h env db broadcast client =
     Inr (client\<lparr>send := send client @
            [OutEnvelope
              (case rev (filter (\<lambda>g. g_room_id g = c_RoomID client) (games db)) of
                 [] \<Rightarrow> \<lparr>se_Type = ''error'', se_Event = [],
                        se_Payload = [(''message'', DString ''no game found for room'')]\<rparr>
               | game # _ \<Rightarrow>
                  (case GetState env db (g_id game) of
                     Inl _ \<Rightarrow> \<lparr>se_Type = ''error'', se_Event = [],
                               se_Payload = [(''message'', DString ''failed to load state'')]\<rparr>
                   | Inr None \<Rightarrow>
                       \<lparr>se_Type = ''state'', se_Event = ''state'',
                        se_Payload = [(''game_id'', DString (g_id game)),
                                      (''state'', DMap [(''phase'', DString ''lobby'')])]\<rparr>
                   | Inr (Some state) \<Rightarrow>
                       \<lparr>se_Type = ''state'', se_Event = ''state'',
                        se_Payload = [(''game_id'', DString (g_id game)),
                                      (''state'', DMap (ToMap state)),
                                      (''phase'', DString (Phase state)),
                                      (''version'', DInt (Version state))]\<rparr>))]\<rparr>,
          broadcast)"
  using assms
  by (auto simp: handleSyncState_def GetLatestGameForRoom_def sendErrorToClient_def
      sendEnvelopeToClient_def Let_def split: list.splits sum.splits option.splits)

theorem sync_state_reply_witness:
  "handleSyncState ex_handler ex_env (ex_db ex_mission_vote_state) [] ex_client =
     Inr (ex_client\<lparr>send :=
            [OutEnvelope
               \<lparr>se_Type = ''state'', se_Event = ''state'',
                se_Payload = [(''game_id'', DString ''g1''),
                              (''state'', DMap (ToMap ex_mission_vote_state)),
                              (''phase'', DString PhaseMissionVote),
                              (''version'', DInt 0)]\<rparr>]\<rparr>, [])"
proof -
  have g: "rev (filter (\<lambda>g. g_room_id g = c_RoomID ex_client) (games (ex_db ex_mission_vote_state)))
           = [\<lparr>g_id = ''g1'', g_room_id = ''r1'', g_status = ''in_progress'', g_ended_at = None\<rparr>]"
    by (simp add: ex_db_def ex_client_def)
  have st: "GetState ex_env (ex_db ex_mission_vote_state) ''g1'' = Inr (Some ex_mission_vote_state)"
    by (simp add: GetState_ex_db_env ex_env_simps ex_states_json_exact)
  have q: "\<not> send_closed ex_client" "length (send ex_client) < 256" "send ex_client = []"
    by (simp_all add: ex_client_def)
  have c: "has_gameStore ex_handler" "engine ex_handler = Some (NewEngine ClassicAvalonConfig)"
    by (simp_all add: ex_handler_def)
  have v: "Phase ex_mission_vote_state = PhaseMissionVote" "Version ex_mission_vote_state = 0"
    by (simp_all add: ex_mission_vote_state_def emptyState_def)
  show ?thesis
    using sync_state_reply [OF c ex_env_simps(1) ex_env_simps(2) q(1) q(2),
        of "ex_db ex_mission_vote_state" "[]"]
    by (simp add: g st q v)
qed

text \<open>
  The claim C7 fails: in a room without game the session gets an error envelope, not a state
  envelope with the lobby state.
\<close>


theorem sync_state_without_game_counterexample:
  "handleSyncState ex_handler ex_env ex_db_no_game [] ex_client =
     Inr (ex_client\<lparr>send :=
            [OutEnvelope \<lparr>se_Type = ''error'', se_Event = [],
               se_Payload = [(''message'', DString ''no game found for room'')]\<rparr>]\<rparr>, [])"
  by (simp add: handleSyncState_def GetLatestGameForRoom_def sendErrorToClient_def
      sendEnvelopeToClient_def ex_handler_def ex_env_simps ex_db_no_game_def ex_client_def)

section \<open>The round trip of a state through its snapshot map\<close>

text \<open>
  \<^verbatim>\<open>ToMap\<close> puts the three maps of a state into the snapshot map as \<^verbatim>\<open>map[string]string\<close>,
  and \<^verbatim>\<open>stringMap\<close> accepts only \<^verbatim>\<open>map[string]interface{}\<close>: read back directly, a state
  has lost its roles, team votes and mission votes, and nothing else.
\<close>


lemma stringMap_typed: "stringMap (DStrMap m) = None"
  by (simp add: stringMap_def)

lemma StateFromMap_ToMap:
  "StateFromMap (ToMap s) = s\<lparr>Roles := [], TeamVotes := [], MissionVotes := []\<rparr>"
proof -
  have "StateFromMap (ToMap s) =
     emptyState\<lparr>GameID := GameID s, Phase := Phase s, Status := Status s,
       RoundIndex := RoundIndex s, LeaderIndex := LeaderIndex s, PlayerIDs := PlayerIDs s,
       ProposedTeam := ProposedTeam s, MissionResults := MissionResults s,
       RejectCount := RejectCount s, Winner := Winner s, Version := Version s\<rparr>"
    unfolding StateFromMap_def pget_ToMap
    by (simp add: setIf_def emptyState_def stringMap_def stringSlice_def asStringOpt_def
        floatToInt_def)
  also have "\<dots> = s\<lparr>Roles := [], TeamVotes := [], MissionVotes := []\<rparr>"
    by (simp add: emptyState_def)
  finally show ?thesis .
qed

text \<open>
  C8. The state of the example game with four team votes recorded: serialised with
  \<^verbatim>\<open>ToMap\<close> and read back with \<^verbatim>\<open>StateFromMap\<close> it has no team votes, so it is not the
  state it was made from.
\<close>


theorem round_trip_loses_votes:
  "StateFromMap (ToMap ex_team_vote_state) = ex_team_vote_state\<lparr>TeamVotes := []\<rparr> \<and>
   StateFromMap (ToMap ex_team_vote_state) \<noteq> ex_team_vote_state"
proof -
  have "TeamVotes (StateFromMap (ToMap ex_team_vote_state)) \<noteq> TeamVotes ex_team_vote_state"
    unfolding StateFromMap_ToMap by (simp add: ex_team_vote_state_def)
  then have "StateFromMap (ToMap ex_team_vote_state) \<noteq> ex_team_vote_state"
    by auto
  then show ?thesis
    by (simp add: StateFromMap_ToMap ex_team_vote_state_def emptyState_def)
qed

section \<open>Properties of tokens\<close>

lemma splitN2_token:
  "CHR ''.'' \<notin> set p \<Longrightarrow> splitN2 (p @ ''.'' @ s) = [p, s]"
  by (simp add: splitN2_def takeWhile_eq_all_conv[THEN iffD2] dropWhile_append takeWhile_append)

lemma token_payload_token: "CHR ''.'' \<notin> set p \<Longrightarrow> token_payload (p @ ''.'' @ s) = p"
  by (simp add: token_payload_def takeWhile_append takeWhile_eq_all_conv[THEN iffD2])

text \<open>
  What \<^verbatim>\<open>VerifyToken\<close> answers for a token made by \<^verbatim>\<open>GenerateToken\<close>: the two HMAC tags over
  the payload part are compared, and only then the claims are looked at.
\<close>

lemma VerifyToken_generated:
  assumes laws: "base64_laws lib"
    and gen: "GenerateToken lib now_ns roomID roomPlayerID s1 ttl = Inr (tok, expiresAt)"
  shows "VerifyToken lib now_ns' tok s2 =
     (if s2 = [] then Inl ErrSecretRequired
      else if hmac_sha256 lib s1 (token_payload tok) \<noteq> hmac_sha256 lib s2 (token_payload tok)
        then Inl ErrSignature
      else
       (case json_unmarshal lib (json_marshal lib
                \<lparr>cl_RoomID = roomID, cl_RoomPlayerID = roomPlayerID,
                 cl_Exp = (now_ns + ttl) div 1000000000\<rparr>) of
          None \<Rightarrow> Inl ErrPayload
        | Some claims \<Rightarrow>
           if now_ns' div 1000000000 > cl_Exp claims then Inl ErrExpired
           else if cl_RoomID claims = [] \<or> cl_RoomPlayerID claims = [] then Inl ErrMissingClaims
           else Inr claims))"
proof -
  define claims where "claims = \<lparr>cl_RoomID = roomID, cl_RoomPlayerID = roomPlayerID,
                 cl_Exp = (now_ns + ttl) div 1000000000\<rparr>"
  define p where "p = b64enc lib (json_marshal lib claims)"
  define s where "s = b64enc lib (hmac_sha256 lib s1 p)"
  have tok: "tok = p @ ''.'' @ s"
    using gen by (auto simp: GenerateToken_def Let_def p_def s_def claims_def split: if_splits)
  have nodot: "CHR ''.'' \<notin> set p"
    using laws by (simp add: base64_laws_def p_def)
  have split: "splitN2 tok = [p, s]"
    unfolding tok using nodot by (rule splitN2_token)
  have pay: "token_payload tok = p"
    unfolding tok using nodot by (rule token_payload_token)
  have dec: "b64dec lib s = Some (hmac_sha256 lib s1 p)" "b64dec lib p = Some (json_marshal lib claims)"
    using laws by (simp_all add: base64_laws_def p_def s_def)
  show ?thesis
    unfolding VerifyToken_def split pay claims_def [symmetric]
    by (simp add: dec Let_def)
qed

text \<open>
  HMAC sees a secret only through its key block. Two secrets with the same key block have the
  same tag; two secrets with different key blocks have different strings under the outer
  hash, so that equal tags are a collision of the hash.
\<close>

lemma hmac_sha256_outer: "hmac_sha256 lib key msg = sha256 lib (hmac_outer_input lib key msg)"
  by (simp add: hmac_sha256_def hmac_outer_input_def Let_def)

lemma length_key_block:
  assumes "sha256_laws lib"
  shows "length (hmac_key_block lib key) = 64"
  using assms by (simp add: hmac_key_block_def sha256_laws_def Let_def)

lemma xor_char_twice: "xor_char c (xor_char c a) = a"
  by (cases c, cases a) auto

lemma map_xor_inj:
  assumes "map (xor_char c) xs = map (xor_char c) ys"
  shows "xs = ys"
proof -
  have "map (xor_char c) (map (xor_char c) xs) = map (xor_char c) (map (xor_char c) ys)"
    using assms by simp
  then show ?thesis
    by (simp add: comp_def xor_char_twice)
qed

lemma outer_input_key_block:
  assumes sha: "sha256_laws lib"
    and eq: "hmac_outer_input lib k1 msg = hmac_outer_input lib k2 msg"
  shows "hmac_key_block lib k1 = hmac_key_block lib k2"
proof -
  have len: "length (map (xor_char (CHR 0x5C)) (hmac_key_block lib k1)) =
        length (map (xor_char (CHR 0x5C)) (hmac_key_block lib k2))"
    by (simp add: length_key_block [OF sha])
  from eq have "map (xor_char (CHR 0x5C)) (hmac_key_block lib k1) @
                  sha256 lib (map (xor_char (CHR 0x36)) (hmac_key_block lib k1) @ msg) =
                map (xor_char (CHR 0x5C)) (hmac_key_block lib k2) @
                  sha256 lib (map (xor_char (CHR 0x36)) (hmac_key_block lib k2) @ msg)"
    by (simp add: hmac_outer_input_def Let_def)
  with len have "map (xor_char (CHR 0x5C)) (hmac_key_block lib k1) =
                map (xor_char (CHR 0x5C)) (hmac_key_block lib k2)"
    by (metis append_eq_append_conv)
  then show ?thesis
    by (rule map_xor_inj)
qed

lemma tags_equal_iff:
  assumes sha: "sha256_laws lib"
    and nocoll: "\<not> collision lib (hmac_outer_input lib k1 msg) (hmac_outer_input lib k2 msg)"
  shows "hmac_sha256 lib k1 msg = hmac_sha256 lib k2 msg \<longleftrightarrow>
         hmac_key_block lib k1 = hmac_key_block lib k2"
proof
  assume "hmac_sha256 lib k1 msg = hmac_sha256 lib k2 msg"
  with nocoll have "hmac_outer_input lib k1 msg = hmac_outer_input lib k2 msg"
    by (auto simp: collision_def hmac_sha256_outer)
  with sha show "hmac_key_block lib k1 = hmac_key_block lib k2"
    by (rule outer_input_key_block)
next
  assume "hmac_key_block lib k1 = hmac_key_block lib k2"
  then show "hmac_sha256 lib k1 msg = hmac_sha256 lib k2 msg"
    by (simp add: hmac_sha256_def)
qed

lemma key_block_zeros:
  assumes "length key + n \<le> 64"
  shows "hmac_key_block lib (key @ replicate n (CHR 0x00)) = hmac_key_block lib key"
proof -
  have "replicate n (CHR 0x00) @ replicate (64 - (length key + n)) (CHR 0x00) =
        replicate (64 - length key) (CHR 0x00)"
    using assms by (simp add: replicate_add [symmetric])
  then show ?thesis
    using assms by (simp add: hmac_key_block_def)
qed

lemma key_block_digest:
  assumes "sha256_laws lib" "64 < length key"
  shows "hmac_key_block lib (sha256 lib key) = hmac_key_block lib key"
  using assms by (simp add: hmac_key_block_def sha256_laws_def)

text \<open>
  C9 as the code has it. A token made by \<^verbatim>\<open>GenerateToken\<close> (so with a non-empty secret
  \<open>s1\<close>) and a non-empty secret \<open>s2\<close>: unless SHA-256 collides on the two strings HMAC hashes
  last, \<^verbatim>\<open>VerifyToken\<close> rejects the token under \<open>s2\<close> with "invalid token signature" exactly
  when \<open>s2\<close> has another HMAC key block than \<open>s1\<close>, and answers as it does under \<open>s1\<close> when
  the key blocks are the same. The key block of a secret is the secret, or its SHA-256 digest
  if it is longer than 64 bytes, filled with zero bytes to 64 bytes: so \<open>s1\<close> followed by zero
  bytes (up to 64 bytes in all) and, for \<open>s1\<close> longer than 64 bytes, the digest of \<open>s1\<close> have
  the key block of \<open>s1\<close>. Under the empty secret verification always fails, with "token
  secret is required".
\<close>

theorem token_accepted_under_same_key_block:
  assumes gen: "GenerateToken lib now_ns roomID roomPlayerID s1 ttl = Inr (tok, expiresAt)"
    and b64: "base64_laws lib"
    and sha: "sha256_laws lib"
    and s2: "s2 \<noteq> []"
    and nocoll: "\<not> collision lib (hmac_outer_input lib s1 (token_payload tok))
                                (hmac_outer_input lib s2 (token_payload tok))"
  shows "s1 \<noteq> [] \<and>
         VerifyToken lib now_ns' tok [] = Inl ErrSecretRequired \<and>
         VerifyToken lib now_ns' tok s2 =
           (if hmac_key_block lib s2 = hmac_key_block lib s1 then VerifyToken lib now_ns' tok s1
            else Inl ErrSignature) \<and>
         (\<forall>n. length s1 + n \<le> 64 \<longrightarrow>
              hmac_key_block lib (s1 @ replicate n (CHR 0x00)) = hmac_key_block lib s1) \<and>
         (64 < length s1 \<longrightarrow> hmac_key_block lib (sha256 lib s1) = hmac_key_block lib s1)"
proof -
  have s1: "s1 \<noteq> []"
    using gen by (auto simp: GenerateToken_def)
  have e: "VerifyToken lib now_ns' tok [] = Inl ErrSecretRequired"
    by (simp add: VerifyToken_def)
  have t: "hmac_sha256 lib s1 (token_payload tok) = hmac_sha256 lib s2 (token_payload tok) \<longleftrightarrow>
           hmac_key_block lib s1 = hmac_key_block lib s2"
    using sha nocoll by (rule tags_equal_iff)
  have v: "VerifyToken lib now_ns' tok s2 =
           (if hmac_key_block lib s2 = hmac_key_block lib s1 then VerifyToken lib now_ns' tok s1
            else Inl ErrSignature)"
    unfolding VerifyToken_generated [OF b64 gen] using s1 s2 t by auto
  show ?thesis
    using s1 e v key_block_zeros [of s1 _ lib] key_block_digest [OF sha, of s1] by blast
qed

lemma toy_roundtrip: "toy_dec (toy_enc x) = Some x"
  by (induction x) (simp_all add: toy_enc_def)

lemma toy_no_dot: "CHR ''.'' \<notin> set (toy_enc x)"
  by (induction x) (simp_all add: toy_enc_def)

lemma length_toy_hash: "length (toy_hash x) = 32"
  by (simp add: toy_hash_def min_def)

lemma toy_lib_laws: "base64_laws toy_lib" "codec_laws toy_lib" "sha256_laws toy_lib"
  by (simp_all add: base64_laws_def codec_laws_def sha256_laws_def toy_lib_def toy_roundtrip
      toy_no_dot length_toy_hash)

lemma toy_hash_head: "a \<noteq> b \<Longrightarrow> toy_hash (a # xs) \<noteq> toy_hash (b # ys)"
  by (simp add: toy_hash_def)

lemma toy_key_block_head:
  "hmac_key_block toy_lib [c] = c # replicate 63 (CHR 0x00)"
  by (simp add: hmac_key_block_def toy_lib_def)

lemma toy_no_collision:
  "\<not> collision toy_lib (hmac_outer_input toy_lib ''a'' m) (hmac_outer_input toy_lib ''b'' m)"
  by (simp add: collision_def hmac_outer_input_def toy_key_block_head Let_def)
     (simp add: toy_lib_def toy_hash_head)

theorem token_accepted_under_same_key_block_witness:
  "base64_laws toy_lib \<and> sha256_laws toy_lib \<and>
   (\<exists>tok expiresAt.
      GenerateToken toy_lib 0 ''r1'' ''p1'' ''a'' 1700003600000000000 = Inr (tok, expiresAt) \<and>
      \<not> collision toy_lib (hmac_outer_input toy_lib ''a'' (token_payload tok))
                           (hmac_outer_input toy_lib ''b'' (token_payload tok)) \<and>
      hmac_key_block toy_lib ''b'' \<noteq> hmac_key_block toy_lib ''a'' \<and>
      VerifyToken toy_lib 0 tok ''b'' = Inl ErrSignature \<and>
      VerifyToken toy_lib 0 tok [] = Inl ErrSecretRequired \<and>
      hmac_key_block toy_lib (''a'' @ replicate 2 (CHR 0x00)) = hmac_key_block toy_lib ''a'')"
proof -
  obtain tok expiresAt where
    gen: "GenerateToken toy_lib 0 ''r1'' ''p1'' ''a'' 1700003600000000000 = Inr (tok, expiresAt)"
    by (simp add: GenerateToken_def Let_def)
  have nb: "''b'' \<noteq> []"
    by simp
  have kb: "hmac_key_block toy_lib ''b'' \<noteq> hmac_key_block toy_lib ''a''"
    by (simp add: toy_key_block_head)
  from token_accepted_under_same_key_block
    [OF gen toy_lib_laws(1) toy_lib_laws(3) nb toy_no_collision, of 0]
  show ?thesis
    using gen kb toy_lib_laws(1) toy_lib_laws(3) toy_no_collision by auto
qed

text \<open>HMAC does not tell a short key from the same key followed by a zero byte.\<close>

lemma hmac_zero_padded:
  "length key < 64 \<Longrightarrow> hmac_sha256 lib (key @ [CHR 0x00]) msg = hmac_sha256 lib key msg"
  using key_block_zeros [of key 1 lib] by (simp add: hmac_sha256_def)

lemma padded_secret_verifies:
  assumes laws: "codec_laws lib"
  shows "\<exists>tok expiresAt.
           GenerateToken lib 0 ''r1'' ''p1'' ''k'' 1700003600000000000 = Inr (tok, expiresAt) \<and>
           VerifyToken lib 0 tok (''k'' @ [CHR 0x00]) = Inr ex_claims"
proof -
  have b: "base64_laws lib"
    using laws by (simp add: codec_laws_def base64_laws_def)
  obtain tok expiresAt where gen: "GenerateToken lib 0 ''r1'' ''p1'' ''k'' 1700003600000000000 = Inr (tok, expiresAt)"
    by (simp add: GenerateToken_def Let_def)
  have c: "\<lparr>cl_RoomID = ''r1'', cl_RoomPlayerID = ''p1'',
            cl_Exp = (0 + 1700003600000000000) div 1000000000\<rparr> = ex_claims"
    by (simp add: ex_claims_def)
  have j: "json_unmarshal lib (json_marshal lib ex_claims) = Some ex_claims"
    using laws by (simp add: codec_laws_def)
  have h: "hmac_sha256 lib (''k'' @ [CHR 0x00]) m = hmac_sha256 lib ''k'' m" for m
    by (rule hmac_zero_padded) simp
  have "VerifyToken lib 0 tok (''k'' @ [CHR 0x00]) = Inr ex_claims"
    unfolding VerifyToken_generated [OF b gen] c j h
    by (simp add: ex_claims_def)
  with gen show ?thesis by blast
qed

text \<open>
  The claim C9 fails, whatever the hash and the encoders are: the token signed with the
  secret \<open>k\<close> verifies under the secret \<open>k\<close> followed by a zero byte, a different secret.
\<close>

theorem padded_secret_counterexample:
  "\<not> (\<exists>lib. codec_laws lib \<and> secret_binding lib)"
proof
  assume "\<exists>lib. codec_laws lib \<and> secret_binding lib"
  then obtain lib where laws: "codec_laws lib" and bind: "secret_binding lib"
    by blast
  from padded_secret_verifies [OF laws] obtain tok expiresAt where
    gen: "GenerateToken lib 0 ''r1'' ''p1'' ''k'' 1700003600000000000 = Inr (tok, expiresAt)"
    and ver: "VerifyToken lib 0 tok (''k'' @ [CHR 0x00]) = Inr ex_claims"
    by blast
  have "''k'' \<noteq> [] \<and> ''k'' @ [CHR 0x00] \<noteq> ''k''"
    by simp
  with bind gen have "isl (VerifyToken lib 0 tok (''k'' @ [CHR 0x00]))"
    unfolding secret_binding_def by blast
  with ver show False by simp
qed

section \<open>States the engine writes\<close>

text \<open>
  The states \<^verbatim>\<open>applyVote\<close> and \<^verbatim>\<open>applyAction\<close> can return, and with them: the start of a
  game establishes \<open>engine_state\<close> and every accepted move keeps it, together with the
  players and the version field of the state. The counters start at 0 and 1; an accepted move
  leaves the leader index below the number of players and adds at most one to the reject
  count and to the round index.
\<close>


lemma go_rem_nonneg: "0 \<le> a \<Longrightarrow> 0 \<le> go_rem a b"
  by (cases "b = 0") (simp_all add: go_rem_def sgn_if)

lemma applyVote_TeamVote_cases:
  assumes "applyVote_TeamVote e s actor pl = Inr (next, evs)"
  shows "(\<exists>votes. next = s\<lparr>TeamVotes := votes\<rparr>) \<or>
         next = s\<lparr>TeamVotes := AList.update actor ''approve'' (TeamVotes s),
                  Phase := PhaseMissionVote, TeamVotes := []\<rparr> \<or>
         (\<exists>votes. next = s\<lparr>TeamVotes := votes, RejectCount := wrap64 (RejectCount s + 1),
                  Phase := PhaseTeamSelection,
                  LeaderIndex := go_rem (wrap64 (LeaderIndex s + 1)) (int (length (PlayerIDs s))),
                  ProposedTeam := [], TeamVotes := []\<rparr>)"
proof (cases "boolFromPayload (pget pl ''approved'')")
  case None
  with assms show ?thesis by (simp add: applyVote_TeamVote_def)
next
  case (Some b)
  show ?thesis
  proof (cases "map_of (TeamVotes s) actor = None")
    case False
    with assms Some show ?thesis by (simp add: applyVote_TeamVote_def Clone_def)
  next
    case True
    with assms Some show ?thesis
      unfolding applyVote_TeamVote_def Clone_def Let_def
      by (simp split: if_splits) blast+
  qed
qed

lemma applyVote_MissionVote_cases:
  assumes "applyVote_MissionVote e s actor pl = Inr (next, evs)"
  shows "\<exists>votes result winner.
           result \<in> {''success'', ''fail''} \<and>
           (next = s\<lparr>MissionVotes := votes\<rparr> \<or>
            next = s\<lparr>MissionVotes := votes, MissionResults := MissionResults s @ [result],
                     MissionVotes := [], ProposedTeam := [], Phase := PhaseTeamSelection,
                     LeaderIndex := go_rem (wrap64 (LeaderIndex s + 1)) (int (length (PlayerIDs s))),
                     RejectCount := 0, RoundIndex := wrap64 (RoundIndex s + 1)\<rparr> \<or>
            next = s\<lparr>MissionVotes := votes, MissionResults := MissionResults s @ [result],
                     MissionVotes := [], ProposedTeam := [], Phase := PhaseTeamSelection,
                     LeaderIndex := go_rem (wrap64 (LeaderIndex s + 1)) (int (length (PlayerIDs s))),
                     RejectCount := 0, RoundIndex := wrap64 (RoundIndex s + 1),
                     Status := ''finished'', Phase := PhaseFinished, Winner := winner\<rparr>)"
proof (cases "boolFromPayload (pget pl ''success'')")
  case None
  with assms show ?thesis by (simp add: applyVote_MissionVote_def)
next
  case (Some b)
  show ?thesis
  proof (cases "isOnProposedTeam s actor \<and> map_of (MissionVotes s) actor = None")
    case False
    then consider "\<not> isOnProposedTeam s actor"
      | "isOnProposedTeam s actor" "map_of (MissionVotes s) actor \<noteq> None"
      by auto
    then have "applyVote_MissionVote e s actor pl = Inl ErrOnlyTeamMembers \<or>
               applyVote_MissionVote e s actor pl = Inl ErrAlreadyVoted"
      using Some by cases (simp_all add: applyVote_MissionVote_def Clone_def)
    with assms show ?thesis by auto
  next
    case True
    define votes where
      "votes = AList.update actor (if b then ''success'' else ''fail'') (MissionVotes s)"
    define result where
      "result = (if 0 < countOf ''fail'' (map snd votes) then ''fail'' else ''success'')"
    have r: "result \<in> {''success'', ''fail''}"
      by (simp add: result_def)
    from assms Some True have
      "next = s\<lparr>MissionVotes := votes\<rparr> \<or>
       next = s\<lparr>MissionVotes := votes, MissionResults := MissionResults s @ [result],
                MissionVotes := [], ProposedTeam := [], Phase := PhaseTeamSelection,
                LeaderIndex := go_rem (wrap64 (LeaderIndex s + 1)) (int (length (PlayerIDs s))),
                RejectCount := 0, RoundIndex := wrap64 (RoundIndex s + 1)\<rparr> \<or>
       next = s\<lparr>MissionVotes := votes, MissionResults := MissionResults s @ [result],
                MissionVotes := [], ProposedTeam := [], Phase := PhaseTeamSelection,
                LeaderIndex := go_rem (wrap64 (LeaderIndex s + 1)) (int (length (PlayerIDs s))),
                RejectCount := 0, RoundIndex := wrap64 (RoundIndex s + 1),
                Status := ''finished'', Phase := PhaseFinished, Winner := ''evil''\<rparr> \<or>
       next = s\<lparr>MissionVotes := votes, MissionResults := MissionResults s @ [result],
                MissionVotes := [], ProposedTeam := [], Phase := PhaseTeamSelection,
                LeaderIndex := go_rem (wrap64 (LeaderIndex s + 1)) (int (length (PlayerIDs s))),
                RejectCount := 0, RoundIndex := wrap64 (RoundIndex s + 1),
                Status := ''finished'', Phase := PhaseFinished, Winner := ''good''\<rparr>"
      unfolding applyVote_MissionVote_def Clone_def Let_def votes_def [symmetric]
        result_def [symmetric]
      by (simp add: votes_def [symmetric] result_def [symmetric] split: if_splits)
    with r show ?thesis by blast
  qed
qed

lemma applyAction_cases:
  assumes "applyAction e s actor pl = Inr (next, evs)"
  shows "\<exists>team. set team \<subseteq> set (PlayerIDs s) \<and>
           next = s\<lparr>ProposedTeam := team, Phase := PhaseTeamVote, TeamVotes := []\<rparr>"
proof -
  from assms have p: "applyAction_ProposeTeam e s actor pl = Inr (next, evs)"
    by (simp add: applyAction_def Let_def split: if_splits)
  then obtain team where
    f: "find (\<lambda>pid. \<not> isPlayerInGame s pid) team = None"
    and n: "next = s\<lparr>ProposedTeam := team, Phase := PhaseTeamVote, TeamVotes := []\<rparr>"
    unfolding applyAction_ProposeTeam_def Clone_def Let_def
    by (auto split: if_splits option.splits sum.splits)
  from f have "set team \<subseteq> set (PlayerIDs s)"
    by (auto simp: find_None_iff isPlayerInGame_def)
  with n show ?thesis by blast
qed

lemma applyVote_TeamVote_engine_state:
  assumes inv: "engine_state s" and nf: "Status s \<noteq> ''finished''"
    and r: "applyVote_TeamVote e s actor pl = Inr (next, evs)"
  shows "engine_state next \<and> Version next = Version s \<and> PlayerIDs next = PlayerIDs s"
  using applyVote_TeamVote_cases [OF r] inv nf
  by (auto simp: engine_state_def)

lemma applyVote_MissionVote_engine_state:
  assumes inv: "engine_state s" and nf: "Status s \<noteq> ''finished''"
    and r: "applyVote_MissionVote e s actor pl = Inr (next, evs)"
  shows "engine_state next \<and> Version next = Version s \<and> PlayerIDs next = PlayerIDs s"
proof -
  from applyVote_MissionVote_cases [OF r] obtain votes result winner where
    res: "result \<in> {''success'', ''fail''}"
    and n: "next = s\<lparr>MissionVotes := votes\<rparr> \<or>
            next = s\<lparr>MissionVotes := votes, MissionResults := MissionResults s @ [result],
                     MissionVotes := [], ProposedTeam := [], Phase := PhaseTeamSelection,
                     LeaderIndex := go_rem (wrap64 (LeaderIndex s + 1)) (int (length (PlayerIDs s))),
                     RejectCount := 0, RoundIndex := wrap64 (RoundIndex s + 1)\<rparr> \<or>
            next = s\<lparr>MissionVotes := votes, MissionResults := MissionResults s @ [result],
                     MissionVotes := [], ProposedTeam := [], Phase := PhaseTeamSelection,
                     LeaderIndex := go_rem (wrap64 (LeaderIndex s + 1)) (int (length (PlayerIDs s))),
                     RejectCount := 0, RoundIndex := wrap64 (RoundIndex s + 1),
                     Status := ''finished'', Phase := PhaseFinished, Winner := winner\<rparr>"
    by blast
  from n show ?thesis
  proof (elim disjE)
    assume "next = s\<lparr>MissionVotes := votes\<rparr>"
    then show ?thesis using inv by (simp add: engine_state_def)
  next
    assume "next = s\<lparr>MissionVotes := votes, MissionResults := MissionResults s @ [result],
                     MissionVotes := [], ProposedTeam := [], Phase := PhaseTeamSelection,
                     LeaderIndex := go_rem (wrap64 (LeaderIndex s + 1)) (int (length (PlayerIDs s))),
                     RejectCount := 0, RoundIndex := wrap64 (RoundIndex s + 1)\<rparr>"
    then show ?thesis using inv nf res by (simp add: engine_state_def)
  next
    assume "next = s\<lparr>MissionVotes := votes, MissionResults := MissionResults s @ [result],
                     MissionVotes := [], ProposedTeam := [], Phase := PhaseTeamSelection,
                     LeaderIndex := go_rem (wrap64 (LeaderIndex s + 1)) (int (length (PlayerIDs s))),
                     RejectCount := 0, RoundIndex := wrap64 (RoundIndex s + 1),
                     Status := ''finished'', Phase := PhaseFinished, Winner := winner\<rparr>"
    then show ?thesis using inv nf res by (simp add: engine_state_def)
  qed
qed

lemma applyAction_engine_state:
  assumes inv: "engine_state s" and nf: "Status s \<noteq> ''finished''"
    and r: "applyAction e s actor pl = Inr (next, evs)"
  shows "engine_state next \<and> Version next = Version s \<and> PlayerIDs next = PlayerIDs s"
  using applyAction_cases [OF r] inv nf
  by (auto simp: engine_state_def)

lemma accepted_engine_state:
  assumes inv: "engine_state s" and nf: "Status s \<noteq> ''finished''"
    and acc: "accepted e s actor moveType pl next evs"
  shows "engine_state next \<and> Version next = Version s \<and> PlayerIDs next = PlayerIDs s"
proof -
  from acc consider
      (team) "applyVote_TeamVote e s actor pl = Inr (next, evs)"
    | (mission) "applyVote_MissionVote e s actor pl = Inr (next, evs)"
    | (action) "applyAction e s actor pl = Inr (next, evs)"
    by (auto simp: accepted_def applyVote_def split: if_splits)
  then show ?thesis
  proof cases
    case team
    then show ?thesis by (rule applyVote_TeamVote_engine_state [OF inv nf])
  next
    case mission
    then show ?thesis by (rule applyVote_MissionVote_engine_state [OF inv nf])
  next
    case action
    then show ?thesis by (rule applyAction_engine_state [OF inv nf])
  qed
qed

lemma accepted_version:
  assumes acc: "accepted e s actor moveType pl next evs"
  shows "Version next = Version s"
proof -
  from acc consider
      (team) "applyVote_TeamVote e s actor pl = Inr (next, evs)"
    | (mission) "applyVote_MissionVote e s actor pl = Inr (next, evs)"
    | (action) "applyAction e s actor pl = Inr (next, evs)"
    by (auto simp: accepted_def applyVote_def split: if_splits)
  then show ?thesis
  proof cases
    case team
    from applyVote_TeamVote_cases [OF this] show ?thesis by auto
  next
    case mission
    from applyVote_MissionVote_cases [OF this] show ?thesis by auto
  next
    case action
    from applyAction_cases [OF this] show ?thesis by auto
  qed
qed

lemma bootstrap_engine_state:
  assumes "bootstrapAndStart e env db gameID actor = (Inr (state, evs), db')"
  shows "engine_state state"
proof -
  from assms obtain playerIDs roles v where
    "state = emptyState\<lparr>GameID := gameID, Phase := PhaseTeamSelection,
               Status := ''in_progress'', RoundIndex := 1, LeaderIndex := 0,
               PlayerIDs := playerIDs, Roles := roles, MissionResults := [],
               Version := v\<rparr>"
    unfolding bootstrapAndStart_def Let_def
    by (simp split: sum.splits if_splits prod.splits) metis+
  then show ?thesis
    by (simp add: engine_state_def emptyState_def)
qed

lemma go_rem_less: "0 \<le> a \<Longrightarrow> 0 < b \<Longrightarrow> go_rem a b < b"
  by (simp add: go_rem_mod)

lemma accepted_counters:
  assumes c: "counters_in_range s"
    and n: "int (length (PlayerIDs s)) < 9223372036854775807"
    and l: "LeaderIndex s \<le> int (length (PlayerIDs s))"
    and acc: "accepted e s actor moveType pl next evs"
  shows "0 \<le> LeaderIndex next \<and> LeaderIndex next \<le> int (length (PlayerIDs next)) \<and>
         0 \<le> RejectCount next \<and> RejectCount next \<le> RejectCount s + 1 \<and>
         0 \<le> RoundIndex next \<and> RoundIndex next \<le> RoundIndex s + 1"
proof -
  have w: "wrap64 (LeaderIndex s + 1) = LeaderIndex s + 1"
    "wrap64 (RejectCount s + 1) = RejectCount s + 1"
    "wrap64 (RoundIndex s + 1) = RoundIndex s + 1"
    using c by (simp_all add: counters_in_range_def wrap64_succ)
  have g: "0 \<le> go_rem (LeaderIndex s + 1) (int (length (PlayerIDs s)))"
    using c by (intro go_rem_nonneg) (simp add: counters_in_range_def)
  have g': "go_rem (LeaderIndex s + 1) (int (length (PlayerIDs s))) \<le> int (length (PlayerIDs s))"
    if "actor \<in> set (PlayerIDs s)"
  proof -
    from that have "PlayerIDs s \<noteq> []" by auto
    then have "go_rem (LeaderIndex s + 1) (int (length (PlayerIDs s))) < int (length (PlayerIDs s))"
      using c by (intro go_rem_less) (simp_all add: counters_in_range_def)
    then show ?thesis by simp
  qed
  from acc consider
      (team) "actor \<in> set (PlayerIDs s)" "applyVote_TeamVote e s actor pl = Inr (next, evs)"
    | (mission) "actor \<in> set (PlayerIDs s)" "applyVote_MissionVote e s actor pl = Inr (next, evs)"
    | (action) "applyAction e s actor pl = Inr (next, evs)"
    by (auto simp: accepted_def applyVote_def isPlayerInGame_def split: if_splits)
  then show ?thesis
  proof cases
    case team
    from applyVote_TeamVote_cases [OF team(2)] show ?thesis
      using c l g g' [OF team(1)] by (auto simp: w counters_in_range_def)
  next
    case mission
    from applyVote_MissionVote_cases [OF mission(2)] show ?thesis
      using c l g g' [OF mission(1)] by (auto simp: w counters_in_range_def)
  next
    case action
    from applyAction_cases [OF this] show ?thesis
      using c l by (auto simp: counters_in_range_def)
  qed
qed

lemma bootstrap_counters:
  assumes "bootstrapAndStart e env db gameID actor = (Inr (state, evs), db')"
  shows "LeaderIndex state = 0 \<and> RejectCount state = 0 \<and> RoundIndex state = 1"
proof -
  from assms obtain playerIDs roles v where
    "state = emptyState\<lparr>GameID := gameID, Phase := PhaseTeamSelection,
               Status := ''in_progress'', RoundIndex := 1, LeaderIndex := 0,
               PlayerIDs := playerIDs, Roles := roles, MissionResults := [],
               Version := v\<rparr>"
    unfolding bootstrapAndStart_def Let_def
    by (simp split: sum.splits if_splits prod.splits) metis+
  then show ?thesis
    by (simp add: emptyState_def)
qed

text \<open>
  What the JSON encoding of the store keeps: the state stored at the start comes back as the
  initial state, encoded field by field, and the encoding keeps \<open>engine_state\<close>.
\<close>

lemma StateFromMap_json_start:
  "StateFromMap (json_map (AList.update ''team_sizes'' v (ToMap s))) = json_state s"
proof -
  let ?m = "AList.update ''team_sizes'' v (ToMap s)"
  have d: "distinct (map fst ?m)"
    by (simp add: distinct_update ToMap_keys(1))
  have "fst ` set ?m = insert ''team_sizes'' (fst ` set (ToMap s))"
    by (simp add: dom_update)
  moreover have "json_string ''team_sizes'' = ''team_sizes''"
    by (simp add: json_string_ascii)
  ultimately have k: "\<forall>k \<in> fst ` set ?m. json_string k = k"
    using ToMap_keys_utf8 [of s] by auto
  have p: "pget (json_map ?m) k = json_value (pget (ToMap s) k)" if "k \<noteq> ''team_sizes''" for k
    using that by (simp add: json_map_keys [OF k d] pget_map_values pget_update)
  have "StateFromMap (json_map ?m) = StateFromMap (json_map (ToMap s))"
    unfolding StateFromMap_def by (simp add: p pget_json_ToMap)
  then show ?thesis
    by (simp add: StateFromMap_json_state)
qed

lemma json_string_results:
  "set xs \<subseteq> {''success'', ''fail''} \<Longrightarrow> map json_string xs = xs"
  by (induction xs) (auto simp: json_string_ascii)

lemma json_state_engine_state:
  assumes "engine_state x" and "Status x \<in> {''in_progress'', ''finished''}"
  shows "engine_state (json_state x) \<and> Status (json_state x) = Status x"
proof -
  have st: "json_string (Status x) = Status x"
    using assms(2) by (auto simp: json_string_ascii)
  have ph: "Status x = ''finished'' \<Longrightarrow> json_string (Phase x) = PhaseFinished"
    using assms(1) by (simp add: engine_state_def json_string_ascii)
  have "set (map json_string (ProposedTeam x)) \<subseteq> set (map json_string (PlayerIDs x))"
    using assms(1) by (auto simp: engine_state_def)
  moreover have "map json_string (MissionResults x) = MissionResults x"
    using assms(1) by (intro json_string_results) (simp add: engine_state_def)
  ultimately show ?thesis
    using assms(1) st ph by (simp add: engine_state_def json_state_def)
qed

text \<open>
  Every state a game goes through, as long as the configuration admits at most \<open>2^53\<close>
  players and fewer than \<open>2^53\<close> moves were made (each of them writes a snapshot, and the
  versions of a game are 32-bit integers): it is an \<open>engine_state\<close>, the leader index points into
  the players or just behind them, and the reject count and the round index are bounded by
  the number of moves. So the hypotheses of the theorems on votes hold of it.
\<close>

lemma initialState_cases:
  assumes "initialState e env db gameID = Inr (state, stateMap)"
  shows "\<exists>playerIDs roles ts.
           state = emptyState\<lparr>GameID := gameID, Phase := PhaseTeamSelection,
                     Status := ''in_progress'', RoundIndex := 1, LeaderIndex := 0,
                     PlayerIDs := playerIDs, Roles := roles, MissionResults := []\<rparr> \<and>
           stateMap = AList.update ''team_sizes'' (DInts ts) (ToMap state) \<and>
           int (length playerIDs) \<le> MaxPlayers e"
  using assms unfolding initialState_def Let_def
  by (auto split: sum.splits if_splits)

lemma accepted_status:
  assumes "accepted e s actor moveType pl next evs"
  shows "Status next = Status s \<or> Status next = ''finished''"
proof -
  from assms consider
      (team) "applyVote_TeamVote e s actor pl = Inr (next, evs)"
    | (mission) "applyVote_MissionVote e s actor pl = Inr (next, evs)"
    | (action) "applyAction e s actor pl = Inr (next, evs)"
    by (auto simp: accepted_def applyVote_def split: if_splits)
  then show ?thesis
  proof cases
    case team
    from applyVote_TeamVote_cases [OF this] show ?thesis by auto
  next
    case mission
    from applyVote_MissionVote_cases [OF this] show ?thesis by auto
  next
    case action
    from applyAction_cases [OF this] show ?thesis by auto
  qed
qed

lemma json_state_fields:
  "LeaderIndex (json_state x) = json_int (LeaderIndex x)"
  "RejectCount (json_state x) = json_int (RejectCount x)"
  "RoundIndex (json_state x) = json_int (RoundIndex x)"
  "length (PlayerIDs (json_state x)) = length (PlayerIDs x)"
  by (simp_all add: json_state_def)

lemma played_invariant:
  assumes "played e k s" and "MaxPlayers e \<le> 9007199254740992" and "k < 9007199254740992"
  shows "engine_state s \<and> Status s \<in> {''in_progress'', ''finished''} \<and>
         0 \<le> LeaderIndex s \<and> LeaderIndex s \<le> int (length (PlayerIDs s)) \<and>
         int (length (PlayerIDs s)) \<le> MaxPlayers e \<and>
         0 \<le> RejectCount s \<and> RejectCount s \<le> int k \<and>
         0 \<le> RoundIndex s \<and> RoundIndex s \<le> int k + 1"
  using assms
proof (induction rule: played.induct)
  case (started env db gameID state stateMap)
  from initialState_cases [OF started.hyps] obtain playerIDs roles ts where
    s: "state = emptyState\<lparr>GameID := gameID, Phase := PhaseTeamSelection,
                     Status := ''in_progress'', RoundIndex := 1, LeaderIndex := 0,
                     PlayerIDs := playerIDs, Roles := roles, MissionResults := []\<rparr>"
    and m: "stateMap = AList.update ''team_sizes'' (DInts ts) (ToMap state)"
    and n: "int (length playerIDs) \<le> MaxPlayers e"
    by blast
  have r: "StateFromMap (json_map stateMap) = json_state state"
    unfolding m by (rule StateFromMap_json_start)
  have es: "engine_state state" "Status state \<in> {''in_progress'', ''finished''}"
    by (simp_all add: s engine_state_def emptyState_def)
  have i: "json_int 0 = 0" "json_int 1 = 1"
    by (simp_all add: json_int_exact float_exact_def)
  have f: "LeaderIndex state = 0" "RejectCount state = 0" "RoundIndex state = 1"
    "PlayerIDs state = playerIDs" "Status state = ''in_progress''"
    by (simp_all add: s emptyState_def)
  show ?case
    unfolding r using json_state_engine_state [OF es] n
    by (simp add: json_state_fields f i)
next
  case (moved k s actor moveType pl "next" evs)
  from moved.prems have k: "k < 9007199254740992" by simp
  note ih = moved.IH [OF moved.prems(1) k]
  from ih have es: "engine_state s" by simp
  from accepted_engine_state [OF es moved.hyps(3) moved.hyps(4)] have
    en: "engine_state next" and pn: "PlayerIDs next = PlayerIDs s"
    by simp_all
  have sn: "Status next \<in> {''in_progress'', ''finished''}"
    using accepted_status [OF moved.hyps(4)] ih by auto
  have c: "counters_in_range s"
    using ih moved.prems(1) k by (simp add: counters_in_range_def)
  have n: "int (length (PlayerIDs s)) < 9223372036854775807"
    using ih moved.prems(1) by simp
  have l: "LeaderIndex s \<le> int (length (PlayerIDs s))"
    using ih by simp
  note ac = accepted_counters [OF c n l moved.hyps(4)]
  have fe: "float_exact (LeaderIndex next)" "float_exact (RejectCount next)"
    "float_exact (RoundIndex next)"
    using ac ih pn moved.prems by (simp_all add: float_exact_def)
  show ?case
    unfolding StateFromMap_json_state
    using json_state_engine_state [OF en sn] sn ac ih pn
    by (simp add: json_state_fields json_int_exact [OF fe(1)] json_int_exact [OF fe(2)]
        json_int_exact [OF fe(3)])
qed

lemma played_counters_in_range:
  assumes "played e k s" and "MaxPlayers e \<le> 9007199254740992" and "k < 9007199254740992"
  shows "engine_state s \<and> counters_in_range s"
  using played_invariant [OF assms] assms(2,3)
  by (simp add: counters_in_range_def)

text \<open>
  The version inside a stored state. For an accepted move whose writes succeed, the snapshot
  row \<^verbatim>\<open>ApplyMove\<close> inserts has the version the returned state carries, but the state stored
  in that row has the version field of the state that was read: \<^verbatim>\<open>ToMap\<close> is called before
  the new version is assigned. Read back by \<^verbatim>\<open>GetState\<close>, and so in the reply to sync_state,
  the version of the state is not the version of its snapshot. (The version read is at most
  \<open>2^53\<close> in absolute value, so that JSON keeps it.)
\<close>


theorem stored_state_keeps_old_version:
  assumes st: "GetState env db gameID = Inr (Some state)"
    and nb: "\<not> (Phase state = PhaseLobby \<and> PlayerIDs state = [])"
    and nf: "Status state \<noteq> ''finished''"
    and a: "a < length h"
    and ok: "accepted e state actor moveType (h ! a) next evs"
    and res: "ApplyMove e env db h gameID actor moveType (Some a) = (Inr (state', evs'), db', h')"
    and fe: "float_exact (Version state)"
  shows "\<exists>row. game_state_snapshots db' = game_state_snapshots db @ [row] \<and>
               snap_version row = Version state' \<and>
               Version (StateFromMap (snap_state_json row)) = Version state"
proof -
  from res obtain db1 v db2 where
    w: "CreateOrUpdateSnapshot env db1 gameID (ToMap next) = Inr (v, db2)"
    and e1: "game_state_snapshots db1 = game_state_snapshots db"
    and s': "state' = next\<lparr>Version := v\<rparr>"
    and d': "game_state_snapshots db' = game_state_snapshots db2"
    unfolding ApplyMove_accepted [OF st nb nf a ok] Let_def
    by (auto simp: CreateGameEvent_def Let_def dest!: UpdateGameStatus_frame
        split: sum.splits if_splits prod.splits option.splits)
  from CreateOrUpdateSnapshot_frame [OF w] have
    "game_state_snapshots db2 = game_state_snapshots db1 @
       [\<lparr>snap_game_id = gameID, snap_version = v, snap_state_json = json_map (ToMap next)\<rparr>]"
    by simp
  then show ?thesis
    using e1 s' d' accepted_version [OF ok] fe
    by (simp add: StateFromMap_json_state json_state_def json_int_exact)
qed

lemma ex_full_write:
  "ApplyMove (NewEngine ClassicAvalonConfig) ex_env (ex_db ex_team_vote_state) ex_vote_heap
       ''g1'' ''p3'' ''vote'' (Some 0) =
     (Inr (ex_rejected_state\<lparr>Version := 3\<rparr>, ex_rejected_events),
      (ex_db ex_team_vote_state)\<lparr>
         game_events :=
           [\<lparr>ev_game_id = ''g1'', ev_room_player_id = Some ''p3'', ev_type = ''vote'',
             ev_payload_json = [(''approved'', DBool False), (''move_type'', DString ''vote'')]\<rparr>],
         game_state_snapshots := game_state_snapshots (ex_db ex_team_vote_state) @
           [\<lparr>snap_game_id = ''g1'', snap_version = 3,
             snap_state_json = json_map (ToMap ex_rejected_state)\<rparr>]\<rparr>,
      [[(''approved'', DBool False), (''move_type'', DString ''vote'')]])"
proof -
  have st: "GetState ex_env (ex_db ex_team_vote_state) ''g1'' = Inr (Some ex_team_vote_state)"
    by (simp add: GetState_ex_db_env ex_env_simps ex_states_json_exact)
  have a: "0 < length ex_vote_heap"
    by (simp add: ex_vote_heap_def)
  have nf: "Status ex_rejected_state \<noteq> ''finished''"
    by (simp add: ex_rejected_state_def ex_team_vote_state_def emptyState_def)
  have ev: "CreateGameEvent ex_env (ex_db ex_team_vote_state)
              \<lparr>req_GameID = ''g1'', req_RoomPlayerID = Some ''p3'', req_Type = ''vote'',
               req_Payload = [(''approved'', DBool False), (''move_type'', DString ''vote'')]\<rparr> =
            Inr ((ex_db ex_team_vote_state)\<lparr>game_events :=
              [\<lparr>ev_game_id = ''g1'', ev_room_player_id = Some ''p3'', ev_type = ''vote'',
                ev_payload_json = [(''approved'', DBool False), (''move_type'', DString ''vote'')]\<rparr>]\<rparr>)"
    by (simp add: CreateGameEvent_def ex_env_simps ex_db_simps ex_vote_payload_json)
  have sn: "CreateOrUpdateSnapshot ex_env ((ex_db ex_team_vote_state)\<lparr>game_events := evs\<rparr>) ''g1'' m =
            Inr (3, (ex_db ex_team_vote_state)\<lparr>game_events := evs,
                   game_state_snapshots := game_state_snapshots (ex_db ex_team_vote_state) @
                     [\<lparr>snap_game_id = ''g1'', snap_version = 3, snap_state_json = json_map m\<rparr>]\<rparr>)"
    for evs m
    by (simp add: CreateOrUpdateSnapshot_def ex_env_simps ex_db_simps latest_ex_db wrap32_def
        CreateGameStateSnapshot_def) (simp add: ex_db_def)
  show ?thesis
    unfolding ApplyMove_accepted [OF st ex_team_vote_state_running a ex_vote_accepted] Let_def
    by (simp add: ex_vote_heap_def ev sn nf)
qed

theorem stored_state_keeps_old_version_witness:
  "Version (ex_rejected_state\<lparr>Version := 3\<rparr>) = 3 \<and>
   Version ex_team_vote_state = 0 \<and>
   (\<exists>row. game_state_snapshots (fst (snd (ApplyMove (NewEngine ClassicAvalonConfig) ex_env
              (ex_db ex_team_vote_state) ex_vote_heap ''g1'' ''p3'' ''vote'' (Some 0)))) =
            game_state_snapshots (ex_db ex_team_vote_state) @ [row] \<and>
          snap_version row = 3 \<and>
          Version (StateFromMap (snap_state_json row)) = 0)"
proof -
  have st: "GetState ex_env (ex_db ex_team_vote_state) ''g1'' = Inr (Some ex_team_vote_state)"
    by (simp add: GetState_ex_db_env ex_env_simps ex_states_json_exact)
  have a: "0 < length ex_vote_heap"
    by (simp add: ex_vote_heap_def)
  have v0: "Version ex_team_vote_state = 0"
    by (simp add: ex_team_vote_state_def emptyState_def)
  have fe: "float_exact (Version ex_team_vote_state)"
    by (simp add: v0 float_exact_def)
  from stored_state_keeps_old_version
    [OF st ex_team_vote_state_running a ex_vote_accepted ex_full_write fe]
  show ?thesis
    unfolding ex_full_write using v0 by simp
qed

end
